theory Spec2Isabelle
  imports Complex_Main "HOL-Library.AList" "HOL-Library.Log_Nat"
begin

chapter \<open>Risk-gated multi-account order replication: model of the Python sources\<close>

text \<open>
  The model follows \<^verbatim>\<open>mt5_replicator.py\<close> and \<^verbatim>\<open>mt5_risk_manager.py\<close>, and
  the order queue of \<^verbatim>\<open>mt5_integration.py\<close>.
  Python floats are modelled as reals (the rounding of the volume to the volume step
  apart, where the floating-point operations are modelled as such), Python ints as
  \<open>int\<close>/\<open>nat\<close>, dictionaries
  with a fixed key set as records, dictionaries that are iterated as association lists
  in insertion order. Calls to the MetaTrader gateway are inputs of the model.
\<close>

section \<open>Replication configuration and orders (mt5\_replicator.py)\<close>

text \<open>The dictionary \<^verbatim>\<open>replication_config\<close> of \<^verbatim>\<open>MT5OrderReplicator.__init__\<close>.\<close>

record replication_config =
  cfg_enabled :: bool
  cfg_volume_multiplier :: real
  cfg_reverse_direction :: bool
  cfg_symbols_filter :: "string list"
  cfg_max_volume :: real
  cfg_min_volume :: real
  cfg_delay_seconds :: real
  cfg_include_sl_tp :: bool
  cfg_adjust_sl_tp_percent :: real

definition default_replication_config :: replication_config where
  "default_replication_config =
     \<lparr> cfg_enabled = False, cfg_volume_multiplier = 1, cfg_reverse_direction = False,
       cfg_symbols_filter = [], cfg_max_volume = 0, cfg_min_volume = 0,
       cfg_delay_seconds = 0, cfg_include_sl_tp = True, cfg_adjust_sl_tp_percent = 0 \<rparr>"

text \<open>
  A dictionary passed to \<^verbatim>\<open>set_replication_config\<close>: any subset of the keys.
  \<^verbatim>\<open>dict.update\<close> overrides exactly the keys that are present.
\<close>

record config_patch =
  new_enabled :: "bool option"
  new_volume_multiplier :: "real option"
  new_reverse_direction :: "bool option"
  new_symbols_filter :: "string list option"
  new_max_volume :: "real option"
  new_min_volume :: "real option"
  new_delay_seconds :: "real option"
  new_include_sl_tp :: "bool option"
  new_adjust_sl_tp_percent :: "real option"

definition dict_get :: "'a option \<Rightarrow> 'a \<Rightarrow> 'a" where
  "dict_get v d = (case v of None \<Rightarrow> d | Some x \<Rightarrow> x)"

definition empty_patch :: config_patch where
  "empty_patch =
     \<lparr> new_enabled = None, new_volume_multiplier = None, new_reverse_direction = None,
       new_symbols_filter = None, new_max_volume = None, new_min_volume = None,
       new_delay_seconds = None, new_include_sl_tp = None,
       new_adjust_sl_tp_percent = None \<rparr>"

definition dict_update :: "replication_config \<Rightarrow> config_patch \<Rightarrow> replication_config" where
  "dict_update c p =
     \<lparr> cfg_enabled = dict_get (new_enabled p) (cfg_enabled c),
       cfg_volume_multiplier = dict_get (new_volume_multiplier p) (cfg_volume_multiplier c),
       cfg_reverse_direction = dict_get (new_reverse_direction p) (cfg_reverse_direction c),
       cfg_symbols_filter = dict_get (new_symbols_filter p) (cfg_symbols_filter c),
       cfg_max_volume = dict_get (new_max_volume p) (cfg_max_volume c),
       cfg_min_volume = dict_get (new_min_volume p) (cfg_min_volume c),
       cfg_delay_seconds = dict_get (new_delay_seconds p) (cfg_delay_seconds c),
       cfg_include_sl_tp = dict_get (new_include_sl_tp p) (cfg_include_sl_tp c),
       cfg_adjust_sl_tp_percent =
         dict_get (new_adjust_sl_tp_percent p) (cfg_adjust_sl_tp_percent c) \<rparr>"

text \<open>\<^verbatim>\<open>get_replication_config()\<close> returns a copy, so the whole configuration as a patch.\<close>

definition as_patch :: "replication_config \<Rightarrow> config_patch" where
  "as_patch c =
     \<lparr> new_enabled = Some (cfg_enabled c),
       new_volume_multiplier = Some (cfg_volume_multiplier c),
       new_reverse_direction = Some (cfg_reverse_direction c),
       new_symbols_filter = Some (cfg_symbols_filter c),
       new_max_volume = Some (cfg_max_volume c),
       new_min_volume = Some (cfg_min_volume c),
       new_delay_seconds = Some (cfg_delay_seconds c),
       new_include_sl_tp = Some (cfg_include_sl_tp c),
       new_adjust_sl_tp_percent = Some (cfg_adjust_sl_tp_percent c) \<rparr>"

text \<open>
  A source order is a dictionary read with \<^verbatim>\<open>order.get(key, default)\<close>; a field is
  \<open>None\<close> when the key is missing. The order type is 0 for BUY and 1 for SELL.
\<close>

record order =
  o_ticket :: "int option"
  o_symbol :: "string option"
  o_type :: "int option"
  o_volume :: "real option"
  o_sl :: "real option"
  o_tp :: "real option"
  o_comment :: "string option"

text \<open>The keyword arguments of \<^verbatim>\<open>target_backend.execute_order\<close>.\<close>

record exec_request =
  rq_action :: string
  rq_symbol :: string
  rq_volume :: real
  rq_sl :: real
  rq_tp :: real
  rq_comment :: string

text \<open>Decimal rendering of an integer, as an f-string does it.\<close>

fun str_nat :: "nat \<Rightarrow> string" where
  "str_nat n = (if n < 10 then [''0123456789'' ! n]
                else str_nat (n div 10) @ [''0123456789'' ! (n mod 10)])"

declare str_nat.simps [simp del]

definition str_int :: "int \<Rightarrow> string" where
  "str_int i = (if i < 0 then CHR ''-'' # str_nat (nat (- i)) else str_nat (nat i))"

definition str_ticket :: "int option \<Rightarrow> string" where
  "str_ticket t = (case t of None \<Rightarrow> ''None'' | Some i \<Rightarrow> str_int i)"

text \<open>\<^verbatim>\<open>_should_replicate_order\<close>: symbol allow-list, minimum and maximum volume.\<close>

definition should_replicate_order :: "order \<Rightarrow> replication_config \<Rightarrow> bool" where
  "should_replicate_order ord config =
     (let symbol = dict_get (o_symbol ord) [];
          volume = dict_get (o_volume ord) 0
      in if cfg_symbols_filter config \<noteq> [] \<and> symbol \<notin> set (cfg_symbols_filter config)
         then False
         else if cfg_min_volume config > 0 \<and> volume < cfg_min_volume config then False
         else if cfg_max_volume config > 0 \<and> volume > cfg_max_volume config then False
         else True)"

text \<open>
  The transformation part of \<^verbatim>\<open>_replicate_order\<close>: the arguments handed to
  \<^verbatim>\<open>execute_order\<close>, or \<open>None\<close> when the order type is neither 0 nor 1 (the function
  then returns an error dictionary without calling the target).
\<close>

definition replicate_action :: "order \<Rightarrow> replication_config \<Rightarrow> string option" where
  "replicate_action ord config =
     (if o_type ord = Some 0
      then Some (if cfg_reverse_direction config then ''SELL'' else ''BUY'')
      else if o_type ord = Some 1
      then Some (if cfg_reverse_direction config then ''BUY'' else ''SELL'')
      else None)"

definition adjust_sl :: "string \<Rightarrow> replication_config \<Rightarrow> real \<Rightarrow> real" where
  "adjust_sl action config sl =
     (if \<not> cfg_include_sl_tp config then 0
      else if cfg_adjust_sl_tp_percent config \<noteq> 0
      then (if sl \<noteq> 0
            then (if action = ''BUY'' then sl * (1 - cfg_adjust_sl_tp_percent config / 100)
                  else sl * (1 + cfg_adjust_sl_tp_percent config / 100))
            else sl)
      else sl)"

definition adjust_tp :: "string \<Rightarrow> replication_config \<Rightarrow> real \<Rightarrow> real" where
  "adjust_tp action config tp =
     (if \<not> cfg_include_sl_tp config then 0
      else if cfg_adjust_sl_tp_percent config \<noteq> 0
      then (if tp \<noteq> 0
            then (if action = ''BUY'' then tp * (1 + cfg_adjust_sl_tp_percent config / 100)
                  else tp * (1 - cfg_adjust_sl_tp_percent config / 100))
            else tp)
      else tp)"

definition replicate_request :: "order \<Rightarrow> replication_config \<Rightarrow> exec_request option" where
  "replicate_request ord config =
     (let volume0 = dict_get (o_volume ord) 0 * cfg_volume_multiplier config;
          volume = (if cfg_max_volume config > 0 then min volume0 (cfg_max_volume config)
                    else volume0)
      in case replicate_action ord config of
           None \<Rightarrow> None
         | Some action \<Rightarrow>
             Some \<lparr> rq_action = action,
                    rq_symbol = dict_get (o_symbol ord) [],
                    rq_volume = volume,
                    rq_sl = adjust_sl action config (dict_get (o_sl ord) 0),
                    rq_tp = adjust_tp action config (dict_get (o_tp ord) 0),
                    rq_comment = ''REP:'' @ str_ticket (o_ticket ord) @ '':''
                                 @ dict_get (o_comment ord) [] \<rparr>)"

text \<open>
  What \<^verbatim>\<open>execute_order\<close> of a target does is outside the replicator: it returns
  \<^verbatim>\<open>None\<close>, a result dictionary with a \<^verbatim>\<open>success\<close> entry, or raises.
\<close>

datatype exec_reply = Reply_None | Reply_Result bool | Reply_Raises

text \<open>
  \<^verbatim>\<open>_replicate_order\<close>: the truth value of \<^verbatim>\<open>result and result.get("success")\<close>
  that the caller tests. An unsupported type and an exception both give a dictionary with
  \<^verbatim>\<open>success = False\<close>.
\<close>

definition replicate_order :: "order \<Rightarrow> (exec_request \<Rightarrow> exec_reply) \<Rightarrow> replication_config \<Rightarrow> bool" where
  "replicate_order ord execute_order config =
     (case replicate_request ord config of
        None \<Rightarrow> False
      | Some rq \<Rightarrow>
          (case execute_order rq of
             Reply_None \<Rightarrow> False
           | Reply_Result ok \<Rightarrow> ok
           | Reply_Raises \<Rightarrow> False))"

section \<open>The replication pipeline of one source account\<close>

text \<open>
  Backends are objects compared by identity; the model names each by a number. What a
  backend answers (\<^verbatim>\<open>check_connection\<close>, \<^verbatim>\<open>execute_order\<close>) is an input.
\<close>

type_synonym backend = nat

record gateway =
  gw_connected :: "backend \<Rightarrow> bool"
  gw_execute :: "backend \<Rightarrow> exec_request \<Rightarrow> exec_reply"

text \<open>
  The fields of \<^verbatim>\<open>MT5OrderReplicator\<close> that the loops read and write. The queue is a
  FIFO list; \<^verbatim>\<open>processed_orders\<close> is a Python set of tickets.
\<close>

record replicator =
  r_source :: "backend option"
  r_targets :: "backend list"
  r_running :: bool
  r_queue :: "order list"
  r_processed :: "int set"
  r_config :: replication_config

definition new_replicator :: "backend option \<Rightarrow> backend list \<Rightarrow> replicator" where
  "new_replicator source targets =
     \<lparr> r_source = source, r_targets = targets, r_running = False, r_queue = [],
       r_processed = {}, r_config = default_replication_config \<rparr>"

definition add_target_backend :: "backend \<Rightarrow> replicator \<Rightarrow> replicator" where
  "add_target_backend b r =
     (if b \<in> set (r_targets r) then r else r\<lparr> r_targets := r_targets r @ [b] \<rparr>)"

definition set_replication_config :: "config_patch \<Rightarrow> replicator \<Rightarrow> replicator" where
  "set_replication_config p r = r\<lparr> r_config := dict_update (r_config r) p \<rparr>"

definition get_replication_config :: "replicator \<Rightarrow> replication_config" where
  "get_replication_config r = r_config r"

text \<open>\<^verbatim>\<open>MT5OrderReplicator.start_replication\<close> and \<^verbatim>\<open>stop_replication\<close>.\<close>

definition start_replicator :: "gateway \<Rightarrow> replicator \<Rightarrow> replicator \<times> bool" where
  "start_replicator gw r =
     (if r_running r then (r, True)
      else case r_source r of
        None \<Rightarrow> (r, False)
      | Some src \<Rightarrow>
          if \<not> gw_connected gw src then (r, False)
          else if r_targets r = [] then (r, False)
          else if list_ex (\<lambda>t. \<not> gw_connected gw t) (r_targets r) then (r, False)
          else (r\<lparr> r_config := (r_config r)\<lparr> cfg_enabled := True \<rparr>, r_running := True \<rparr>,
                True))"

definition stop_replicator :: "replicator \<Rightarrow> replicator \<times> bool" where
  "stop_replicator r =
     (if \<not> r_running r then (r, True)
      else (r\<lparr> r_config := (r_config r)\<lparr> cfg_enabled := False \<rparr>, r_running := False \<rparr>,
            True))"

subsection \<open>The monitor loop\<close>

text \<open>
  The body of the \<^verbatim>\<open>for order in orders\<close> loop: an order is new when its ticket is
  truthy (present and not 0) and not in the processed set; it is then added to the set at
  once, so a ticket repeated inside one batch is taken once.
\<close>

fun filter_new :: "order list \<Rightarrow> int set \<Rightarrow> order list \<times> int set" where
  "filter_new [] processed = ([], processed)"
| "filter_new (ord # orders) processed =
     (case o_ticket ord of
        None \<Rightarrow> filter_new orders processed
      | Some order_id \<Rightarrow>
          if order_id \<noteq> 0 \<and> order_id \<notin> processed
          then (let (new_orders, processed') = filter_new orders (insert order_id processed)
                in (ord # new_orders, processed'))
          else filter_new orders processed)"

text \<open>
  \<^verbatim>\<open>set(list(self.processed_orders)[-5000:])\<close> when the set holds more than 10000
  tickets. The order in which Python lists a set is fixed by the interpreter, not by the
  program: it is the parameter \<open>listing\<close>.
\<close>

definition evict :: "(int set \<Rightarrow> int list) \<Rightarrow> int set \<Rightarrow> int set" where
  "evict listing processed =
     (if card processed > 10000
      then set (drop (length (listing processed) - 5000) (listing processed))
      else processed)"

text \<open>What \<^verbatim>\<open>get_orders_history\<close> of the source gives: an exception, \<^verbatim>\<open>None\<close> or a list.\<close>

datatype history_reply = History_Raises | History_None | History "order list"

text \<open>The set after the \<^verbatim>\<open>for\<close> loop of one monitor iteration, before the size limit.\<close>

definition monitor_seen :: "bool \<Rightarrow> history_reply \<Rightarrow> replicator \<Rightarrow> int set" where
  "monitor_seen source_connected reply r =
     (if \<not> cfg_enabled (r_config r) then r_processed r
      else if \<not> source_connected then r_processed r
      else case reply of
        History_Raises \<Rightarrow> r_processed r
      | History_None \<Rightarrow> r_processed r
      | History orders \<Rightarrow> snd (filter_new orders (r_processed r)))"

text \<open>One iteration of \<^verbatim>\<open>_monitor_loop\<close> while \<^verbatim>\<open>running\<close> holds.\<close>

definition monitor_iteration ::
  "(int set \<Rightarrow> int list) \<Rightarrow> bool \<Rightarrow> history_reply \<Rightarrow> replicator \<Rightarrow> replicator" where
  "monitor_iteration listing source_connected reply r =
     (if \<not> cfg_enabled (r_config r) then r
      else if \<not> source_connected then r
      else case reply of
        History_Raises \<Rightarrow> r
      | History_None \<Rightarrow> r
      | History orders \<Rightarrow>
          r\<lparr> r_queue := r_queue r @ fst (filter_new orders (r_processed r)),
             r_processed := evict listing (snd (filter_new orders (r_processed r))) \<rparr>)"

subsection \<open>The replication loop\<close>

text \<open>
  What happens to a dequeued order at one target: the target is skipped when it is not
  connected, the order is refused when its type is unsupported, else
  \<^verbatim>\<open>execute_order\<close> is called once and its result is logged.
\<close>

datatype outcome = Disconnected | Unsupported | Executed exec_request bool

record dispatch =
  d_ticket :: "int option"
  d_target :: backend
  d_outcome :: outcome

definition dispatch_one :: "gateway \<Rightarrow> order \<Rightarrow> replication_config \<Rightarrow> backend \<Rightarrow> dispatch" where
  "dispatch_one gw ord config target =
     \<lparr> d_ticket = o_ticket ord, d_target = target,
       d_outcome =
         (if \<not> gw_connected gw target then Disconnected
          else case replicate_request ord config of
            None \<Rightarrow> Unsupported
          | Some rq \<Rightarrow> Executed rq (replicate_order ord (gw_execute gw target) config)) \<rparr>"

text \<open>
  One iteration of \<^verbatim>\<open>_replication_loop\<close> while \<^verbatim>\<open>running\<close> holds: the new state
  and the dispatches of this iteration. \<^verbatim>\<open>queue.get\<close> removes the order; nothing puts
  it back.
\<close>

definition replication_iteration :: "gateway \<Rightarrow> replicator \<Rightarrow> replicator \<times> dispatch list" where
  "replication_iteration gw r =
     (case r_queue r of
        [] \<Rightarrow> (r, [])
      | ord # rest \<Rightarrow>
          if \<not> cfg_enabled (r_config r) then (r\<lparr> r_queue := rest \<rparr>, [])
          else if \<not> should_replicate_order ord (r_config r) then (r\<lparr> r_queue := rest \<rparr>, [])
          else (r\<lparr> r_queue := rest \<rparr>,
                map (dispatch_one gw ord (r_config r)) (r_targets r)))"

text \<open>The calls of \<^verbatim>\<open>execute_order\<close> for ticket \<open>t\<close> at target \<open>b\<close> in a log.\<close>

definition is_execute :: "int \<Rightarrow> backend \<Rightarrow> dispatch \<Rightarrow> bool" where
  "is_execute t b d =
     (d_ticket d = Some t \<and> d_target d = b \<and>
      (case d_outcome d of Executed rq ok \<Rightarrow> True | Disconnected \<Rightarrow> False | Unsupported \<Rightarrow> False))"

definition executions :: "int \<Rightarrow> backend \<Rightarrow> dispatch list \<Rightarrow> nat" where
  "executions t b ds = length (filter (is_execute t b) ds)"

definition pending :: "int \<Rightarrow> order list \<Rightarrow> nat" where
  "pending t queue = length (filter (\<lambda>ord. o_ticket ord = Some t) queue)"

subsection \<open>Runs of the two loops\<close>

text \<open>
  The two threads share the queue; a run is an interleaving of monitor iterations (each
  with what the source answered) and replication iterations (each with what the targets
  answered). The state carries the log of all dispatches.
\<close>

datatype event = Monitor bool history_reply | Replicate gateway

fun run :: "(int set \<Rightarrow> int list) \<Rightarrow> event list \<Rightarrow> replicator \<times> dispatch list
            \<Rightarrow> replicator \<times> dispatch list" where
  "run listing [] s = s"
| "run listing (Monitor c h # es) s =
     run listing es (monitor_iteration listing c h (fst s), snd s)"
| "run listing (Replicate gw # es) s =
     run listing es (fst (replication_iteration gw (fst s)),
                     snd s @ snd (replication_iteration gw (fst s)))"

text \<open>
  Ticket \<open>t\<close> is never evicted along a run: whenever the size limit is applied, \<open>t\<close>
  survives it if it was in the set.
\<close>

fun never_evicted :: "(int set \<Rightarrow> int list) \<Rightarrow> int \<Rightarrow> event list \<Rightarrow> replicator \<Rightarrow> bool" where
  "never_evicted listing t [] r = True"
| "never_evicted listing t (Monitor c h # es) r =
     ((t \<in> r_processed (monitor_iteration listing c h r) \<or> t \<notin> monitor_seen c h r)
      \<and> never_evicted listing t es (monitor_iteration listing c h r))"
| "never_evicted listing t (Replicate gw # es) r =
     never_evicted listing t es (fst (replication_iteration gw r))"

text \<open>
  The invariant of a run for a ticket \<open>t\<close>: at most one copy of it is pending or has
  been executed at any target, and only once it is in the processed set.
\<close>

definition replicated_once :: "int \<Rightarrow> replicator \<times> dispatch list \<Rightarrow> bool" where
  "replicated_once t s =
     ((\<forall>b. pending t (r_queue (fst s)) + executions t b (snd s) \<le> 1)
      \<and> (t \<in> r_processed (fst s)
         \<or> (pending t (r_queue (fst s)) = 0 \<and> (\<forall>b. executions t b (snd s) = 0))))"

text \<open>
  How many copies of ticket \<open>t\<close> the monitor iterations of a run put into the queue.
\<close>

fun enqueued :: "(int set \<Rightarrow> int list) \<Rightarrow> int \<Rightarrow> event list \<Rightarrow> replicator \<Rightarrow> nat" where
  "enqueued listing t [] r = 0"
| "enqueued listing t (Monitor c h # es) r =
     (pending t (r_queue (monitor_iteration listing c h r)) - pending t (r_queue r))
     + enqueued listing t es (monitor_iteration listing c h r)"
| "enqueued listing t (Replicate gw # es) r =
     enqueued listing t es (fst (replication_iteration gw r))"

section \<open>The registry of replication groups (MT5MultiAccountReplicator)\<close>

record replication_group =
  g_source :: string
  g_targets :: "string list"

text \<open>The three dictionaries of the registry, in insertion order.\<close>

record registry =
  m_backends :: "(string \<times> backend) list"
  m_replicators :: "(string \<times> replicator) list"
  m_groups :: "(string \<times> replication_group) list"

definition empty_registry :: registry where
  "empty_registry = \<lparr> m_backends = [], m_replicators = [], m_groups = [] \<rparr>"

definition add_account :: "string \<Rightarrow> backend \<Rightarrow> registry \<Rightarrow> registry \<times> bool" where
  "add_account account_id b m =
     (if map_of (m_backends m) account_id \<noteq> None then (m, False)
      else (m\<lparr> m_backends := AList.update account_id b (m_backends m) \<rparr>, True))"

text \<open>The backends of the valid targets, \<^verbatim>\<open>self.backends[target_id]\<close> for each.\<close>

definition backends_of :: "registry \<Rightarrow> string list \<Rightarrow> backend list" where
  "backends_of m ids = List.map_filter (map_of (m_backends m)) ids"

definition create_replication_group ::
  "string \<Rightarrow> string \<Rightarrow> string list \<Rightarrow> registry \<Rightarrow> registry \<times> bool" where
  "create_replication_group group_name source_account_id target_account_ids m =
     (if map_of (m_groups m) group_name \<noteq> None then (m, False)
      else case map_of (m_backends m) source_account_id of
        None \<Rightarrow> (m, False)
      | Some src \<Rightarrow>
          (let valid_targets =
                 filter (\<lambda>target_id. map_of (m_backends m) target_id \<noteq> None
                                     \<and> target_id \<noteq> source_account_id) target_account_ids;
               groups = AList.update group_name
                          \<lparr> g_source = source_account_id, g_targets = valid_targets \<rparr>
                          (m_groups m);
               rep = (case map_of (m_replicators m) source_account_id of
                        None \<Rightarrow> new_replicator (Some src) (backends_of m valid_targets)
                      | Some r \<Rightarrow> fold add_target_backend (backends_of m valid_targets) r)
           in (m\<lparr> m_groups := groups,
                  m_replicators := AList.update source_account_id rep (m_replicators m) \<rparr>,
               True)))"

text \<open>The replicator that serves a group: the one stored under the group's source.\<close>

definition group_replicator :: "registry \<Rightarrow> string \<Rightarrow> replicator option" where
  "group_replicator m group_name =
     (case map_of (m_groups m) group_name of
        None \<Rightarrow> None
      | Some grp \<Rightarrow> map_of (m_replicators m) (g_source grp))"

definition set_group_config :: "string \<Rightarrow> config_patch \<Rightarrow> registry \<Rightarrow> registry \<times> bool" where
  "set_group_config group_name p m =
     (case map_of (m_groups m) group_name of
        None \<Rightarrow> (m, False)
      | Some grp \<Rightarrow>
          (case map_of (m_replicators m) (g_source grp) of
             None \<Rightarrow> (m, False)
           | Some r \<Rightarrow>
               (m\<lparr> m_replicators :=
                     AList.update (g_source grp) (set_replication_config p r)
                       (m_replicators m) \<rparr>, True)))"

definition get_group_config :: "registry \<Rightarrow> string \<Rightarrow> replication_config option" where
  "get_group_config m group_name =
     (case group_replicator m group_name of
        None \<Rightarrow> None
      | Some r \<Rightarrow> Some (get_replication_config r))"

definition start_replication :: "gateway \<Rightarrow> string \<Rightarrow> registry \<Rightarrow> registry \<times> bool" where
  "start_replication gw group_name m =
     (case map_of (m_groups m) group_name of
        None \<Rightarrow> (m, False)
      | Some grp \<Rightarrow>
          (case map_of (m_replicators m) (g_source grp) of
             None \<Rightarrow> (m, False)
           | Some r \<Rightarrow>
               (m\<lparr> m_replicators :=
                     AList.update (g_source grp) (fst (start_replicator gw r))
                       (m_replicators m) \<rparr>,
                snd (start_replicator gw r))))"

text \<open>
  \<^verbatim>\<open>stop_replication(group_name)\<close>: the loop looks for another group with the same
  source whose configuration, read through \<^verbatim>\<open>get_group_config\<close>, is enabled.
\<close>

definition is_source_active :: "registry \<Rightarrow> string \<Rightarrow> string \<Rightarrow> bool" where
  "is_source_active m group_name source_account_id =
     list_ex (\<lambda>(other_group_name, other_group).
                other_group_name \<noteq> group_name
                \<and> g_source other_group = source_account_id
                \<and> (case get_group_config m other_group_name of
                     None \<Rightarrow> False
                   | Some other_config \<Rightarrow> cfg_enabled other_config))
             (m_groups m)"

definition stop_replication :: "string \<Rightarrow> registry \<Rightarrow> registry \<times> bool" where
  "stop_replication group_name m =
     (case map_of (m_groups m) group_name of
        None \<Rightarrow> (m, False)
      | Some grp \<Rightarrow>
          (case map_of (m_replicators m) (g_source grp) of
             None \<Rightarrow> (m, False)
           | Some r \<Rightarrow>
               if \<not> is_source_active m group_name (g_source grp)
               then (m\<lparr> m_replicators :=
                          AList.update (g_source grp) (fst (stop_replicator r))
                            (m_replicators m) \<rparr>,
                     snd (stop_replicator r))
               else (m\<lparr> m_replicators :=
                          AList.update (g_source grp)
                            (set_replication_config
                               ((as_patch (get_replication_config r))\<lparr> new_enabled := Some False \<rparr>)
                               r)
                            (m_replicators m) \<rparr>,
                     True)))"

section \<open>The order queue of the integration layer (mt5\_integration.py)\<close>

text \<open>
  \<^verbatim>\<open>MT5Integration._process_order_queue\<close> serves the list \<^verbatim>\<open>order_queue\<close> of the
  integration layer, which holds the orders to be passed between the expert advisor and
  the replicator; it is another queue than the one of the replication loop. What an
  attempt answers (\<^verbatim>\<open>_replicate_ea_order\<close> or \<^verbatim>\<open>_replicate_replicator_order\<close>,
  an exception counting as a failure) is an input: \<open>attempt\<close> maps the state of the
  outside world and the item to the answer and the next state. The events of a pass are
  the attempts, the pauses and the warnings, in order.
\<close>

datatype 'a sync_event = Attempt 'a | Sleep real | Warning 'a

text \<open>
  The loop \<^verbatim>\<open>while not success and attempts < retry_attempts\<close> for one item, entered
  with \<open>success\<close> false: the final value of \<open>success\<close>, the world and the events.
\<close>

function retry_loop ::
  "('w \<Rightarrow> 'a \<Rightarrow> bool \<times> 'w) \<Rightarrow> int \<Rightarrow> real \<Rightarrow> 'a \<Rightarrow> int \<Rightarrow> 'w
   \<Rightarrow> bool \<times> 'w \<times> 'a sync_event list" where
  "retry_loop attempt retry_attempts retry_delay item attempts w =
     (if attempts < retry_attempts
      then (if fst (attempt w item) then (True, snd (attempt w item), [Attempt item])
            else (let pause = (if attempts + 1 < retry_attempts then [Sleep retry_delay]
                               else []);
                      later = retry_loop attempt retry_attempts retry_delay item
                                (attempts + 1) (snd (attempt w item))
                  in (fst later, fst (snd later), Attempt item # pause @ snd (snd later))))
      else (False, w, []))"
  by pat_completeness auto
termination
  by (relation "measure (\<lambda>(attempt, retry_attempts, retry_delay, item, attempts, w).
                           nat (retry_attempts - attempts))") auto

declare retry_loop.simps [simp del]

text \<open>
  The \<^verbatim>\<open>for\<close> loop over the copy of the queue: the items appended back to the (emptied)
  queue, the world and the events. An item whose attempts all failed is appended once,
  with a warning.
\<close>

fun process_items ::
  "('w \<Rightarrow> 'a \<Rightarrow> bool \<times> 'w) \<Rightarrow> int \<Rightarrow> real \<Rightarrow> 'a list \<Rightarrow> 'w
   \<Rightarrow> 'a list \<times> 'w \<times> 'a sync_event list" where
  "process_items attempt retry_attempts retry_delay [] w = ([], w, [])"
| "process_items attempt retry_attempts retry_delay (item # items) w =
     (let tried = retry_loop attempt retry_attempts retry_delay item 0 w;
          later = process_items attempt retry_attempts retry_delay items (fst (snd tried))
      in if fst tried
         then (fst later, fst (snd later), snd (snd tried) @ snd (snd later))
         else (item # fst later, fst (snd later),
               snd (snd tried) @ Warning item # snd (snd later)))"

definition process_order_queue ::
  "('w \<Rightarrow> 'a \<Rightarrow> bool \<times> 'w) \<Rightarrow> int \<Rightarrow> real \<Rightarrow> 'a list \<Rightarrow> 'w
   \<Rightarrow> 'a list \<times> 'w \<times> 'a sync_event list" where
  "process_order_queue attempt retry_attempts retry_delay order_queue w =
     (if order_queue = [] then (order_queue, w, [])
      else process_items attempt retry_attempts retry_delay order_queue w)"

definition attempts_of :: "'a sync_event list \<Rightarrow> nat" where
  "attempts_of evs = length (filter (\<lambda>e. case e of Attempt i \<Rightarrow> True | Sleep d \<Rightarrow> False | Warning i \<Rightarrow> False) evs)"

definition sleeps_of :: "'a sync_event list \<Rightarrow> nat" where
  "sleeps_of evs = length (filter (\<lambda>e. case e of Attempt i \<Rightarrow> False | Sleep d \<Rightarrow> True | Warning i \<Rightarrow> False) evs)"

section \<open>The risk manager (mt5\_risk\_manager.py)\<close>

subsection \<open>Configuration\<close>

text \<open>
  The configuration dictionary of \<^verbatim>\<open>_load_config\<close>, one record per section, with the
  keys that the modelled methods read.
\<close>

record risk_limits_config =
  max_daily_loss_percent :: real
  max_weekly_loss_percent :: real
  max_monthly_loss_percent :: real
  max_drawdown_percent :: real
  max_open_positions :: int
  max_positions_per_symbol :: int

record position_sizing_config =
  ps_method :: string
  fixed_lot_size :: real
  risk_percent :: real
  equity_percent :: real
  kelly_fraction :: real
  martingale_factor :: real
  anti_martingale_factor :: real
  volatility_factor :: real
  ps_atr_period :: nat
  position_size_rounding :: string

record stop_loss_config =
  sl_method :: string
  sl_fixed_pips :: real
  sl_atr_multiple :: real
  sl_atr_period :: nat
  sl_percent_risk :: real
  sl_min_pips :: real
  sl_max_pips :: real

record trailing_stop_config =
  ts_enabled :: bool
  ts_activation_pips :: real
  ts_distance_pips :: real
  ts_step_pips :: real

record break_even_config =
  be_enabled :: bool
  be_activation_pips :: real
  be_offset_pips :: real

text \<open>A partial-close level is a pair of \<^verbatim>\<open>profit_pips\<close> and \<^verbatim>\<open>close_percent\<close>.\<close>

record partial_close_config =
  pc_enabled :: bool
  pc_levels :: "(real \<times> real) list"

record time_filter_config =
  tf_enabled :: bool
  tf_start_hour :: nat
  tf_end_hour :: nat
  tf_trade_monday :: bool
  tf_trade_tuesday :: bool
  tf_trade_wednesday :: bool
  tf_trade_thursday :: bool
  tf_trade_friday :: bool
  tf_trade_saturday :: bool
  tf_trade_sunday :: bool
  tf_avoid_high_impact_news :: bool

record correlation_risk_config =
  cr_enabled :: bool
  cr_lookback_periods :: nat
  cr_threshold :: real

record volatility_filter_config =
  vf_enabled :: bool
  vf_atr_period :: nat
  vf_min_atr_multiple :: real
  vf_max_atr_multiple :: real

record recovery_mode_config =
  rc_enabled :: bool
  rc_trigger_consecutive_losses :: nat
  rc_risk_reduction_percent :: real
  rc_min_win_streak_to_reset :: nat
  rc_max_recovery_days :: real

record risk_config =
  c_risk_limits :: risk_limits_config
  c_position_sizing :: position_sizing_config
  c_stop_loss :: stop_loss_config
  c_trailing_stop :: trailing_stop_config
  c_break_even :: break_even_config
  c_partial_close :: partial_close_config
  c_time_filter :: time_filter_config
  c_correlation_risk :: correlation_risk_config
  c_volatility_filter :: volatility_filter_config
  c_recovery_mode :: recovery_mode_config

definition default_config :: risk_config where
  "default_config =
     \<lparr> c_risk_limits =
         \<lparr> max_daily_loss_percent = 3, max_weekly_loss_percent = 7,
           max_monthly_loss_percent = 15, max_drawdown_percent = 20,
           max_open_positions = 5, max_positions_per_symbol = 2 \<rparr>,
       c_position_sizing =
         \<lparr> ps_method = ''risk'', fixed_lot_size = 1 / 100, risk_percent = 1,
           equity_percent = 2, kelly_fraction = 1 / 2, martingale_factor = 2,
           anti_martingale_factor = 3 / 2, volatility_factor = 1, ps_atr_period = 14,
           position_size_rounding = ''down'' \<rparr>,
       c_stop_loss =
         \<lparr> sl_method = ''fixed'', sl_fixed_pips = 20, sl_atr_multiple = 3 / 2,
           sl_atr_period = 14, sl_percent_risk = 1, sl_min_pips = 10, sl_max_pips = 100 \<rparr>,
       c_trailing_stop =
         \<lparr> ts_enabled = True, ts_activation_pips = 15, ts_distance_pips = 10,
           ts_step_pips = 5 \<rparr>,
       c_break_even =
         \<lparr> be_enabled = True, be_activation_pips = 10, be_offset_pips = 2 \<rparr>,
       c_partial_close =
         \<lparr> pc_enabled = True, pc_levels = [(15, 25), (30, 25), (45, 25)] \<rparr>,
       c_time_filter =
         \<lparr> tf_enabled = True, tf_start_hour = 8, tf_end_hour = 20,
           tf_trade_monday = True, tf_trade_tuesday = True, tf_trade_wednesday = True,
           tf_trade_thursday = True, tf_trade_friday = True, tf_trade_saturday = False,
           tf_trade_sunday = False, tf_avoid_high_impact_news = True \<rparr>,
       c_correlation_risk =
         \<lparr> cr_enabled = True, cr_lookback_periods = 20, cr_threshold = 7 / 10 \<rparr>,
       c_volatility_filter =
         \<lparr> vf_enabled = True, vf_atr_period = 14, vf_min_atr_multiple = 1 / 2,
           vf_max_atr_multiple = 3 \<rparr>,
       c_recovery_mode =
         \<lparr> rc_enabled = True, rc_trigger_consecutive_losses = 3,
           rc_risk_reduction_percent = 50, rc_min_win_streak_to_reset = 2,
           rc_max_recovery_days = 5 \<rparr> \<rparr>"

subsection \<open>What the terminal supplies\<close>

text \<open>The named tuples of the \<^verbatim>\<open>MetaTrader5\<close> module, with the fields that are read.\<close>

record mt5_account =
  acc_login :: int
  acc_server :: string
  acc_currency :: string
  acc_leverage :: int
  acc_balance :: real
  acc_equity :: real
  acc_margin :: real
  acc_margin_free :: real
  acc_margin_level :: real
  acc_profit :: real

text \<open>Position types: \<^verbatim>\<open>POSITION_TYPE_BUY\<close> is 0 and \<^verbatim>\<open>POSITION_TYPE_SELL\<close> is 1.\<close>

definition POSITION_TYPE_BUY :: int where "POSITION_TYPE_BUY = 0"
definition POSITION_TYPE_SELL :: int where "POSITION_TYPE_SELL = 1"

record mt5_position =
  mp_ticket :: int
  mp_symbol :: string
  mp_type :: int
  mp_volume :: real
  mp_price_open :: real
  mp_price_current :: real
  mp_sl :: real
  mp_tp :: real
  mp_profit :: real
  mp_swap :: real
  mp_time :: int
  mp_magic :: int
  mp_comment :: string

record symbol_info =
  si_point :: real
  si_digits :: int
  si_volume_min :: real
  si_volume_max :: real
  si_volume_step :: real
  si_trade_tick_value :: real
  si_trade_contract_size :: real

record tick =
  tk_bid :: real
  tk_ask :: real

record bar =
  b_high :: real
  b_low :: real
  b_close :: real

text \<open>
  A request handed to \<^verbatim>\<open>mt5.order_send\<close>: a change of the protective levels of a
  position (ticket, stop loss, take profit), or a deal that closes part of a position
  (symbol, volume, order type, ticket, price).
\<close>

datatype trade_request =
  Sltp_Request int real real
| Deal_Request string real int int real

text \<open>
  Everything the risk manager reads from outside: the terminal's answers, the clock, and
  the correlation of the closing prices of two symbols as pandas computes it (\<open>None\<close>
  when a symbol has no price data or the value is not a number). \<^verbatim>\<open>mt5_order_send\<close>
  tells whether the request came back with \<^verbatim>\<open>TRADE_RETCODE_DONE\<close>.
\<close>

record terminal =
  mt5_account_info :: "mt5_account option"
  mt5_positions_get :: "mt5_position list option"
  mt5_symbol_info :: "string \<Rightarrow> symbol_info option"
  mt5_symbol_info_tick :: "string \<Rightarrow> tick option"
  mt5_copy_rates :: "string \<Rightarrow> nat \<Rightarrow> bar list option"
  mt5_order_send :: "trade_request \<Rightarrow> bool"
  price_correlation :: "string \<Rightarrow> string \<Rightarrow> real option"
  now_date :: nat
  now_week :: "nat \<times> nat"
  now_month :: "nat \<times> nat"
  now_weekday :: nat
  now_hour :: nat

subsection \<open>State of the risk manager\<close>

text \<open>The dictionary \<^verbatim>\<open>self.account_info\<close> built by \<^verbatim>\<open>update_account_info\<close>.\<close>

record account_info =
  ai_login :: int
  ai_server :: string
  ai_currency :: string
  ai_leverage :: int
  ai_balance :: real
  ai_equity :: real
  ai_margin :: real
  ai_free_margin :: real
  ai_margin_level :: real
  ai_profit :: real
  ai_drawdown_percent :: real

text \<open>
  A position dictionary of \<^verbatim>\<open>self.positions\<close>. \<^verbatim>\<open>p_partial_closed\<close> holds the
  levels \<open>L\<close> for which the key \<^verbatim>\<open>partial_close_L\<close> has been added to the dictionary.
\<close>

record position =
  p_ticket :: int
  p_symbol :: string
  p_type :: int
  p_volume :: real
  p_open_price :: real
  p_current_price :: real
  p_sl :: real
  p_tp :: real
  p_profit :: real
  p_swap :: real
  p_time :: int
  p_magic :: int
  p_comment :: string
  p_partial_closed :: "real list"

text \<open>A closed trade of \<^verbatim>\<open>self.trade_history\<close>; the close time is in seconds.\<close>

record trade =
  t_symbol :: string
  t_volume :: real
  t_profit :: real
  t_close_time :: real

record risk_limits =
  daily_loss_reached :: bool
  weekly_loss_reached :: bool
  monthly_loss_reached :: bool
  max_positions_reached :: bool
  max_drawdown_reached :: bool
  max_risk_per_trade_reached :: bool
  max_risk_per_symbol_reached :: "(string \<times> bool) list"
  correlation_risk_high :: bool

definition reset_risk_limits :: risk_limits where
  "reset_risk_limits =
     \<lparr> daily_loss_reached = False, weekly_loss_reached = False,
       monthly_loss_reached = False, max_positions_reached = False,
       max_drawdown_reached = False, max_risk_per_trade_reached = False,
       max_risk_per_symbol_reached = [], correlation_risk_high = False \<rparr>"

text \<open>
  The statistics dictionaries map a day, an ISO week (year, week) or a month (year, month)
  to the statistics of that period; only the entry \<^verbatim>\<open>profit\<close> is read here.
\<close>

record risk_manager =
  rm_config :: risk_config
  rm_account_info :: "account_info option"
  rm_positions :: "(int \<times> position) list"
  rm_trade_history :: "trade list"
  rm_daily_stats :: "(nat \<times> real) list"
  rm_weekly_stats :: "((nat \<times> nat) \<times> real) list"
  rm_monthly_stats :: "((nat \<times> nat) \<times> real) list"
  rm_risk_limits :: risk_limits

definition new_risk_manager :: "risk_config \<Rightarrow> risk_manager" where
  "new_risk_manager config =
     \<lparr> rm_config = config, rm_account_info = None, rm_positions = [],
       rm_trade_history = [], rm_daily_stats = [], rm_weekly_stats = [],
       rm_monthly_stats = [], rm_risk_limits = reset_risk_limits \<rparr>"

subsection \<open>Refreshing the account and the positions\<close>

text \<open>
  \<^verbatim>\<open>update_account_info\<close>: on \<^verbatim>\<open>None\<close> the old snapshot stays; otherwise the
  snapshot is replaced and the drawdown computed, guarded by \<^verbatim>\<open>balance > 0\<close>.
\<close>

definition update_account_info :: "terminal \<Rightarrow> risk_manager \<Rightarrow> risk_manager \<times> bool" where
  "update_account_info w st =
     (case mt5_account_info w of
        None \<Rightarrow> (st, False)
      | Some a \<Rightarrow>
          (st\<lparr> rm_account_info := Some
                \<lparr> ai_login = acc_login a, ai_server = acc_server a,
                  ai_currency = acc_currency a, ai_leverage = acc_leverage a,
                  ai_balance = acc_balance a, ai_equity = acc_equity a,
                  ai_margin = acc_margin a, ai_free_margin = acc_margin_free a,
                  ai_margin_level = acc_margin_level a, ai_profit = acc_profit a,
                  ai_drawdown_percent =
                    (if acc_balance a > 0 then (1 - acc_equity a / acc_balance a) * 100
                     else 0) \<rparr> \<rparr>,
           True))"

definition pos_dict :: "mt5_position \<Rightarrow> position" where
  "pos_dict p =
     \<lparr> p_ticket = mp_ticket p, p_symbol = mp_symbol p, p_type = mp_type p,
       p_volume = mp_volume p, p_open_price = mp_price_open p,
       p_current_price = mp_price_current p, p_sl = mp_sl p, p_tp = mp_tp p,
       p_profit = mp_profit p, p_swap = mp_swap p, p_time = mp_time p,
       p_magic = mp_magic p, p_comment = mp_comment p, p_partial_closed = [] \<rparr>"

text \<open>
  \<^verbatim>\<open>update_positions\<close> builds a new dictionary of new position dictionaries and
  replaces \<^verbatim>\<open>self.positions\<close> with it.
\<close>

definition update_positions :: "terminal \<Rightarrow> risk_manager \<Rightarrow> risk_manager \<times> bool" where
  "update_positions w st =
     (case mt5_positions_get w of
        None \<Rightarrow> (st\<lparr> rm_positions := [] \<rparr>, True)
      | Some positions \<Rightarrow>
          (st\<lparr> rm_positions :=
                 fold (\<lambda>p new_positions. AList.update (mp_ticket p) (pos_dict p) new_positions)
                   positions [] \<rparr>,
           True))"

subsection \<open>Risk limits\<close>

datatype py_error = ZeroDivisionError | KeyError | IndexError

text \<open>
  The loss check of one period (checks 3, 4 and 5 have the same shape): \<open>profit\<close> is the
  period's profit when the period is a key of the statistics. The division by the balance
  raises when the balance is 0.
\<close>

definition loss_reached :: "account_info option \<Rightarrow> real option \<Rightarrow> real \<Rightarrow> py_error + bool" where
  "loss_reached account profit max_loss =
     (case profit of
        None \<Rightarrow> Inr False
      | Some period_profit \<Rightarrow>
          (case account of
             None \<Rightarrow> Inr False
           | Some a \<Rightarrow>
               if period_profit < 0
               then (if ai_balance a = 0 then Inl ZeroDivisionError
                     else Inr (\<bar>period_profit\<bar> / ai_balance a * 100 > max_loss))
               else Inr False))"

definition drawdown_reached :: "risk_config \<Rightarrow> account_info option \<Rightarrow> bool" where
  "drawdown_reached config account =
     (case account of
        None \<Rightarrow> False
      | Some a \<Rightarrow> ai_drawdown_percent a > max_drawdown_percent (c_risk_limits config))"

definition positions_reached :: "risk_config \<Rightarrow> (int \<times> position) list \<Rightarrow> bool" where
  "positions_reached config positions =
     (int (length positions) \<ge> max_open_positions (c_risk_limits config))"

text \<open>The dictionary \<^verbatim>\<open>symbols\<close> of check 6: open positions per symbol.\<close>

definition symbol_counts :: "(int \<times> position) list \<Rightarrow> (string \<times> int) list" where
  "symbol_counts positions =
     fold (\<lambda>(ticket, p) symbols.
             AList.update (p_symbol p) (dict_get (map_of symbols (p_symbol p)) 0 + 1) symbols)
       positions []"

text \<open>The pairs \<open>(xs ! i, xs ! j)\<close> with \<open>i < j\<close>, as the two nested loops visit them.\<close>

fun pairs :: "'a list \<Rightarrow> ('a \<times> 'a) list" where
  "pairs [] = []"
| "pairs (x # xs) = map (Pair x) xs @ pairs xs"

definition types_of :: "(int \<times> position) list \<Rightarrow> string \<Rightarrow> int list" where
  "types_of positions symbol =
     map (p_type \<circ> snd) (filter (\<lambda>(ticket, p). p_symbol p = symbol) positions)"

definition pair_risk :: "terminal \<Rightarrow> real \<Rightarrow> (int \<times> position) list \<Rightarrow> string \<times> string \<Rightarrow> bool" where
  "pair_risk w threshold positions pr =
     (case price_correlation w (fst pr) (snd pr) of
        None \<Rightarrow> False
      | Some correlation \<Rightarrow>
          if correlation > threshold
          then list_ex (\<lambda>t1. list_ex (\<lambda>t2. t1 = t2) (types_of positions (snd pr)))
                 (types_of positions (fst pr))
          else if correlation < - threshold
          then list_ex (\<lambda>t1. list_ex (\<lambda>t2. t1 \<noteq> t2) (types_of positions (snd pr)))
                 (types_of positions (fst pr))
          else False)"

text \<open>
  \<^verbatim>\<open>_check_correlation_risk\<close>. The symbols are listed once each; the price download and
  \<^verbatim>\<open>DataFrame.corr\<close> are the terminal's \<^verbatim>\<open>price_correlation\<close>.
\<close>

definition check_correlation_risk :: "terminal \<Rightarrow> risk_manager \<Rightarrow> bool" where
  "check_correlation_risk w st =
     (if length (rm_positions st) < 2 then False
      else if length (remdups (map (p_symbol \<circ> snd) (rm_positions st))) < 2 then False
      else list_ex (pair_risk w (cr_threshold (c_correlation_risk (rm_config st)))
                       (rm_positions st))
             (pairs (remdups (map (p_symbol \<circ> snd) (rm_positions st)))))"

text \<open>
  A check that found its limit breached sets its flag and clears \<^verbatim>\<open>all_ok\<close>; the
  state of the checks is the pair of the flags and \<^verbatim>\<open>all_ok\<close>.
\<close>

definition breach ::
  "bool \<Rightarrow> (risk_limits \<Rightarrow> risk_limits) \<Rightarrow> risk_limits \<times> bool \<Rightarrow> risk_limits \<times> bool" where
  "breach reached set_flag s = (if reached then (set_flag (fst s), False) else s)"

definition symbol_breach ::
  "risk_config \<Rightarrow> string \<times> int \<Rightarrow> risk_limits \<times> bool \<Rightarrow> risk_limits \<times> bool" where
  "symbol_breach config sc s =
     breach (snd sc \<ge> max_positions_per_symbol (c_risk_limits config))
       (\<lambda>l. l\<lparr> max_risk_per_symbol_reached :=
                  AList.update (fst sc) True (max_risk_per_symbol_reached l) \<rparr>) s"

text \<open>The per-symbol flags that check 6 leaves behind, starting from no flag.\<close>

definition flagged_symbols :: "risk_config \<Rightarrow> (string \<times> int) list \<Rightarrow> (string \<times> bool) list" where
  "flagged_symbols config counts =
     fold (\<lambda>sc flags. if snd sc \<ge> max_positions_per_symbol (c_risk_limits config)
                       then AList.update (fst sc) True flags else flags) counts []"

text \<open>
  \<^verbatim>\<open>check_risk_limits\<close>. The account and the positions are refreshed, the flags are
  reset and the seven checks run in order. A \<^verbatim>\<open>ZeroDivisionError\<close> in a loss check is
  caught by the \<^verbatim>\<open>except\<close> clause around the whole body: the method returns
  \<^verbatim>\<open>False\<close> at once and the flags stay as they were set up to that point.
\<close>

definition check_risk_limits :: "terminal \<Rightarrow> risk_manager \<Rightarrow> risk_manager \<times> bool" where
  "check_risk_limits w st0 =
     (let st = fst (update_positions w (fst (update_account_info w st0)));
          config = rm_config st;
          account = rm_account_info st;
          s1 = breach (drawdown_reached config account)
                 (\<lambda>l. l\<lparr> max_drawdown_reached := True \<rparr>) (reset_risk_limits, True);
          s2 = breach (positions_reached config (rm_positions st))
                 (\<lambda>l. l\<lparr> max_positions_reached := True \<rparr>) s1
      in case loss_reached account (map_of (rm_daily_stats st) (now_date w))
                (max_daily_loss_percent (c_risk_limits config)) of
           Inl e \<Rightarrow> (st\<lparr> rm_risk_limits := fst s2 \<rparr>, False)
         | Inr daily \<Rightarrow>
        (let s3 = breach daily (\<lambda>l. l\<lparr> daily_loss_reached := True \<rparr>) s2
         in case loss_reached account (map_of (rm_weekly_stats st) (now_week w))
                   (max_weekly_loss_percent (c_risk_limits config)) of
           Inl e \<Rightarrow> (st\<lparr> rm_risk_limits := fst s3 \<rparr>, False)
         | Inr weekly \<Rightarrow>
        (let s4 = breach weekly (\<lambda>l. l\<lparr> weekly_loss_reached := True \<rparr>) s3
         in case loss_reached account (map_of (rm_monthly_stats st) (now_month w))
                   (max_monthly_loss_percent (c_risk_limits config)) of
           Inl e \<Rightarrow> (st\<lparr> rm_risk_limits := fst s4 \<rparr>, False)
         | Inr monthly \<Rightarrow>
             (let s5 = breach monthly (\<lambda>l. l\<lparr> monthly_loss_reached := True \<rparr>) s4;
                  s6 = fold (symbol_breach config) (symbol_counts (rm_positions st)) s5;
                  s7 = breach (cr_enabled (c_correlation_risk config)
                               \<and> check_correlation_risk w st)
                         (\<lambda>l. l\<lparr> correlation_risk_high := True \<rparr>) s6
              in (st\<lparr> rm_risk_limits := fst s7 \<rparr>, snd s7)))))"

subsection \<open>Numbers that numpy computes\<close>

text \<open>
  A division of two built-in Python floats by zero raises \<^verbatim>\<open>ZeroDivisionError\<close>; a
  division that involves a numpy float (the ATR comes out of pandas as one, a mean out of
  \<^verbatim>\<open>np.mean\<close>) does not raise but gives an infinity or not-a-number, and every
  comparison with not-a-number is false. These values are kept apart from the reals.
\<close>

datatype npfloat = Fin real | PInf | NInf | NaN

definition np_div :: "real \<Rightarrow> real \<Rightarrow> npfloat" where
  "np_div x y =
     (if y \<noteq> 0 then Fin (x / y)
      else if x > 0 then PInf else if x < 0 then NInf else NaN)"

fun np_times :: "npfloat \<Rightarrow> real \<Rightarrow> npfloat" where
  "np_times (Fin a) r = Fin (a * r)"
| "np_times PInf r = (if r > 0 then PInf else if r < 0 then NInf else NaN)"
| "np_times NInf r = (if r > 0 then NInf else if r < 0 then PInf else NaN)"
| "np_times NaN r = NaN"

text \<open>
  A division in which an operand is a numpy float: no exception, the IEEE result (a zero
  divisor is taken as positive zero).
\<close>

definition np_divide :: "npfloat \<Rightarrow> npfloat \<Rightarrow> npfloat" where
  "np_divide u v =
     (case u of
        NaN \<Rightarrow> NaN
      | Fin a \<Rightarrow> (case v of Fin b \<Rightarrow> np_div a b | PInf \<Rightarrow> Fin 0 | NInf \<Rightarrow> Fin 0 | NaN \<Rightarrow> NaN)
      | PInf \<Rightarrow> (case v of Fin b \<Rightarrow> (if b < 0 then NInf else PInf)
                         | PInf \<Rightarrow> NaN | NInf \<Rightarrow> NaN | NaN \<Rightarrow> NaN)
      | NInf \<Rightarrow> (case v of Fin b \<Rightarrow> (if b < 0 then PInf else NInf)
                         | PInf \<Rightarrow> NaN | NInf \<Rightarrow> NaN | NaN \<Rightarrow> NaN))"

fun np_gt :: "npfloat \<Rightarrow> real \<Rightarrow> bool" where
  "np_gt (Fin a) r = (a > r)"
| "np_gt PInf r = True"
| "np_gt NInf r = False"
| "np_gt NaN r = False"

fun np_lt :: "npfloat \<Rightarrow> real \<Rightarrow> bool" where
  "np_lt (Fin a) r = (a < r)"
| "np_lt PInf r = False"
| "np_lt NInf r = True"
| "np_lt NaN r = False"

text \<open>
  A number as Python holds it: a built-in float, or a numpy float. The two behave alike
  except at a division by zero, which raises for built-in floats only.
\<close>

datatype pynum = Py real | Np npfloat

fun num_gt :: "pynum \<Rightarrow> real \<Rightarrow> bool" where
  "num_gt (Py a) r = (a > r)"
| "num_gt (Np v) r = np_gt v r"

fun num_lt :: "pynum \<Rightarrow> real \<Rightarrow> bool" where
  "num_lt (Py a) r = (a < r)"
| "num_lt (Np v) r = np_lt v r"

fun num_times :: "pynum \<Rightarrow> real \<Rightarrow> pynum" where
  "num_times (Py a) r = Py (a * r)"
| "num_times (Np v) r = Np (np_times v r)"

fun num_div :: "pynum \<Rightarrow> pynum \<Rightarrow> py_error + pynum" where
  "num_div (Py a) (Py b) = (if b = 0 then Inl ZeroDivisionError else Inr (Py (a / b)))"
| "num_div (Py a) (Np v) = Inr (Np (np_divide (Fin a) v))"
| "num_div (Np u) (Py b) = Inr (Np (np_divide u (Fin b)))"
| "num_div (Np u) (Np v) = Inr (Np (np_divide u v))"

text \<open>
  Python's built-in \<^verbatim>\<open>max(x, lo)\<close> and \<^verbatim>\<open>min(x, hi)\<close> return their first
  argument unless the second is strictly greater (smaller): not-a-number stays, and a
  bound that replaces the value is the built-in float of the bound.
\<close>

definition py_max :: "pynum \<Rightarrow> real \<Rightarrow> pynum" where
  "py_max x lo = (if num_lt x lo then Py lo else x)"

definition py_min :: "pynum \<Rightarrow> real \<Rightarrow> pynum" where
  "py_min x hi = (if num_gt x hi then Py hi else x)"

text \<open>\<^verbatim>\<open>np.round\<close> rounds a half to the even neighbour.\<close>

definition np_round :: "real \<Rightarrow> int" where
  "np_round x =
     (if x - of_int \<lfloor>x\<rfloor> < 1 / 2 then \<lfloor>x\<rfloor>
      else if x - of_int \<lfloor>x\<rfloor> > 1 / 2 then \<lfloor>x\<rfloor> + 1
      else if even \<lfloor>x\<rfloor> then \<lfloor>x\<rfloor> else \<lfloor>x\<rfloor> + 1)"

subsection \<open>Average true range\<close>

text \<open>
  The column \<^verbatim>\<open>tr\<close> from the second row on: the largest of high - low,
  |high - previous close| and |low - previous close|.
\<close>

fun true_ranges :: "bar list \<Rightarrow> real list" where
  "true_ranges (b0 # b1 # bs) =
     max (max (b_high b1 - b_low b1) \<bar>b_high b1 - b_close b0\<bar>) \<bar>b_low b1 - b_close b0\<bar>
     # true_ranges (b1 # bs)"
| "true_ranges bs = []"

text \<open>
  \<^verbatim>\<open>df["tr"].rolling(window=atr_period).mean().iloc[-1]\<close> on rates that hold at least
  \<^verbatim>\<open>atr_period + 1\<close> rows: the mean of the last \<^verbatim>\<open>atr_period\<close> true ranges; with
  a window of 0 it is not-a-number (\<open>None\<close>).
\<close>

definition atr_of :: "nat \<Rightarrow> bar list \<Rightarrow> real option" where
  "atr_of atr_period rates =
     (if atr_period = 0 then None
      else Some (sum_list (true_ranges (drop (length rates - (atr_period + 1)) rates))
                 / real atr_period))"

text \<open>\<^verbatim>\<open>atr / (10 * point)\<close>, a numpy division.\<close>

definition atr_pips_of :: "real option \<Rightarrow> real \<Rightarrow> npfloat" where
  "atr_pips_of atr point =
     (case atr of None \<Rightarrow> NaN | Some a \<Rightarrow> np_div a (10 * point))"

subsection \<open>The trading gate\<close>

text \<open>\<^verbatim>\<open>_check_trading_time\<close>; \<^verbatim>\<open>_check_high_impact_news\<close> always returns False.\<close>

definition check_high_impact_news :: bool where
  "check_high_impact_news = False"

definition check_trading_time :: "terminal \<Rightarrow> risk_manager \<Rightarrow> bool" where
  "check_trading_time w st =
     (let time_filter = c_time_filter (rm_config st); weekday = now_weekday w
      in if \<not> tf_enabled time_filter then True
         else if weekday = 0 \<and> \<not> tf_trade_monday time_filter then False
         else if weekday = 1 \<and> \<not> tf_trade_tuesday time_filter then False
         else if weekday = 2 \<and> \<not> tf_trade_wednesday time_filter then False
         else if weekday = 3 \<and> \<not> tf_trade_thursday time_filter then False
         else if weekday = 4 \<and> \<not> tf_trade_friday time_filter then False
         else if weekday = 5 \<and> \<not> tf_trade_saturday time_filter then False
         else if weekday = 6 \<and> \<not> tf_trade_sunday time_filter then False
         else if now_hour w < tf_start_hour time_filter \<or> now_hour w \<ge> tf_end_hour time_filter
         then False
         else if tf_avoid_high_impact_news time_filter \<and> check_high_impact_news then False
         else True)"

text \<open>\<^verbatim>\<open>_check_volatility_filter\<close>: missing data lets the symbol pass.\<close>

definition check_volatility_filter :: "terminal \<Rightarrow> risk_manager \<Rightarrow> string \<Rightarrow> bool" where
  "check_volatility_filter w st symbol =
     (let vc = c_volatility_filter (rm_config st)
      in case mt5_copy_rates w symbol (vf_atr_period vc + 1) of
           None \<Rightarrow> True
         | Some rates \<Rightarrow>
             if length rates < vf_atr_period vc + 1 then True
             else (case mt5_symbol_info w symbol of
                     None \<Rightarrow> True
                   | Some si \<Rightarrow>
                       (let atr_pips = atr_pips_of (atr_of (vf_atr_period vc) rates) (si_point si)
                        in if np_lt atr_pips (vf_min_atr_multiple vc) then False
                           else if np_gt atr_pips (vf_max_atr_multiple vc) then False
                           else True)))"

text \<open>
  \<^verbatim>\<open>sorted(trades, key=close_time, reverse=True)\<close>: latest first, trades with equal
  close time in their original order.
\<close>

definition recent_first :: "trade list \<Rightarrow> trade list" where
  "recent_first trades = sort_key (\<lambda>t. - t_close_time t) trades"

text \<open>
  The loop that counts the consecutive losses at the head of the list and stops at the
  trigger.
\<close>

fun count_losses :: "nat \<Rightarrow> nat \<Rightarrow> trade list \<Rightarrow> nat" where
  "count_losses trigger n [] = n"
| "count_losses trigger n (t # ts) =
     (if t_profit t < 0
      then (if Suc n \<ge> trigger then Suc n else count_losses trigger (Suc n) ts)
      else n)"

text \<open>
  \<^verbatim>\<open>_check_recovery_mode\<close>. The attribute \<^verbatim>\<open>_recovery_active\<close> is never assigned, so
  the branch that tests it is not taken. With a trigger of 0 the index \<^verbatim>\<open>trigger - 1\<close>
  is -1, the last trade; on an empty history that raises and the method returns False.
\<close>

definition check_recovery_mode :: "risk_manager \<Rightarrow> bool" where
  "check_recovery_mode st =
     (let rc = c_recovery_mode (rm_config st);
          trigger = rc_trigger_consecutive_losses rc;
          recent_trades = recent_first (rm_trade_history st)
      in if length (rm_trade_history st) < trigger then False
         else if count_losses trigger 0 recent_trades \<ge> trigger
         then (case recent_trades of
                 [] \<Rightarrow> False
               | newest # rest \<Rightarrow>
                   (let other = (if trigger = 0 then last recent_trades
                                 else recent_trades ! (trigger - 1))
                    in if t_close_time newest - t_close_time other
                          > rc_max_recovery_days rc * 86400
                       then False else True))
         else False)"

text \<open>
  \<^verbatim>\<open>check_trading_allowed(symbol)\<close>; an empty symbol skips the symbol checks. The
  recovery mode is only logged here.
\<close>

definition check_trading_allowed :: "terminal \<Rightarrow> string \<Rightarrow> risk_manager \<Rightarrow> risk_manager \<times> bool" where
  "check_trading_allowed w symbol st0 =
     (let st = fst (check_risk_limits w st0)
      in if \<not> snd (check_risk_limits w st0) then (st, False)
         else if \<not> check_trading_time w st then (st, False)
         else if symbol \<noteq> []
              \<and> int (length (filter (\<lambda>(ticket, p). p_symbol p = symbol) (rm_positions st)))
                  \<ge> max_positions_per_symbol (c_risk_limits (rm_config st))
         then (st, False)
         else if symbol \<noteq> []
              \<and> map_of (max_risk_per_symbol_reached (rm_risk_limits st)) symbol = Some True
         then (st, False)
         else if symbol \<noteq> [] \<and> vf_enabled (c_volatility_filter (rm_config st))
              \<and> \<not> check_volatility_filter w st symbol
         then (st, False)
         else (st, True))"

subsection \<open>Stop-loss distance and position sizing\<close>

text \<open>\<^verbatim>\<open>trade_tick_value * (10 ** (digits - 4))\<close>.\<close>

definition pip_value_of :: "symbol_info \<Rightarrow> real" where
  "pip_value_of si =
     si_trade_tick_value si *
       (if si_digits si \<ge> 4 then 10 ^ nat (si_digits si - 4)
        else 1 / 10 ^ nat (4 - si_digits si))"

text \<open>
  \<^verbatim>\<open>_calculate_stop_loss_pips\<close>. The ATR method yields a numpy float unless a bound
  replaces it. In the method \<^verbatim>\<open>percent\<close> the division is one of built-in floats:
  with a point of 0 it raises and the \<^verbatim>\<open>except\<close> clause returns the fixed distance.
\<close>

definition calculate_stop_loss_pips ::
  "terminal \<Rightarrow> risk_manager \<Rightarrow> string \<Rightarrow> string \<Rightarrow> pynum" where
  "calculate_stop_loss_pips w st symbol action =
     (let sl_config = c_stop_loss (rm_config st)
      in if sl_method sl_config = ''fixed'' then Py (sl_fixed_pips sl_config)
         else if sl_method sl_config = ''atr''
         then (case mt5_copy_rates w symbol (sl_atr_period sl_config + 1) of
                 None \<Rightarrow> Py (sl_fixed_pips sl_config)
               | Some rates \<Rightarrow>
                   if length rates < sl_atr_period sl_config + 1
                   then Py (sl_fixed_pips sl_config)
                   else (case mt5_symbol_info w symbol of
                           None \<Rightarrow> Py (sl_fixed_pips sl_config)
                         | Some si \<Rightarrow>
                             py_min
                               (py_max
                                  (Np (np_times
                                         (atr_pips_of (atr_of (sl_atr_period sl_config) rates)
                                            (si_point si))
                                         (sl_atr_multiple sl_config)))
                                  (sl_min_pips sl_config))
                               (sl_max_pips sl_config)))
         else if sl_method sl_config = ''support_resistance''
         then Py (sl_fixed_pips sl_config)
         else if sl_method sl_config = ''percent''
         then (case mt5_symbol_info_tick w symbol of
                 None \<Rightarrow> Py (sl_fixed_pips sl_config)
               | Some last_tick \<Rightarrow>
                   (let price = (if action = ''BUY'' then tk_ask last_tick
                                 else tk_bid last_tick);
                        sl_price = (if action = ''BUY''
                                    then price * (1 - sl_percent_risk sl_config / 100)
                                    else price * (1 + sl_percent_risk sl_config / 100))
                    in case mt5_symbol_info w symbol of
                         None \<Rightarrow> Py (sl_fixed_pips sl_config)
                       | Some si \<Rightarrow>
                           if 10 * si_point si = 0 then Py (sl_fixed_pips sl_config)
                           else py_min
                                  (py_max (Py (\<bar>price - sl_price\<bar> / (10 * si_point si)))
                                     (sl_min_pips sl_config))
                                  (sl_max_pips sl_config)))
         else Py (sl_fixed_pips sl_config))"

text \<open>
  The account snapshot a sizing method works with: \<^verbatim>\<open>if not self.account_info:
  self.update_account_info()\<close>.
\<close>

definition ensure_account_info :: "terminal \<Rightarrow> risk_manager \<Rightarrow> account_info option" where
  "ensure_account_info w st =
     (case rm_account_info st of
        None \<Rightarrow> rm_account_info (fst (update_account_info w st))
      | Some a \<Rightarrow> Some a)"

definition fixed_position_size :: "risk_manager \<Rightarrow> real" where
  "fixed_position_size st = fixed_lot_size (c_position_sizing (rm_config st))"

text \<open>
  The last step of the risk-based and of the Kelly method:
  \<^verbatim>\<open>risk_amount / (stop_loss_pips * pip_value)\<close> when both factors are positive, else
  the fixed lot. A division of built-in floats by zero raises.
\<close>

definition volume_for_risk ::
  "risk_manager \<Rightarrow> pynum \<Rightarrow> pynum \<Rightarrow> symbol_info \<Rightarrow> py_error + pynum" where
  "volume_for_risk st risk_amount stop_loss_pips si =
     (if num_gt stop_loss_pips 0 \<and> pip_value_of si > 0
      then num_div risk_amount (num_times stop_loss_pips (pip_value_of si))
      else Inr (Py (fixed_position_size st)))"

text \<open>
  \<^verbatim>\<open>_risk_based_position_size\<close>; its \<^verbatim>\<open>except\<close> clause returns the fixed lot.
\<close>

definition risk_based_position_size ::
  "terminal \<Rightarrow> risk_manager \<Rightarrow> string \<Rightarrow> pynum \<Rightarrow> pynum" where
  "risk_based_position_size w st symbol stop_loss_pips =
     (case ensure_account_info w st of
        None \<Rightarrow> Py (fixed_position_size st)
      | Some account \<Rightarrow>
          (case mt5_symbol_info w symbol of
             None \<Rightarrow> Py (fixed_position_size st)
           | Some si \<Rightarrow>
               (case volume_for_risk st
                       (Py (ai_balance account
                            * (risk_percent (c_position_sizing (rm_config st)) / 100)))
                       stop_loss_pips si of
                  Inl e \<Rightarrow> Py (fixed_position_size st)
                | Inr volume \<Rightarrow> volume)))"

text \<open>
  \<^verbatim>\<open>_equity_based_position_size\<close>: the division is one of Python floats; a contract
  size of 0 raises and the \<^verbatim>\<open>except\<close> clause returns the fixed lot.
\<close>

definition equity_based_position_size ::
  "terminal \<Rightarrow> risk_manager \<Rightarrow> string \<Rightarrow> string \<Rightarrow> real" where
  "equity_based_position_size w st symbol action =
     (case ensure_account_info w st of
        None \<Rightarrow> fixed_position_size st
      | Some account \<Rightarrow>
          (case mt5_symbol_info w symbol of
             None \<Rightarrow> fixed_position_size st
           | Some si \<Rightarrow>
               (case mt5_symbol_info_tick w symbol of
                  None \<Rightarrow> fixed_position_size st
                | Some last_tick \<Rightarrow>
                    (let price = (if action = ''BUY'' then tk_ask last_tick
                                  else tk_bid last_tick);
                         position_value =
                           ai_equity account
                           * (equity_percent (c_position_sizing (rm_config st)) / 100)
                     in if price > 0
                        then (if price * si_trade_contract_size si = 0
                              then fixed_position_size st
                              else position_value / (price * si_trade_contract_size si))
                        else fixed_position_size st))))"

text \<open>
  The Kelly fraction of the trade history, scaled and cut at 0 by \<^verbatim>\<open>max(0, kelly)\<close>.
  The odds are positive: the average win is a mean of positive profits or 1, the average
  loss is positive or replaced by odds of 1. The fraction is a numpy float when the odds
  were computed from a mean (\<^verbatim>\<open>np.mean\<close>), and the built-in 0 when it is not positive.
\<close>

definition mean :: "real list \<Rightarrow> real" where
  "mean xs = sum_list xs / real (length xs)"

definition kelly_of :: "risk_manager \<Rightarrow> pynum" where
  "kelly_of st =
     (let history = rm_trade_history st;
          wins = length (filter (\<lambda>t. t_profit t > 0) history);
          total = length history;
          win_rate = (if total > 0 then real wins / real total else 1 / 2);
          avg_win = (if wins > 0
                     then mean (map t_profit (filter (\<lambda>t. t_profit t > 0) history))
                     else 1);
          avg_loss = (if total - wins > 0
                      then mean (map (\<lambda>t. \<bar>t_profit t\<bar>)
                                   (filter (\<lambda>t. t_profit t \<le> 0) history))
                      else 1);
          odds = (if avg_loss > 0 then avg_win / avg_loss else 1);
          kelly = (win_rate - (1 - win_rate) / odds)
                  * kelly_fraction (c_position_sizing (rm_config st))
      in if kelly > 0
         then (if avg_loss > 0 \<and> (wins > 0 \<or> total - wins > 0) then Np (Fin kelly)
               else Py kelly)
         else Py 0)"

text \<open>
  \<^verbatim>\<open>_kelly_criterion_position_size\<close>; its \<^verbatim>\<open>except\<close> clause falls back to the
  risk-based method.
\<close>

definition kelly_criterion_position_size ::
  "terminal \<Rightarrow> risk_manager \<Rightarrow> string \<Rightarrow> pynum \<Rightarrow> pynum" where
  "kelly_criterion_position_size w st symbol stop_loss_pips =
     (if length (rm_trade_history st) < 10
      then risk_based_position_size w st symbol stop_loss_pips
      else (case ensure_account_info w st of
              None \<Rightarrow> Py (fixed_position_size st)
            | Some account \<Rightarrow>
                (case mt5_symbol_info w symbol of
                   None \<Rightarrow> Py (fixed_position_size st)
                 | Some si \<Rightarrow>
                     (case volume_for_risk st (num_times (kelly_of st) (ai_balance account))
                             stop_loss_pips si of
                        Inl e \<Rightarrow> risk_based_position_size w st symbol stop_loss_pips
                      | Inr volume \<Rightarrow> volume))))"

text \<open>
  The last closed trade of the symbol: the first element of the trades of the symbol
  sorted latest first.
\<close>

definition last_trade :: "risk_manager \<Rightarrow> string \<Rightarrow> trade option" where
  "last_trade st symbol =
     (case recent_first (filter (\<lambda>t. t_symbol t = symbol) (rm_trade_history st)) of
        [] \<Rightarrow> None
      | t # ts \<Rightarrow> Some t)"

definition martingale_position_size :: "risk_manager \<Rightarrow> string \<Rightarrow> real" where
  "martingale_position_size st symbol =
     (case last_trade st symbol of
        None \<Rightarrow> fixed_position_size st
      | Some t \<Rightarrow>
          if t_profit t \<le> 0
          then t_volume t * martingale_factor (c_position_sizing (rm_config st))
          else fixed_position_size st)"

definition anti_martingale_position_size :: "risk_manager \<Rightarrow> string \<Rightarrow> real" where
  "anti_martingale_position_size st symbol =
     (case last_trade st symbol of
        None \<Rightarrow> fixed_position_size st
      | Some t \<Rightarrow>
          if t_profit t > 0
          then t_volume t * anti_martingale_factor (c_position_sizing (rm_config st))
          else fixed_position_size st)"

text \<open>
  \<^verbatim>\<open>_volatility_based_position_size\<close>: the ATR in pips is a numpy float, so the
  volume computed from it is one too.
\<close>

definition volatility_based_position_size ::
  "terminal \<Rightarrow> risk_manager \<Rightarrow> string \<Rightarrow> pynum \<Rightarrow> pynum" where
  "volatility_based_position_size w st symbol stop_loss_pips =
     (let sizing = c_position_sizing (rm_config st)
      in case ensure_account_info w st of
           None \<Rightarrow> Py (fixed_position_size st)
         | Some account \<Rightarrow>
             (case mt5_copy_rates w symbol (ps_atr_period sizing + 1) of
                None \<Rightarrow> risk_based_position_size w st symbol stop_loss_pips
              | Some rates \<Rightarrow>
                  if length rates < ps_atr_period sizing + 1
                  then risk_based_position_size w st symbol stop_loss_pips
                  else (case mt5_symbol_info w symbol of
                          None \<Rightarrow> Py (fixed_position_size st)
                        | Some si \<Rightarrow>
                            (let atr_pips = atr_pips_of (atr_of (ps_atr_period sizing) rates)
                                              (si_point si);
                                 risk_amount = ai_balance account * (risk_percent sizing / 100)
                             in if np_gt atr_pips 0 \<and> pip_value_of si > 0
                                then Np (np_divide (Fin risk_amount)
                                           (np_times (np_times atr_pips (volatility_factor sizing))
                                              (pip_value_of si)))
                                else Py (fixed_position_size st)))))"

text \<open>
  The table \<^verbatim>\<open>position_sizing_models\<close>; a method that is not a key of it is handled
  as the fixed lot.
\<close>

definition raw_position_size ::
  "terminal \<Rightarrow> risk_manager \<Rightarrow> string \<Rightarrow> string \<Rightarrow> pynum \<Rightarrow> pynum" where
  "raw_position_size w st symbol action stop_loss_pips =
     (let m = ps_method (c_position_sizing (rm_config st))
      in if m = ''fixed'' then Py (fixed_position_size st)
         else if m = ''risk'' then risk_based_position_size w st symbol stop_loss_pips
         else if m = ''equity'' then Py (equity_based_position_size w st symbol action)
         else if m = ''kelly'' then kelly_criterion_position_size w st symbol stop_loss_pips
         else if m = ''martingale'' then Py (martingale_position_size st symbol)
         else if m = ''anti_martingale'' then Py (anti_martingale_position_size st symbol)
         else if m = ''volatility''
         then volatility_based_position_size w st symbol stop_loss_pips
         else Py (fixed_position_size st))"

subsection \<open>Rounding to the volume step\<close>

text \<open>
  The rounding step divides the volume by the volume step and multiplies an integer by
  it, in binary floating point. The rounding of the quotient can decide between two
  neighbouring integers (\<^verbatim>\<open>0.3 / 0.1\<close> is \<^verbatim>\<open>2.9999999999999996\<close>), so at this
  step the two operations are not read as exact: they are the parameters \<open>fl_div\<close> and
  \<open>fl_mul\<close> of the model.
\<close>

record float_arith =
  fl_div :: "real \<Rightarrow> real \<Rightarrow> real"
  fl_mul :: "real \<Rightarrow> real \<Rightarrow> real"

text \<open>Powers of two with an integer exponent.\<close>

definition pow2 :: "int \<Rightarrow> real" where
  "pow2 e = (if e \<ge> 0 then 2 ^ nat e else 1 / 2 ^ nat (- e))"

text \<open>
  The exponent of a positive number \<open>x\<close>: the integer \<open>e\<close> with
  \<open>2\<^sup>e \<le> x < 2\<^sup>e\<^sup>+\<^sup>1\<close>, found from the number of bits of the integer part of \<open>x\<close> or of
  \<open>1 / x\<close>.
\<close>

definition binade :: "real \<Rightarrow> int" where
  "binade x =
     (if 1 \<le> x then bitlen \<lfloor>x\<rfloor> - 1
      else (let j = bitlen \<lfloor>1 / x\<rfloor> - 1
            in if x * 2 ^ nat j = 1 then - j else - j - 1))"

text \<open>
  Rounding to 53 significant bits, a half to the even neighbour: what a binary64
  operation does to its exact result (overflow and underflow apart).
\<close>

definition round53_pos :: "real \<Rightarrow> real" where
  "round53_pos x = of_int (np_round (x / pow2 (binade x - 52))) * pow2 (binade x - 52)"

definition round53 :: "real \<Rightarrow> real" where
  "round53 x = (if x = 0 then 0 else if x > 0 then round53_pos x else - round53_pos (- x))"

definition binary64 :: float_arith where
  "binary64 = \<lparr> fl_div = (\<lambda>x y. round53 (x / y)), fl_mul = (\<lambda>x y. round53 (x * y)) \<rparr>"

text \<open>
  Rounding to the volume step with the configured policy; any policy other than
  \<^verbatim>\<open>up\<close> and \<^verbatim>\<open>down\<close> rounds to the nearest step.
\<close>

definition round_to_step :: "float_arith \<Rightarrow> string \<Rightarrow> real \<Rightarrow> real \<Rightarrow> real" where
  "round_to_step fp rounding volume volume_step =
     (if rounding = ''up''
      then fl_mul fp (of_int \<lceil>fl_div fp volume volume_step\<rceil>) volume_step
      else if rounding = ''down''
      then fl_mul fp (of_int \<lfloor>fl_div fp volume volume_step\<rfloor>) volume_step
      else fl_mul fp (of_int (np_round (fl_div fp volume volume_step))) volume_step)"

text \<open>
  The rounding statement on the clamped volume. For a built-in float a volume step of 0
  raises \<^verbatim>\<open>ZeroDivisionError\<close>. For a numpy float it does not: the quotient is an
  infinity or not-a-number, and its product with 0 is not-a-number.
\<close>

definition round_volume ::
  "float_arith \<Rightarrow> string \<Rightarrow> pynum \<Rightarrow> real \<Rightarrow> py_error + npfloat" where
  "round_volume fp rounding volume volume_step =
     (case volume of
        Py c \<Rightarrow>
          if volume_step = 0 then Inl ZeroDivisionError
          else Inr (Fin (round_to_step fp rounding c volume_step))
      | Np v \<Rightarrow>
          if volume_step = 0 then Inr NaN
          else (case v of
                  Fin c \<Rightarrow> Inr (Fin (round_to_step fp rounding c volume_step))
                | PInf \<Rightarrow> Inr PInf
                | NInf \<Rightarrow> Inr NInf
                | NaN \<Rightarrow> Inr NaN))"

text \<open>
  \<^verbatim>\<open>calculate_position_size(symbol, action, stop_loss_pips)\<close>. The \<^verbatim>\<open>except\<close>
  clause returns the fixed lot.
\<close>

definition calculate_position_size ::
  "float_arith \<Rightarrow> terminal \<Rightarrow> string \<Rightarrow> string \<Rightarrow> real option \<Rightarrow> risk_manager
   \<Rightarrow> risk_manager \<times> npfloat" where
  "calculate_position_size fp w symbol action stop_loss_pips st0 =
     (let st = fst (check_trading_allowed w symbol st0)
      in if \<not> snd (check_trading_allowed w symbol st0) then (st, Fin 0)
         else
           (let position_sizing = c_position_sizing (rm_config st);
                recovery = c_recovery_mode (rm_config st);
                risk_reduction =
                  (if rc_enabled recovery \<and> check_recovery_mode st
                   then 1 - rc_risk_reduction_percent recovery / 100 else 1);
                pips = (case stop_loss_pips of
                          None \<Rightarrow> calculate_stop_loss_pips w st symbol action
                        | Some given \<Rightarrow> Py given);
                volume = num_times (raw_position_size w st symbol action pips) risk_reduction
            in case mt5_symbol_info w symbol of
                 None \<Rightarrow> (st, Fin 0)
               | Some si \<Rightarrow>
                   (case round_volume fp (position_size_rounding position_sizing)
                           (py_min (py_max volume (si_volume_min si)) (si_volume_max si))
                           (si_volume_step si) of
                      Inl e \<Rightarrow> (st, Fin (fixed_position_size st))
                    | Inr rounded \<Rightarrow> (st, rounded))))"

text \<open>
  What the properties of the rounding step assume of the floating-point operations, and
  what binary floating point guarantees: for the volume step at hand, the quotient grows
  with the dividend and the product grows with the integer factor.
\<close>

definition monotone_for :: "float_arith \<Rightarrow> real \<Rightarrow> bool" where
  "monotone_for fp volume_step =
     ((\<forall>x y. x \<le> y \<longrightarrow> fl_div fp x volume_step \<le> fl_div fp y volume_step)
      \<and> (\<forall>i j :: int. i \<le> j \<longrightarrow>
            fl_mul fp (of_int i) volume_step \<le> fl_mul fp (of_int j) volume_step))"

text \<open>
  The limits of a symbol are aligned with its volume step, as computed: the minimum
  divided by the step is at least the integer \<open>k\<close>, and \<open>k\<close> steps are at least the
  minimum; the maximum divided by the step is at most the integer \<open>m\<close>, and \<open>m\<close> steps
  are at most the maximum.
\<close>

definition aligned :: "float_arith \<Rightarrow> symbol_info \<Rightarrow> int \<Rightarrow> int \<Rightarrow> bool" where
  "aligned fp si k m =
     (of_int k \<le> fl_div fp (si_volume_min si) (si_volume_step si)
      \<and> si_volume_min si \<le> fl_mul fp (of_int k) (si_volume_step si)
      \<and> fl_div fp (si_volume_max si) (si_volume_step si) \<le> of_int m
      \<and> fl_mul fp (of_int m) (si_volume_step si) \<le> si_volume_max si)"

subsection \<open>Managing an open position\<close>

text \<open>
  Why a request was sent during \<^verbatim>\<open>manage_position\<close>; a partial close carries its
  level. The log of a call lists the requests handed to \<^verbatim>\<open>mt5.order_send\<close> in order,
  each with the terminal's answer.
\<close>

datatype cause = Break_Even | Trailing_Stop | Partial_Close real

type_synonym request_log = "(cause \<times> trade_request \<times> bool) list"

text \<open>The profit in pips; every type other than BUY is treated as a short position.\<close>

definition profit_pips_of :: "position \<Rightarrow> real \<Rightarrow> real" where
  "profit_pips_of p point =
     (if p_type p = POSITION_TYPE_BUY
      then (p_current_price p - p_open_price p) / (10 * point)
      else (p_open_price p - p_current_price p) / (10 * point))"

text \<open>
  The break-even block: the new stop loss for which \<^verbatim>\<open>_modify_position\<close> is called,
  if any.
\<close>

definition break_even_target :: "break_even_config \<Rightarrow> position \<Rightarrow> real \<Rightarrow> real option" where
  "break_even_target be p point =
     (if be_enabled be \<and> p_sl p \<noteq> 0
      then (if profit_pips_of p point \<ge> be_activation_pips be
            then (if p_type p = POSITION_TYPE_BUY \<and> p_sl p < p_open_price p
                  then (if p_open_price p + be_offset_pips be * 10 * point > p_sl p
                        then Some (p_open_price p + be_offset_pips be * 10 * point)
                        else None)
                  else if p_type p = POSITION_TYPE_SELL \<and> p_sl p > p_open_price p
                  then (if p_open_price p - be_offset_pips be * 10 * point < p_sl p
                           \<or> p_sl p = 0
                        then Some (p_open_price p - be_offset_pips be * 10 * point)
                        else None)
                  else None)
            else None)
      else None)"

text \<open>The trailing-stop block, in the same way.\<close>

definition trailing_target :: "trailing_stop_config \<Rightarrow> position \<Rightarrow> real \<Rightarrow> real option" where
  "trailing_target ts p point =
     (if ts_enabled ts \<and> p_sl p \<noteq> 0
      then (if profit_pips_of p point \<ge> ts_activation_pips ts
            then (if p_type p = POSITION_TYPE_BUY
                  then (if p_current_price p - ts_distance_pips ts * 10 * point
                           > p_sl p + ts_step_pips ts * 10 * point
                        then Some (p_current_price p - ts_distance_pips ts * 10 * point)
                        else None)
                  else if p_type p = POSITION_TYPE_SELL
                  then (if p_current_price p + ts_distance_pips ts * 10 * point
                           < p_sl p - ts_step_pips ts * 10 * point
                           \<or> p_sl p = 0
                        then Some (p_current_price p + ts_distance_pips ts * 10 * point)
                        else None)
                  else None)
            else None)
      else None)"

text \<open>
  \<^verbatim>\<open>_modify_position\<close>: on success the stored position takes the new levels.
\<close>

definition modify_position ::
  "terminal \<Rightarrow> int \<Rightarrow> real \<Rightarrow> real \<Rightarrow> risk_manager \<Rightarrow> risk_manager \<times> bool" where
  "modify_position w ticket sl tp st =
     (if \<not> mt5_order_send w (Sltp_Request ticket sl tp) then (st, False)
      else (case map_of (rm_positions st) ticket of
              None \<Rightarrow> (st, True)
            | Some p \<Rightarrow>
                (st\<lparr> rm_positions :=
                       AList.update ticket (p\<lparr> p_sl := sl, p_tp := tp \<rparr>) (rm_positions st) \<rparr>,
                 True)))"

text \<open>Order types of a closing deal: \<^verbatim>\<open>ORDER_TYPE_BUY\<close> is 0, \<^verbatim>\<open>ORDER_TYPE_SELL\<close> is 1.\<close>

definition ORDER_TYPE_BUY :: int where "ORDER_TYPE_BUY = 0"
definition ORDER_TYPE_SELL :: int where "ORDER_TYPE_SELL = 1"

text \<open>
  The volume that \<^verbatim>\<open>_partial_close_position\<close> closes, or \<open>None\<close> when the method
  gives up before sending a request (a volume step of 0 raises).
\<close>

definition close_volume_of :: "position \<Rightarrow> real \<Rightarrow> symbol_info \<Rightarrow> real option" where
  "close_volume_of p close_percent si =
     (if si_volume_step si = 0 then None
      else (let close_volume =
                  of_int \<lfloor>min (max (p_volume p * (close_percent / 100)) (si_volume_min si))
                              (p_volume p)
                          / si_volume_step si\<rfloor>
                  * si_volume_step si
            in if close_volume \<le> 0 \<or> close_volume > p_volume p then None
               else Some close_volume))"

text \<open>
  \<^verbatim>\<open>_partial_close_position\<close>: the new state, the result and the request sent, if
  any. After a successful deal the positions are fetched again.
\<close>

definition partial_close_position ::
  "terminal \<Rightarrow> int \<Rightarrow> real \<Rightarrow> risk_manager \<Rightarrow> risk_manager \<times> bool \<times> trade_request list" where
  "partial_close_position w ticket close_percent st =
     (case map_of (rm_positions st) ticket of
        None \<Rightarrow> (st, False, [])
      | Some p \<Rightarrow>
          (case mt5_symbol_info w (p_symbol p) of
             None \<Rightarrow> (st, False, [])
           | Some si \<Rightarrow>
               (case close_volume_of p close_percent si of
                  None \<Rightarrow> (st, False, [])
                | Some close_volume \<Rightarrow>
                    (case mt5_symbol_info_tick w (p_symbol p) of
                       None \<Rightarrow> (st, False, [])
                     | Some last_tick \<Rightarrow>
                         (let rq = (if p_type p = POSITION_TYPE_BUY
                                    then Deal_Request (p_symbol p) close_volume ORDER_TYPE_SELL
                                           ticket (tk_bid last_tick)
                                    else Deal_Request (p_symbol p) close_volume ORDER_TYPE_BUY
                                           ticket (tk_ask last_tick))
                          in if \<not> mt5_order_send w rq then (st, False, [rq])
                             else (fst (update_positions w st), True, [rq]))))))"

text \<open>
  \<^verbatim>\<open>self.positions[ticket][level_key] = True\<close>; the ticket may be gone after the
  positions were fetched again, which raises \<^verbatim>\<open>KeyError\<close>.
\<close>

definition mark_level :: "int \<Rightarrow> real \<Rightarrow> risk_manager \<Rightarrow> py_error + risk_manager" where
  "mark_level ticket level st =
     (case map_of (rm_positions st) ticket of
        None \<Rightarrow> Inl KeyError
      | Some p \<Rightarrow>
          Inr (st\<lparr> rm_positions :=
                     AList.update ticket
                       (p\<lparr> p_partial_closed := List.insert level (p_partial_closed p) \<rparr>)
                       (rm_positions st) \<rparr>))"

text \<open>
  The loop over the partial-close levels. \<open>p\<close> is the position dictionary read at the
  start of \<^verbatim>\<open>manage_position\<close>, \<open>profit_pips\<close> its profit. A level whose close fails
  is passed over; the first successful close ends the call. A \<^verbatim>\<open>KeyError\<close> at the
  marking is caught by the \<^verbatim>\<open>except\<close> clause of \<^verbatim>\<open>manage_position\<close>, which
  returns False.
\<close>

fun partial_close_levels ::
  "terminal \<Rightarrow> int \<Rightarrow> position \<Rightarrow> real \<Rightarrow> (real \<times> real) list \<Rightarrow> risk_manager
   \<Rightarrow> risk_manager \<times> bool \<times> request_log" where
  "partial_close_levels w ticket p profit_pips [] st = (st, False, [])"
| "partial_close_levels w ticket p profit_pips (level # levels) st =
     (if profit_pips \<ge> fst level \<and> fst level \<notin> set (p_partial_closed p)
      then (let closed = partial_close_position w ticket (snd level) st;
                entries = map (\<lambda>rq. (Partial_Close (fst level), rq, fst (snd closed)))
                            (snd (snd closed))
            in if fst (snd closed)
               then (case mark_level ticket (fst level) (fst closed) of
                       Inl e \<Rightarrow> (fst closed, False, entries)
                     | Inr marked \<Rightarrow> (marked, True, entries))
               else (let later = partial_close_levels w ticket p profit_pips levels (fst closed)
                     in (fst later, fst (snd later), entries @ snd (snd later))))
      else partial_close_levels w ticket p profit_pips levels st)"

text \<open>The log entry of an attempt to move the stop loss to a target.\<close>

definition stop_attempt :: "terminal \<Rightarrow> cause \<Rightarrow> int \<Rightarrow> position \<Rightarrow> real option \<Rightarrow> request_log" where
  "stop_attempt w why ticket p target =
     (case target of
        None \<Rightarrow> []
      | Some new_sl \<Rightarrow>
          [(why, Sltp_Request ticket new_sl (p_tp p),
            mt5_order_send w (Sltp_Request ticket new_sl (p_tp p)))])"

definition stop_accepted :: "terminal \<Rightarrow> int \<Rightarrow> position \<Rightarrow> real option \<Rightarrow> bool" where
  "stop_accepted w ticket p target =
     (case target of
        None \<Rightarrow> False
      | Some new_sl \<Rightarrow> mt5_order_send w (Sltp_Request ticket new_sl (p_tp p)))"

definition stop_applied :: "terminal \<Rightarrow> int \<Rightarrow> position \<Rightarrow> real option \<Rightarrow> risk_manager \<Rightarrow> risk_manager" where
  "stop_applied w ticket p target st =
     (case target of
        None \<Rightarrow> st
      | Some new_sl \<Rightarrow> fst (modify_position w ticket new_sl (p_tp p) st))"

text \<open>
  \<^verbatim>\<open>manage_position(ticket)\<close>: the new state, the result and the log of the requests.
  A point of 0 makes the profit computation raise; the \<^verbatim>\<open>except\<close> clause returns
  False. Break-even comes first, then the trailing stop, then the partial closes; the first
  action that succeeds ends the call.
\<close>

definition manage_position ::
  "terminal \<Rightarrow> int \<Rightarrow> risk_manager \<Rightarrow> risk_manager \<times> bool \<times> request_log" where
  "manage_position w ticket st =
     (case map_of (rm_positions st) ticket of
        None \<Rightarrow> (st, False, [])
      | Some p \<Rightarrow>
          (case mt5_symbol_info w (p_symbol p) of
             None \<Rightarrow> (st, False, [])
           | Some si \<Rightarrow>
               if 10 * si_point si = 0 then (st, False, [])
               else
                 (let config = rm_config st;
                      point = si_point si;
                      be = break_even_target (c_break_even config) p point;
                      tr = trailing_target (c_trailing_stop config) p point;
                      be_log = stop_attempt w Break_Even ticket p be;
                      tr_log = stop_attempt w Trailing_Stop ticket p tr
                  in if stop_accepted w ticket p be
                     then (stop_applied w ticket p be st, True, be_log)
                     else if stop_accepted w ticket p tr
                     then (stop_applied w ticket p tr st, True, be_log @ tr_log)
                     else if pc_enabled (c_partial_close config)
                     then (let closes = partial_close_levels w ticket p
                                          (profit_pips_of p point)
                                          (pc_levels (c_partial_close config)) st
                           in (fst closes, fst (snd closes),
                               be_log @ tr_log @ snd (snd closes)))
                     else (st, False, be_log @ tr_log))))"

text \<open>The requests of a log that move a stop loss.\<close>

definition is_stop_entry :: "cause \<times> trade_request \<times> bool \<Rightarrow> bool" where
  "is_stop_entry e =
     (case fst e of Break_Even \<Rightarrow> True | Trailing_Stop \<Rightarrow> True | Partial_Close l \<Rightarrow> False)"

definition stop_entries :: "request_log \<Rightarrow> request_log" where
  "stop_entries entries = filter is_stop_entry entries"

definition is_break_even_entry :: "cause \<times> trade_request \<times> bool \<Rightarrow> bool" where
  "is_break_even_entry e =
     (case fst e of Break_Even \<Rightarrow> True | Trailing_Stop \<Rightarrow> False | Partial_Close l \<Rightarrow> False)"

definition is_trailing_stop_entry :: "cause \<times> trade_request \<times> bool \<Rightarrow> bool" where
  "is_trailing_stop_entry e =
     (case fst e of Break_Even \<Rightarrow> False | Trailing_Stop \<Rightarrow> True | Partial_Close l \<Rightarrow> False)"

text \<open>The new stop loss that a log entry asks for.\<close>

fun requested_sl :: "cause \<times> trade_request \<times> bool \<Rightarrow> real option" where
  "requested_sl (why, Sltp_Request ticket sl tp, ok) = Some sl"
| "requested_sl (why, Deal_Request symbol volume order_type ticket price, ok) = None"

text \<open>
  A new stop loss is strictly better than the old one for the side of the position:
  higher for a long position, lower for a short one.
\<close>

definition strictly_better :: "position \<Rightarrow> real \<Rightarrow> bool" where
  "strictly_better p new_sl =
     (if p_type p = POSITION_TYPE_BUY then new_sl > p_sl p
      else if p_type p = POSITION_TYPE_SELL then new_sl < p_sl p
      else False)"

text \<open>A log entry asks for a stop loss that is strictly better for the position.\<close>

definition improves :: "position \<Rightarrow> cause \<times> trade_request \<times> bool \<Rightarrow> bool" where
  "improves p e = (case requested_sl e of None \<Rightarrow> False | Some s \<Rightarrow> strictly_better p s)"

section \<open>Example scenarios of the replicator\<close>

definition example_order :: order where
  "example_order =
     \<lparr> o_ticket = Some 100, o_symbol = Some ''EURUSD'', o_type = Some 0,
       o_volume = Some 1, o_sl = Some (1095 / 1000), o_tp = Some (111 / 100),
       o_comment = None \<rparr>"

text \<open>Targets that are connected and accept, or refuse, every order.\<close>

definition accepting_gateway :: gateway where
  "accepting_gateway =
     \<lparr> gw_connected = (\<lambda>b. True), gw_execute = (\<lambda>b rq. Reply_Result True) \<rparr>"

definition rejecting_gateway :: gateway where
  "rejecting_gateway =
     \<lparr> gw_connected = (\<lambda>b. True), gw_execute = (\<lambda>b rq. Reply_Result False) \<rparr>"

text \<open>A started replicator with source 0 and targets 1 and 2.\<close>

definition example_replicator :: replicator where
  "example_replicator =
     fst (start_replicator accepting_gateway (new_replicator (Some 0) [1, 2]))"

text \<open>
  The source reports order 100 twice in one batch and again in the next one; the
  replication loop runs after each batch.
\<close>

definition example_run :: "event list" where
  "example_run =
     [Monitor True (History [example_order, example_order]), Replicate accepting_gateway,
      Monitor True (History [example_order]), Replicate accepting_gateway]"

text \<open>The same batches with targets that refuse the order.\<close>

definition failing_run :: "event list" where
  "failing_run =
     [Monitor True (History [example_order]), Replicate rejecting_gateway,
      Monitor True (History [example_order]), Replicate rejecting_gateway]"

text \<open>The replicator after the monitor loop has seen order 100 once.\<close>

definition example_seen :: replicator where
  "example_seen =
     monitor_iteration sorted_list_of_set True (History [example_order]) example_replicator"

text \<open>
  Four accounts; groups G1 and G2 share the source A, group G3 has the source D.
\<close>

definition example_accounts :: registry where
  "example_accounts =
     fst (add_account ''D'' 3 (fst (add_account ''C'' 2 (fst (add_account ''B'' 1
       (fst (add_account ''A'' 0 empty_registry)))))))"

definition example_registry :: registry where
  "example_registry =
     fst (create_replication_group ''G3'' ''D'' [''B'']
       (fst (create_replication_group ''G2'' ''A'' [''C'']
         (fst (create_replication_group ''G1'' ''A'' [''B''] example_accounts)))))"

definition started_registry :: registry where
  "started_registry = fst (start_replication accepting_gateway ''G1'' example_registry)"

definition stopped_registry :: registry where
  "stopped_registry = fst (stop_replication ''G1'' started_registry)"

text \<open>
  A group whose list of targets names account B twice, started; its replicator; and a run
  in which the source reports order 100 once and the replication loop runs once.
\<close>

definition duplicate_registry :: registry where
  "duplicate_registry =
     fst (start_replication accepting_gateway ''G1''
       (fst (create_replication_group ''G1'' ''A'' [''B'', ''B''] example_accounts)))"

definition duplicate_replicator :: replicator where
  "duplicate_replicator = the (group_replicator duplicate_registry ''G1'')"

definition duplicate_run :: "event list" where
  "duplicate_run = [Monitor True (History [example_order]), Replicate accepting_gateway]"

definition half_volume :: config_patch where
  "half_volume = empty_patch\<lparr> new_volume_multiplier := Some (1 / 2) \<rparr>"

section \<open>Example scenarios of the risk manager\<close>

text \<open>A terminal that answers nothing, on a Monday at noon.\<close>

definition idle_terminal :: terminal where
  "idle_terminal =
     \<lparr> mt5_account_info = None, mt5_positions_get = None,
       mt5_symbol_info = (\<lambda>symbol. None), mt5_symbol_info_tick = (\<lambda>symbol. None),
       mt5_copy_rates = (\<lambda>symbol n. None), mt5_order_send = (\<lambda>rq. False),
       price_correlation = (\<lambda>s1 s2. None), now_date = 0, now_week = (2024, 1),
       now_month = (2024, 1), now_weekday = 0, now_hour = 12 \<rparr>"

definition example_account :: "real \<Rightarrow> real \<Rightarrow> mt5_account" where
  "example_account balance equity =
     \<lparr> acc_login = 1, acc_server = ''Demo'', acc_currency = ''USD'', acc_leverage = 100,
       acc_balance = balance, acc_equity = equity, acc_margin = 0,
       acc_margin_free = equity, acc_margin_level = 0, acc_profit = equity - balance \<rparr>"

text \<open>A long EURUSD position of one lot, opened at 1.1000, now at 1.1020.\<close>

definition example_position :: "int \<Rightarrow> real \<Rightarrow> real \<Rightarrow> mt5_position" where
  "example_position ticket volume sl =
     \<lparr> mp_ticket = ticket, mp_symbol = ''EURUSD'', mp_type = 0, mp_volume = volume,
       mp_price_open = 11 / 10, mp_price_current = 1102 / 1000, mp_sl = sl, mp_tp = 0,
       mp_profit = 0, mp_swap = 0, mp_time = 0, mp_magic = 0, mp_comment = [] \<rparr>"

text \<open>
  A risk manager with the default configuration whose statistics hold a loss of 5 for
  today, and a terminal with an account of the given balance and two EURUSD positions.
\<close>

definition losing_day :: risk_manager where
  "losing_day = (new_risk_manager default_config)\<lparr> rm_daily_stats := [(0, - 5)] \<rparr>"

definition two_positions_terminal :: "real \<Rightarrow> terminal" where
  "two_positions_terminal balance =
     idle_terminal\<lparr> mt5_account_info := Some (example_account balance balance),
                    mt5_positions_get :=
                      Some [example_position 1 1 0, example_position 2 1 0] \<rparr>"

text \<open>
  EURUSD as a broker quotes it: five digits, lots from 0.01 to 100 in steps of 0.01.
\<close>

definition eurusd :: symbol_info where
  "eurusd =
     \<lparr> si_point = 1 / 100000, si_digits = 5, si_volume_min = 1 / 100,
       si_volume_max = 100, si_volume_step = 1 / 100, si_trade_tick_value = 1,
       si_trade_contract_size = 100000 \<rparr>"

text \<open>
  A terminal with an account of 10000, no open position and the symbol EURUSD, on a
  Monday at noon; and the same terminal on a Saturday.
\<close>

definition trading_terminal :: terminal where
  "trading_terminal =
     idle_terminal\<lparr> mt5_account_info := Some (example_account 10000 10000),
                    mt5_symbol_info := (\<lambda>symbol. if symbol = ''EURUSD'' then Some eurusd
                                                  else None),
                    mt5_symbol_info_tick :=
                      (\<lambda>symbol. if symbol = ''EURUSD''
                                 then Some \<lparr> tk_bid = 1102 / 1000, tk_ask = 1102 / 1000 \<rparr>
                                 else None),
                    mt5_order_send := (\<lambda>rq. True) \<rparr>"

definition saturday_terminal :: terminal where
  "saturday_terminal = trading_terminal\<lparr> now_weekday := 5 \<rparr>"

text \<open>
  EURUSD with its limits as binary64 holds them: 0.01 is the nearest binary64 number.
\<close>

definition eurusd64 :: symbol_info where
  "eurusd64 = eurusd\<lparr> si_volume_min := round53 (1 / 100), si_volume_step := round53 (1 / 100) \<rparr>"

definition binary64_terminal :: terminal where
  "binary64_terminal =
     trading_terminal\<lparr> mt5_symbol_info := (\<lambda>symbol. if symbol = ''EURUSD'' then Some eurusd64
                                                      else None) \<rparr>"

text \<open>
  A symbol with lots from 0.3 in steps of 0.1, as binary64 holds them, and a risk manager
  that sizes with the fixed lot of 0.01.
\<close>

definition coarse_symbol :: symbol_info where
  "coarse_symbol = eurusd\<lparr> si_volume_min := round53 (3 / 10), si_volume_step := round53 (1 / 10) \<rparr>"

definition coarse_terminal :: terminal where
  "coarse_terminal =
     trading_terminal\<lparr> mt5_symbol_info := (\<lambda>symbol. if symbol = ''EURUSD'' then Some coarse_symbol
                                                      else None) \<rparr>"

definition fixed_lot_manager :: risk_manager where
  "fixed_lot_manager =
     (new_risk_manager default_config)
       \<lparr> rm_config := default_config
            \<lparr> c_position_sizing := (c_position_sizing default_config)\<lparr> ps_method := ''fixed'' \<rparr> \<rparr> \<rparr>"

text \<open>
  A symbol whose volume step is 0, with two daily bars of history, and a risk manager that
  sizes by volatility with an ATR period of 1.
\<close>

definition stepless_terminal :: terminal where
  "stepless_terminal =
     trading_terminal
       \<lparr> mt5_symbol_info := (\<lambda>symbol. if symbol = ''EURUSD''
                                      then Some (eurusd\<lparr> si_volume_step := 0 \<rparr>) else None),
         mt5_copy_rates :=
           (\<lambda>symbol n. Some [\<lparr> b_high = 111 / 100, b_low = 110 / 100, b_close = 1105 / 1000 \<rparr>,
                              \<lparr> b_high = 112 / 100, b_low = 110 / 100, b_close = 111 / 100 \<rparr>]) \<rparr>"

definition volatility_manager :: risk_manager where
  "volatility_manager =
     (new_risk_manager default_config)
       \<lparr> rm_config := default_config
            \<lparr> c_position_sizing := (c_position_sizing default_config)
                 \<lparr> ps_method := ''volatility'', ps_atr_period := 1 \<rparr> \<rparr> \<rparr>"

text \<open>
  The trading terminal holding one long EURUSD position (ticket 1) of the given volume and
  stop loss, and the risk manager after it has fetched that position.
\<close>

definition position_terminal :: "real \<Rightarrow> real \<Rightarrow> terminal" where
  "position_terminal volume sl =
     trading_terminal\<lparr> mt5_positions_get := Some [example_position 1 volume sl] \<rparr>"

definition holding :: "real \<Rightarrow> real \<Rightarrow> risk_manager" where
  "holding volume sl =
     fst (update_positions (position_terminal volume sl) (new_risk_manager default_config))"

text \<open>
  The risk manager holding the position with a stop loss at 1.0950 after one call of
  \<^verbatim>\<open>manage_position\<close>, and after a second call; the price has not changed.
\<close>

definition after_break_even :: risk_manager where
  "after_break_even =
     fst (manage_position (position_terminal 1 (1095 / 1000)) 1 (holding 1 (1095 / 1000)))"

definition after_trailing :: risk_manager where
  "after_trailing = fst (manage_position (position_terminal 1 (1095 / 1000)) 1 after_break_even)"

text \<open>
  The same position under a trailing distance of 30 pips, and a terminal that refuses the
  request that moves the stop loss to break even (1.1002) and accepts every other request.
\<close>

definition wide_trailing :: risk_manager where
  "wide_trailing =
     (holding 1 (1095 / 1000))
       \<lparr> rm_config := default_config
            \<lparr> c_trailing_stop := (c_trailing_stop default_config)\<lparr> ts_distance_pips := 30 \<rparr> \<rparr> \<rparr>"

definition refusing_terminal :: terminal where
  "refusing_terminal =
     (position_terminal 1 (1095 / 1000))
       \<lparr> mt5_order_send := (\<lambda>rq. rq \<noteq> Sltp_Request 1 (11002 / 10000) 0) \<rparr>"

text \<open>
  The risk manager holding the position without a stop loss after one call of
  \<^verbatim>\<open>manage_position\<close>; the terminal then reports the remaining volume of 0.75.
\<close>

definition after_partial_close :: risk_manager where
  "after_partial_close = fst (manage_position (position_terminal (3 / 4) 0) 1 (holding 1 0))"

chapter \<open>Properties\<close>

section \<open>Properties of the order transformation\<close>

lemma str_nat_100: "str_nat 100 = ''100''"
  by (simp add: str_nat.simps)

text \<open>
  C8. The source order with ticket 100 (EURUSD, BUY, volume 1.0, stop loss 1.0950, take
  profit 1.1100) under multiplier 0.5, no reversal, levels included and adjustment 0 is
  dispatched as EURUSD BUY 0.5 with the same levels; under multiplier 1.0, reversal and
  levels excluded it is dispatched as EURUSD SELL 1.0 with both levels 0.
\<close>

theorem replicate_request_examples:
  "replicate_request example_order
     (dict_update default_replication_config
        (empty_patch\<lparr> new_volume_multiplier := Some (1 / 2),
                       new_reverse_direction := Some False,
                       new_include_sl_tp := Some True,
                       new_adjust_sl_tp_percent := Some 0 \<rparr>))
   = Some \<lparr> rq_action = ''BUY'', rq_symbol = ''EURUSD'', rq_volume = 1 / 2,
            rq_sl = 1095 / 1000, rq_tp = 111 / 100, rq_comment = ''REP:100:'' \<rparr>
   \<and>
   replicate_request example_order
     (dict_update default_replication_config
        (empty_patch\<lparr> new_volume_multiplier := Some 1,
                       new_reverse_direction := Some True,
                       new_include_sl_tp := Some False \<rparr>))
   = Some \<lparr> rq_action = ''SELL'', rq_symbol = ''EURUSD'', rq_volume = 1,
            rq_sl = 0, rq_tp = 0, rq_comment = ''REP:100:'' \<rparr>"
  by (simp add: replicate_request_def replicate_action_def adjust_sl_def adjust_tp_def
      dict_update_def default_replication_config_def empty_patch_def dict_get_def
      example_order_def str_ticket_def str_int_def str_nat_100)

section \<open>Properties of the replication pipeline\<close>

subsection \<open>The monitor loop takes a ticket once\<close>

lemma filter_new_pending_in:
  "t \<in> p \<Longrightarrow> pending t (fst (filter_new os p)) = 0"
  by (induction os arbitrary: p) (auto simp: pending_def split_beta split: option.splits)

lemma filter_new_pending_le:
  "pending t (fst (filter_new os p)) \<le> 1"
proof (induction os arbitrary: p)
  case Nil
  show ?case by (simp add: pending_def)
next
  case (Cons ord os)
  show ?case
  proof (cases "o_ticket ord")
    case None
    then show ?thesis using Cons [of p] by simp
  next
    case (Some i)
    show ?thesis
    proof (cases "i \<noteq> 0 \<and> i \<notin> p")
      case False
      then show ?thesis using Some Cons [of p] by auto
    next
      case True
      show ?thesis
      proof (cases "i = t")
        case True
        have "pending t (fst (filter_new os (insert i p))) = 0"
          using True by (simp add: filter_new_pending_in)
        then show ?thesis using Some True \<open>i \<noteq> 0 \<and> i \<notin> p\<close>
          by (simp add: pending_def split_beta)
      next
        case False
        then show ?thesis using Some True Cons [of "insert i p"]
          by (simp add: pending_def split_beta)
      qed
    qed
  qed
qed

lemma filter_new_mono: "x \<in> p \<Longrightarrow> x \<in> snd (filter_new os p)"
  by (induction os arbitrary: p) (simp_all add: split_beta split: option.splits)

lemma filter_new_pending_seen:
  "0 < pending t (fst (filter_new os p)) \<Longrightarrow> t \<in> snd (filter_new os p)"
proof (induction os arbitrary: p)
  case Nil
  then show ?case by (simp add: pending_def)
next
  case (Cons ord os)
  show ?case
  proof (cases "o_ticket ord")
    case None
    then show ?thesis using Cons.prems Cons.IH [of p] by simp
  next
    case (Some i)
    show ?thesis
    proof (cases "i \<noteq> 0 \<and> i \<notin> p")
      case False
      then show ?thesis using Some Cons.prems Cons.IH [of p] by auto
    next
      case True
      show ?thesis
      proof (cases "i = t")
        case True
        have "t \<in> insert i p" using True by simp
        then have "t \<in> snd (filter_new os (insert i p))"
          by (rule filter_new_mono)
        then show ?thesis using Some \<open>i \<noteq> 0 \<and> i \<notin> p\<close> by (simp add: split_beta)
      next
        case False
        then have "0 < pending t (fst (filter_new os (insert i p)))"
          using Some True Cons.prems by (simp add: pending_def split_beta)
        then have "t \<in> snd (filter_new os (insert i p))" by (rule Cons.IH)
        then show ?thesis using Some True by (simp add: split_beta)
      qed
    qed
  qed
qed


subsection \<open>Counting the executions of a ticket\<close>

lemma executions_append:
  "executions t b (xs @ ys) = executions t b xs + executions t b ys"
  by (simp add: executions_def)

lemma executions_dispatch_other:
  "o_ticket ord \<noteq> Some t \<Longrightarrow> executions t b (map (dispatch_one gw ord cfg) ts) = 0"
  by (induction ts) (simp_all add: executions_def is_execute_def dispatch_one_def)

lemma executions_dispatch_absent:
  "b \<notin> set ts \<Longrightarrow> executions t b (map (dispatch_one gw ord cfg) ts) = 0"
  by (induction ts) (simp_all add: executions_def is_execute_def dispatch_one_def)

lemma executions_dispatch_distinct:
  "distinct ts \<Longrightarrow> executions t b (map (dispatch_one gw ord cfg) ts) \<le> 1"
proof (induction ts)
  case Nil
  show ?case by (simp add: executions_def)
next
  case (Cons a ts)
  show ?case
  proof (cases "a = b")
    case True
    then have "b \<notin> set ts" using Cons.prems by simp
    then have "executions t b (map (dispatch_one gw ord cfg) ts) = 0"
      by (rule executions_dispatch_absent)
    then show ?thesis by (simp add: executions_def)
  next
    case False
    then have "\<not> is_execute t b (dispatch_one gw ord cfg a)"
      by (simp add: is_execute_def dispatch_one_def)
    then show ?thesis using Cons by (simp add: executions_def)
  qed
qed

lemma replication_iteration_frame:
  "r_targets (fst (replication_iteration gw r)) = r_targets r"
  "r_processed (fst (replication_iteration gw r)) = r_processed r"
  by (simp_all add: replication_iteration_def split: list.splits)

lemma monitor_iteration_frame:
  "r_targets (monitor_iteration listing c h r) = r_targets r"
  by (simp add: monitor_iteration_def split: history_reply.splits)

lemma replication_iteration_dispatches:
  "r_queue r = ord # rest \<Longrightarrow>
   snd (replication_iteration gw r) = []
   \<or> snd (replication_iteration gw r) = map (dispatch_one gw ord (r_config r)) (r_targets r)"
  by (simp add: replication_iteration_def)

lemma executions_Nil: "executions t b [] = 0"
  by (simp add: executions_def)

lemma replicate_step_once:
  assumes inv: "replicated_once t (r, ds)" and dist: "distinct (r_targets r)"
  shows "replicated_once t (fst (replication_iteration gw r),
                            ds @ snd (replication_iteration gw r))"
proof (cases "r_queue r")
  case Nil
  then show ?thesis using inv by (simp add: replication_iteration_def replicated_once_def)
next
  case (Cons ord rest)
  let ?new = "snd (replication_iteration gw r)"
  have q: "r_queue (fst (replication_iteration gw r)) = rest"
    using Cons by (simp add: replication_iteration_def)
  have p: "r_processed (fst (replication_iteration gw r)) = r_processed r"
    by (rule replication_iteration_frame)
  show ?thesis
  proof (cases "o_ticket ord = Some t")
    case False
    have "executions t b ?new = 0" for b
      using replication_iteration_dispatches [OF Cons, of gw]
        executions_dispatch_other [OF False, of b gw "r_config r" "r_targets r"]
      by (auto simp: executions_Nil)
    moreover have "pending t rest = pending t (r_queue r)"
      using Cons False by (simp add: pending_def)
    ultimately show ?thesis using inv q p
      by (simp add: replicated_once_def executions_append)
  next
    case True
    have pq: "pending t (r_queue r) = Suc (pending t rest)"
      using Cons True by (simp add: pending_def)
    have zero: "pending t rest = 0" and none: "executions t b ds = 0" for b
      using inv pq by (auto simp: replicated_once_def dest: spec [of _ b])
    have mem: "t \<in> r_processed r"
      using inv pq by (auto simp: replicated_once_def)
    have "executions t b ?new \<le> 1" for b
      using replication_iteration_dispatches [OF Cons, of gw]
        executions_dispatch_distinct [OF dist, of t b gw ord "r_config r"]
      by (auto simp: executions_Nil)
    then show ?thesis using q p zero none mem
      by (simp add: replicated_once_def executions_append)
  qed
qed

lemma monitor_step_once:
  assumes inv: "replicated_once t (r, ds)"
    and kept: "t \<in> r_processed (monitor_iteration listing c h r) \<or> t \<notin> monitor_seen c h r"
  shows "replicated_once t (monitor_iteration listing c h r, ds)"
proof (cases "cfg_enabled (r_config r) \<and> c \<and> (\<exists>orders. h = History orders)")
  case False
  then have "monitor_iteration listing c h r = r"
    by (cases h) (auto simp: monitor_iteration_def)
  then show ?thesis using inv by simp
next
  case True
  then obtain orders where h: "h = History orders" by blast
  let ?new = "fst (filter_new orders (r_processed r))"
  let ?seen = "snd (filter_new orders (r_processed r))"
  have q: "r_queue (monitor_iteration listing c h r) = r_queue r @ ?new"
    using True h by (simp add: monitor_iteration_def)
  have seen: "monitor_seen c h r = ?seen"
    using True h by (simp add: monitor_seen_def)
  have pend: "pending t (r_queue r @ ?new) = pending t (r_queue r) + pending t ?new"
    by (simp add: pending_def)
  show ?thesis
  proof (cases "t \<in> r_processed r")
    case True
    have "pending t ?new = 0" using True by (rule filter_new_pending_in)
    moreover have "t \<in> ?seen" using True by (rule filter_new_mono)
    ultimately show ?thesis using inv q pend kept seen
      by (simp add: replicated_once_def)
  next
    case False
    then have zero: "pending t (r_queue r) = 0" and none: "executions t b ds = 0" for b
      using inv by (auto simp: replicated_once_def)
    have le: "pending t ?new \<le> 1" by (rule filter_new_pending_le)
    show ?thesis
    proof (cases "pending t ?new = 0")
      case True
      then show ?thesis using q pend zero none by (simp add: replicated_once_def)
    next
      case False
      then have "t \<in> ?seen" using filter_new_pending_seen [of t orders "r_processed r"] by simp
      then have "t \<in> r_processed (monitor_iteration listing c h r)"
        using kept seen by simp
      then show ?thesis using q pend zero none le by (simp add: replicated_once_def)
    qed
  qed
qed

lemma run_once:
  "replicated_once t s \<Longrightarrow> distinct (r_targets (fst s))
   \<Longrightarrow> never_evicted listing t evs (fst s)
   \<Longrightarrow> replicated_once t (run listing evs s)"
proof (induction evs arbitrary: s)
  case Nil
  then show ?case by simp
next
  case (Cons ev evs)
  show ?case
  proof (cases ev)
    case (Monitor c h)
    have "replicated_once t (monitor_iteration listing c h (fst s), snd s)"
      using Cons.prems Monitor monitor_step_once [of t "fst s" "snd s" listing c h] by simp
    then show ?thesis
      using Cons.prems Monitor Cons.IH [of "(monitor_iteration listing c h (fst s), snd s)"]
      by (simp add: monitor_iteration_frame)
  next
    case (Replicate gw)
    have "replicated_once t (fst (replication_iteration gw (fst s)),
                             snd s @ snd (replication_iteration gw (fst s)))"
      using Cons.prems replicate_step_once [of t "fst s" "snd s" gw] by simp
    then show ?thesis
      using Cons.prems Replicate
        Cons.IH [of "(fst (replication_iteration gw (fst s)),
                      snd s @ snd (replication_iteration gw (fst s)))"]
      by (simp add: replication_iteration_frame)
  qed
qed

lemma evict_card: "card p \<le> 10000 \<or> card (evict listing p) \<le> 5000"
proof (cases "card p > 10000")
  case False
  then show ?thesis by simp
next
  case True
  have "card (set (drop (length (listing p) - 5000) (listing p)))
        \<le> length (drop (length (listing p) - 5000) (listing p))"
    by (rule card_length)
  then show ?thesis using True by (simp add: evict_def)
qed

lemma monitor_iteration_cap:
  "card (r_processed r) \<le> 10000
   \<Longrightarrow> card (r_processed (monitor_iteration listing c h r)) \<le> 10000"
proof (cases "cfg_enabled (r_config r) \<and> c \<and> (\<exists>orders. h = History orders)")
  case False
  assume "card (r_processed r) \<le> 10000"
  moreover have "monitor_iteration listing c h r = r"
    using False by (cases h) (auto simp: monitor_iteration_def)
  ultimately show ?thesis by simp
next
  case True
  then obtain orders where h: "h = History orders" by blast
  let ?seen = "snd (filter_new orders (r_processed r))"
  have "r_processed (monitor_iteration listing c h r) = evict listing ?seen"
    using True h by (simp add: monitor_iteration_def)
  moreover have "card (evict listing ?seen) \<le> 10000"
    using evict_card [of ?seen listing] by (auto simp: evict_def)
  ultimately show ?thesis by simp
qed

text \<open>
  A ticket that is in the processed set is not enqueued by a monitor iteration; in every
  run of the two loops that starts with no copy of the ticket pending and never evicts it,
  a target that is listed once receives the ticket at most once; and the processed set
  never holds more than 10000 tickets after an iteration. This holds for every order in
  which Python may list the set at eviction.
\<close>

lemma distinct_targets_replicated_once:
  "(t \<in> r_processed r \<longrightarrow>
      pending t (r_queue (monitor_iteration listing c h r)) = pending t (r_queue r))
   \<and> (distinct (r_targets r) \<and> pending t (r_queue r) = 0 \<and> never_evicted listing t evs r \<longrightarrow>
      executions t b (snd (run listing evs (r, []))) \<le> 1)
   \<and> (card (r_processed r) \<le> 10000 \<longrightarrow>
      card (r_processed (monitor_iteration listing c h r)) \<le> 10000)"
proof (intro conjI impI)
  assume "t \<in> r_processed r"
  then have "pending t (fst (filter_new orders (r_processed r))) = 0" for orders
    by (rule filter_new_pending_in)
  then show "pending t (r_queue (monitor_iteration listing c h r)) = pending t (r_queue r)"
    by (cases h) (simp_all add: monitor_iteration_def pending_def)
next
  assume a: "distinct (r_targets r) \<and> pending t (r_queue r) = 0 \<and> never_evicted listing t evs r"
  have "replicated_once t (r, [])"
    using a by (simp add: replicated_once_def executions_def)
  then have "replicated_once t (run listing evs (r, []))"
    using a run_once [of t "(r, [])" listing evs] by simp
  then show "executions t b (snd (run listing evs (r, []))) \<le> 1"
    by (simp add: replicated_once_def) (metis le_add2 le_trans)
next
  assume "card (r_processed r) \<le> 10000"
  then show "card (r_processed (monitor_iteration listing c h r)) \<le> 10000"
    by (rule monitor_iteration_cap)
qed

text \<open>
  The size limit leaves a set of at most 10000 tickets alone; of a larger one it keeps
  5000 tickets, the last ones in the order in which Python lists the set.
\<close>

lemma evict_small: "card p \<le> 10000 \<Longrightarrow> evict listing p = p"
  by (simp add: evict_def)

lemma evict_keeps_5000:
  assumes "set (listing p) = p" and "distinct (listing p)" and "card p > 10000"
  shows "evict listing p \<subseteq> p \<and> card (evict listing p) = 5000"
proof -
  let ?kept = "drop (length (listing p) - 5000) (listing p)"
  have len: "length (listing p) = card p"
    using assms(1,2) distinct_card [of "listing p"] by simp
  have "set ?kept \<subseteq> set (listing p)" by (rule set_drop_subset)
  moreover have "card (set ?kept) = length ?kept"
    using assms(2) by (simp add: distinct_card)
  moreover have "length ?kept = 5000" using len assms(3) by simp
  ultimately show ?thesis using assms by (simp add: evict_def)
qed

text \<open>
  Which tickets stay is a matter of the listing: with the tickets listed in descending
  order it is the newest (largest) ticket that goes.
\<close>

lemma evict_may_drop_newest:
  assumes "finite p" and "card p > 10000"
  shows "Max p \<notin> evict (\<lambda>s. rev (sorted_list_of_set s)) p"
proof -
  let ?xs = "sorted_list_of_set p"
  have len: "length ?xs = card p" using assms(1) by simp
  have ne: "p \<noteq> {}" using assms(2) by auto
  have "evict (\<lambda>s. rev (sorted_list_of_set s)) p = set (take 5000 ?xs)"
    using assms(2) len by (simp add: evict_def drop_rev)
  moreover have "Max p \<notin> set (take 5000 ?xs)"
  proof
    assume "Max p \<in> set (take 5000 ?xs)"
    then obtain i where i: "i < 5000" "i < length ?xs" "?xs ! i = Max p"
      by (auto simp: in_set_conv_nth)
    have "sorted_wrt (<) ?xs" using assms(1) by (simp add: strict_sorted_iff)
    moreover have "i < 5000" "5000 < length ?xs" using i len assms(2) by auto
    ultimately have "?xs ! i < ?xs ! 5000"
      by (auto simp: sorted_wrt_iff_nth_less)
    moreover have "?xs ! 5000 \<in> p"
      using len assms(1,2) nth_mem [of 5000 ?xs] by simp
    then have "?xs ! 5000 \<le> Max p" using assms(1) by simp
    ultimately show False using i by simp
  qed
  ultimately show ?thesis by simp
qed

lemmas pipeline_example_defs =
  example_run_def example_replicator_def example_seen_def start_replicator_def
  new_replicator_def accepting_gateway_def rejecting_gateway_def monitor_iteration_def
  monitor_seen_def evict_def example_order_def replication_iteration_def
  should_replicate_order_def default_replication_config_def dict_get_def pending_def
  executions_def is_execute_def dispatch_one_def replicate_request_def
  replicate_action_def replicate_order_def adjust_sl_def adjust_tp_def str_ticket_def
  str_int_def

text \<open>In the example run the ticket does reach target 1, exactly once.\<close>

lemma example_run_executes_once:
  "executions 100 1 (snd (run sorted_list_of_set example_run (example_replicator, []))) = 1"
  by (simp add: pipeline_example_defs)

subsection \<open>A failed dispatch is neither retried nor requeued\<close>

text \<open>
  C7, as stated, fails: with two targets that refuse the order, one iteration of the
  replication loop calls each target once, and the queue is empty afterwards: the order is
  gone, not requeued.
\<close>

theorem failed_dispatch_dropped:
  "snd (replication_iteration rejecting_gateway example_seen) =
     [\<lparr> d_ticket = Some 100, d_target = 1,
        d_outcome = Executed \<lparr> rq_action = ''BUY'', rq_symbol = ''EURUSD'', rq_volume = 1,
                               rq_sl = 1095 / 1000, rq_tp = 111 / 100,
                               rq_comment = ''REP:100:'' \<rparr> False \<rparr>,
      \<lparr> d_ticket = Some 100, d_target = 2,
        d_outcome = Executed \<lparr> rq_action = ''BUY'', rq_symbol = ''EURUSD'', rq_volume = 1,
                               rq_sl = 1095 / 1000, rq_tp = 111 / 100,
                               rq_comment = ''REP:100:'' \<rparr> False \<rparr>]
   \<and> r_queue example_seen = [example_order]
   \<and> r_queue (fst (replication_iteration rejecting_gateway example_seen)) = []"
  by (simp add: pipeline_example_defs str_nat.simps)

lemma executions_dispatch_count:
  "executions t b (map (dispatch_one gw ord cfg) ts) =
     (if o_ticket ord = Some t \<and> gw_connected gw b \<and> replicate_request ord cfg \<noteq> None
      then count_list ts b else 0)"
  by (induction ts)
     (auto simp: executions_def is_execute_def dispatch_one_def split: option.splits)

lemma executions_iteration:
  "r_queue r = ord # rest \<Longrightarrow>
   executions t b (snd (replication_iteration gw r)) =
     (if cfg_enabled (r_config r) \<and> should_replicate_order ord (r_config r)
         \<and> o_ticket ord = Some t \<and> gw_connected gw b
         \<and> replicate_request ord (r_config r) \<noteq> None
      then count_list (r_targets r) b else 0)"
  by (auto simp: replication_iteration_def executions_dispatch_count executions_Nil)

lemma executions_iteration_le:
  "executions t b (snd (replication_iteration gw r))
   + count_list (r_targets r) b * pending t (r_queue (fst (replication_iteration gw r)))
   \<le> count_list (r_targets r) b * pending t (r_queue r)"
proof (cases "r_queue r")
  case Nil
  then show ?thesis by (simp add: replication_iteration_def executions_Nil)
next
  case (Cons ord rest)
  have q: "r_queue (fst (replication_iteration gw r)) = rest"
    using Cons by (simp add: replication_iteration_def)
  show ?thesis
  proof (cases "o_ticket ord = Some t")
    case True
    then have "pending t (r_queue r) = Suc (pending t rest)"
      using Cons by (simp add: pending_def)
    then show ?thesis using q executions_iteration [OF Cons, of t b gw] by simp
  next
    case False
    then have "pending t (r_queue r) = pending t rest"
      using Cons by (simp add: pending_def)
    then show ?thesis using q False executions_iteration [OF Cons, of t b gw] by simp
  qed
qed

lemma monitor_iteration_pending:
  "pending t (r_queue (monitor_iteration listing c h r)) \<ge> pending t (r_queue r)"
  by (cases h) (simp_all add: monitor_iteration_def pending_def)

lemma run_executions_bound:
  "executions t b (snd (run listing evs (r, ds)))
   + count_list (r_targets r) b * pending t (r_queue (fst (run listing evs (r, ds))))
   \<le> executions t b ds
      + count_list (r_targets r) b * (pending t (r_queue r) + enqueued listing t evs r)"
proof (induction evs arbitrary: r ds)
  case Nil
  show ?case by simp
next
  case (Cons ev evs)
  show ?case
  proof (cases ev)
    case (Monitor c h)
    let ?r = "monitor_iteration listing c h r"
    have "pending t (r_queue ?r) = pending t (r_queue r)
            + (pending t (r_queue ?r) - pending t (r_queue r))"
      using monitor_iteration_pending [of t r listing c h] by simp
    then show ?thesis
      using Cons [of ?r ds] Monitor
      by (simp add: monitor_iteration_frame add.assoc)
  next
    case (Replicate gw)
    let ?r = "fst (replication_iteration gw r)"
    let ?new = "snd (replication_iteration gw r)"
    have step: "executions t b ?new + count_list (r_targets r) b * pending t (r_queue ?r)
                \<le> count_list (r_targets r) b * pending t (r_queue r)"
      by (rule executions_iteration_le)
    have ih: "executions t b (snd (run listing evs (?r, ds @ ?new)))
              + count_list (r_targets r) b
                * pending t (r_queue (fst (run listing evs (?r, ds @ ?new))))
              \<le> executions t b (ds @ ?new)
                 + count_list (r_targets r) b * (pending t (r_queue ?r) + enqueued listing t evs ?r)"
      using Cons [of ?r "ds @ ?new"] by (simp add: replication_iteration_frame)
    show ?thesis
      using ih step Replicate
      by (simp add: executions_append distrib_left)
  qed
qed

text \<open>
  C7, amended. One iteration of the replication loop does nothing on an empty queue;
  else it takes the order at the head of the queue out of it, whatever the targets
  answer, and nothing puts it back. When
  replication is enabled, the order passes the filters and its type is supported, every
  entry of the target list whose backend is connected gets exactly one call of
  \<^verbatim>\<open>execute_order\<close>, whose answer is only logged; otherwise there is no call. So
  in every run of the two loops the calls for a ticket at a target are at most as many as
  the copies of the ticket that entered the queue, times the entries of the target in the
  list: there is no retry and no requeue.
\<close>

theorem replication_iteration_single_attempt:
  "(r_queue r = [] \<longrightarrow> replication_iteration gw r = (r, []))
   \<and> (r_queue r = ord # rest \<longrightarrow>
      fst (replication_iteration gw r) = r\<lparr> r_queue := rest \<rparr>
      \<and> snd (replication_iteration gw r) =
          (if cfg_enabled (r_config r) \<and> should_replicate_order ord (r_config r)
           then map (dispatch_one gw ord (r_config r)) (r_targets r) else []))
   \<and> (r_queue r = ord # rest \<and> o_ticket ord = Some t \<longrightarrow>
      executions t b (snd (replication_iteration gw r)) =
          (if cfg_enabled (r_config r) \<and> should_replicate_order ord (r_config r)
              \<and> gw_connected gw b \<and> replicate_request ord (r_config r) \<noteq> None
           then count_list (r_targets r) b else 0))
   \<and> executions t b (snd (run listing evs (r, [])))
       \<le> count_list (r_targets r) b * (pending t (r_queue r) + enqueued listing t evs r)"
proof (intro conjI impI)
  assume "r_queue r = []"
  then show "replication_iteration gw r = (r, [])"
    by (simp add: replication_iteration_def)
next
  assume a: "r_queue r = ord # rest"
  show "fst (replication_iteration gw r) = r\<lparr> r_queue := rest \<rparr>"
    using a by (simp add: replication_iteration_def)
  show "snd (replication_iteration gw r) =
          (if cfg_enabled (r_config r) \<and> should_replicate_order ord (r_config r)
           then map (dispatch_one gw ord (r_config r)) (r_targets r) else [])"
    using a by (simp add: replication_iteration_def)
next
  assume a: "r_queue r = ord # rest \<and> o_ticket ord = Some t"
  show "executions t b (snd (replication_iteration gw r)) =
          (if cfg_enabled (r_config r) \<and> should_replicate_order ord (r_config r)
              \<and> gw_connected gw b \<and> replicate_request ord (r_config r) \<noteq> None
           then count_list (r_targets r) b else 0)"
    using a executions_iteration [of r ord rest t b gw] by simp
next
  show "executions t b (snd (run listing evs (r, [])))
       \<le> count_list (r_targets r) b * (pending t (r_queue r) + enqueued listing t evs r)"
    using run_executions_bound [of t b listing evs r "[]"] by (simp add: executions_Nil)
qed

theorem replication_iteration_single_attempt_witness:
  "r_queue example_seen = [example_order] \<and> o_ticket example_order = Some 100
   \<and> fst (replication_iteration rejecting_gateway example_seen)
       = example_seen\<lparr> r_queue := [] \<rparr>
   \<and> executions 100 1 (snd (replication_iteration rejecting_gateway example_seen)) = 1
   \<and> executions 100 2 (snd (replication_iteration rejecting_gateway example_seen)) = 1
   \<and> executions 100 1 (snd (run sorted_list_of_set failing_run (example_replicator, []))) \<le> 1"
proof -
  have h: "r_queue example_seen = [example_order] \<and> o_ticket example_order = Some 100"
    by (simp add: pipeline_example_defs)
  have g: "cfg_enabled (r_config example_seen)
           \<and> should_replicate_order example_order (r_config example_seen)
           \<and> gw_connected rejecting_gateway 1 \<and> gw_connected rejecting_gateway 2
           \<and> replicate_request example_order (r_config example_seen) \<noteq> None
           \<and> count_list (r_targets example_seen) 1 = 1
           \<and> count_list (r_targets example_seen) 2 = 1"
    by (simp add: pipeline_example_defs)
  have b: "count_list (r_targets example_replicator) 1
             * (pending 100 (r_queue example_replicator)
                + enqueued sorted_list_of_set 100 failing_run example_replicator) = 1"
    by (simp add: failing_run_def pipeline_example_defs)
  note one = replication_iteration_single_attempt
    [where r = example_seen and ord = example_order and rest = "[]" and t = 100
       and gw = rejecting_gateway and listing = sorted_list_of_set and evs = "[]"]
  have c1: "fst (replication_iteration rejecting_gateway example_seen)
              = example_seen\<lparr> r_queue := [] \<rparr>"
    using one [where b = 1] h by blast
  have "executions 100 b (snd (replication_iteration rejecting_gateway example_seen)) =
          (if cfg_enabled (r_config example_seen)
              \<and> should_replicate_order example_order (r_config example_seen)
              \<and> gw_connected rejecting_gateway b
              \<and> replicate_request example_order (r_config example_seen) \<noteq> None
           then count_list (r_targets example_seen) b else 0)" for b
    using one [where b = b] h by blast
  then have c2: "executions 100 1 (snd (replication_iteration rejecting_gateway example_seen)) = 1"
    and c3: "executions 100 2 (snd (replication_iteration rejecting_gateway example_seen)) = 1"
    using g by simp_all
  have c4: "executions 100 1 (snd (run sorted_list_of_set failing_run (example_replicator, [])))
            \<le> 1"
    using replication_iteration_single_attempt
      [where r = example_replicator and ord = example_order and rest = "[]" and t = 100
         and gw = rejecting_gateway and b = 1 and listing = sorted_list_of_set
         and evs = failing_run] b
    by simp
  show ?thesis using h c1 c2 c3 c4 by blast
qed

text \<open>In that run the refused order has reached target 1 once and is not tried again.\<close>

lemma failing_run_executes_once:
  "executions 100 1 (snd (run sorted_list_of_set failing_run (example_replicator, []))) = 1
   \<and> r_queue (fst (run sorted_list_of_set failing_run (example_replicator, []))) = []"
  by (simp add: failing_run_def pipeline_example_defs)

section \<open>Properties of the registry\<close>

lemmas registry_defs =
  example_accounts_def example_registry_def started_registry_def stopped_registry_def
  add_account_def empty_registry_def create_replication_group_def backends_of_def
  new_replicator_def add_target_backend_def start_replication_def start_replicator_def
  stop_replication_def stop_replicator_def is_source_active_def get_group_config_def
  group_replicator_def get_replication_config_def set_replication_config_def
  set_group_config_def accepting_gateway_def List.map_filter_def Let_def

lemma map_of_update_same: "map_of (AList.update k v al) k = Some v"
  by (simp add: update_conv')

lemma map_of_update_other: "k' \<noteq> k \<Longrightarrow> map_of (AList.update k v al) k' = map_of al k'"
  by (simp add: update_conv')

text \<open>A group that was created has a replicator, the one of its source.\<close>

lemma create_group_has_replicator:
  "snd (create_replication_group g src tgts m)
   \<Longrightarrow> group_replicator (fst (create_replication_group g src tgts m)) g \<noteq> None"
  by (auto simp: create_replication_group_def group_replicator_def map_of_update_same Let_def
      split: option.splits if_splits)

subsection \<open>A target that is listed twice\<close>

lemma duplicate_replicator_eq:
  "duplicate_replicator =
     \<lparr> r_source = Some 0, r_targets = [1, 1], r_running = True, r_queue = [],
       r_processed = {}, r_config = default_replication_config\<lparr> cfg_enabled := True \<rparr> \<rparr>"
  by (simp add: duplicate_replicator_def duplicate_registry_def registry_defs
      start_replicator_def new_replicator_def accepting_gateway_def)

text \<open>
  C6 at a concrete input: group G1 is created for source A with the targets B and B.
  \<^verbatim>\<open>create_replication_group\<close> hands both entries to the new replicator, whose
  target list then holds the backend of B twice. The source reports order 100 once; the
  ticket is in the processed set and is never evicted, and the replication loop calls
  \<^verbatim>\<open>execute_order\<close> for it twice at B. When the replicator exists already (a
  second group of the same source), \<^verbatim>\<open>add_target_backend\<close> skips a backend that is
  in the list.
\<close>

theorem duplicate_target_dispatched_twice:
  "map_option g_targets (map_of (m_groups duplicate_registry) ''G1'') = Some [''B'', ''B'']
   \<and> r_targets duplicate_replicator = [1, 1]
   \<and> r_running duplicate_replicator
   \<and> 100 \<in> r_processed (fst (run listing duplicate_run (duplicate_replicator, [])))
   \<and> never_evicted listing 100 duplicate_run duplicate_replicator
   \<and> snd (run listing duplicate_run (duplicate_replicator, [])) =
       [\<lparr> d_ticket = Some 100, d_target = 1,
          d_outcome = Executed \<lparr> rq_action = ''BUY'', rq_symbol = ''EURUSD'', rq_volume = 1,
                                 rq_sl = 1095 / 1000, rq_tp = 111 / 100,
                                 rq_comment = ''REP:100:'' \<rparr> True \<rparr>,
        \<lparr> d_ticket = Some 100, d_target = 1,
          d_outcome = Executed \<lparr> rq_action = ''BUY'', rq_symbol = ''EURUSD'', rq_volume = 1,
                                 rq_sl = 1095 / 1000, rq_tp = 111 / 100,
                                 rq_comment = ''REP:100:'' \<rparr> True \<rparr>]
   \<and> executions 100 1 (snd (run listing duplicate_run (duplicate_replicator, []))) = 2
   \<and> map_option r_targets
        (group_replicator
           (fst (create_replication_group ''G2'' ''A'' [''B'']
              (fst (create_replication_group ''G1'' ''A'' [''B''] example_accounts)))) ''G1'')
       = Some [1]"
  by (simp add: duplicate_replicator_eq duplicate_run_def duplicate_registry_def registry_defs
      pipeline_example_defs str_nat.simps)

text \<open>
  C9 at a concrete input: groups G1 and G2 share the source A, replication was started
  (so the shared configuration is enabled). After \<^verbatim>\<open>stop_replication("G1")\<close> the
  pipeline is still running, but the configuration that G2 reads is disabled too, and the
  replication loop drops an order without dispatching it to any target; before the stop
  the same order went to both targets.
\<close>

theorem stop_group_disables_siblings:
  "map_option cfg_enabled (get_group_config started_registry ''G2'') = Some True
   \<and> map_option cfg_enabled (get_group_config stopped_registry ''G2'') = Some False
   \<and> map_option r_running (group_replicator stopped_registry ''G2'') = Some True
   \<and> map_option (\<lambda>r. snd (replication_iteration accepting_gateway
                             (r\<lparr> r_queue := [example_order] \<rparr>)))
        (group_replicator stopped_registry ''G2'') = Some []
   \<and> map_option (\<lambda>r. map d_target (snd (replication_iteration accepting_gateway
                                          (r\<lparr> r_queue := [example_order] \<rparr>))))
        (group_replicator started_registry ''G2'') = Some [1, 2]"
  by (simp add: registry_defs replication_iteration_def dict_update_def as_patch_def
      dict_get_def default_replication_config_def should_replicate_order_def
      example_order_def dispatch_one_def)

text \<open>
  C10. Two groups with the same source read and write one configuration: after
  \<^verbatim>\<open>set_group_config\<close> for the first, \<^verbatim>\<open>get_group_config\<close> for the second returns
  the old configuration updated with the new entries; the configuration of a group with
  another source is unchanged.
\<close>

theorem shared_group_config:
  assumes g1: "map_of (m_groups m) g1 = Some grp1"
    and g2: "map_of (m_groups m) g2 = Some grp2"
    and same: "g_source grp1 = g_source grp2"
    and rep: "map_of (m_replicators m) (g_source grp1) = Some r"
  shows "snd (set_group_config g1 p m)
         \<and> get_group_config (fst (set_group_config g1 p m)) g2
             = Some (dict_update (get_replication_config r) p)
         \<and> (\<forall>g3 grp3. map_of (m_groups m) g3 = Some grp3 \<and> g_source grp3 \<noteq> g_source grp1
              \<longrightarrow> get_group_config (fst (set_group_config g1 p m)) g3 = get_group_config m g3)"
  using assms
  by (simp add: set_group_config_def get_group_config_def group_replicator_def
      map_of_update_same map_of_update_other set_replication_config_def
      get_replication_config_def)

theorem shared_group_config_witness:
  "map_of (m_groups example_registry) ''G1'' = Some \<lparr> g_source = ''A'', g_targets = [''B''] \<rparr>
   \<and> map_of (m_groups example_registry) ''G2'' = Some \<lparr> g_source = ''A'', g_targets = [''C''] \<rparr>
   \<and> map_of (m_groups example_registry) ''G3'' = Some \<lparr> g_source = ''D'', g_targets = [''B''] \<rparr>
   \<and> map_of (m_replicators example_registry) ''A'' = Some (new_replicator (Some 0) [1, 2])
   \<and> snd (set_group_config ''G1'' half_volume example_registry)
   \<and> get_group_config (fst (set_group_config ''G1'' half_volume example_registry)) ''G2''
       = Some (default_replication_config\<lparr> cfg_volume_multiplier := 1 / 2 \<rparr>)
   \<and> get_group_config (fst (set_group_config ''G1'' half_volume example_registry)) ''G3''
       = get_group_config example_registry ''G3''"
proof -
  have h: "map_of (m_groups example_registry) ''G1'' = Some \<lparr> g_source = ''A'', g_targets = [''B''] \<rparr>
     \<and> map_of (m_groups example_registry) ''G2'' = Some \<lparr> g_source = ''A'', g_targets = [''C''] \<rparr>
     \<and> map_of (m_groups example_registry) ''G3'' = Some \<lparr> g_source = ''D'', g_targets = [''B''] \<rparr>
     \<and> map_of (m_replicators example_registry) ''A'' = Some (new_replicator (Some 0) [1, 2])"
    by (simp add: registry_defs)
  have upd: "dict_update (get_replication_config (new_replicator (Some 0) [1, 2])) half_volume
             = default_replication_config\<lparr> cfg_volume_multiplier := 1 / 2 \<rparr>"
    by (simp add: dict_update_def get_replication_config_def new_replicator_def half_volume_def
        empty_patch_def dict_get_def default_replication_config_def)
  have c: "snd (set_group_config ''G1'' half_volume example_registry)
     \<and> get_group_config (fst (set_group_config ''G1'' half_volume example_registry)) ''G2''
         = Some (dict_update (get_replication_config (new_replicator (Some 0) [1, 2])) half_volume)
     \<and> (\<forall>g3 grp3. map_of (m_groups example_registry) g3 = Some grp3
                    \<and> g_source grp3 \<noteq> g_source \<lparr> g_source = ''A'', g_targets = [''B''] \<rparr>
          \<longrightarrow> get_group_config (fst (set_group_config ''G1'' half_volume example_registry)) g3
              = get_group_config example_registry g3)"
    using h by (intro shared_group_config [of example_registry "''G1''" _ "''G2''"
                  "\<lparr> g_source = ''A'', g_targets = [''C''] \<rparr>"]) simp_all
  then have "get_group_config (fst (set_group_config ''G1'' half_volume example_registry)) ''G3''
             = get_group_config example_registry ''G3''"
    using h by simp
  then show ?thesis using h c upd by simp
qed

section \<open>Properties of the integration queue\<close>

text \<open>
  An item is attempted at most \<open>retry_attempts\<close> times, with a pause between two
  attempts; when every attempt fails, it is attempted exactly that often.
\<close>

lemma retry_loop_bound:
  "attempts_of (snd (snd (retry_loop attempt retry_attempts retry_delay item attempts w)))
   \<le> nat (retry_attempts - attempts)"
proof (induction attempt retry_attempts retry_delay item attempts w rule: retry_loop.induct)
  case (1 attempt retry_attempts retry_delay item attempts w)
  show ?case
  proof (cases "attempts < retry_attempts")
    case False
    then show ?thesis by (subst retry_loop.simps) (simp add: attempts_of_def)
  next
    case True
    show ?thesis
    proof (cases "fst (attempt w item)")
      case ok: True
      then show ?thesis using True by (subst retry_loop.simps) (simp add: attempts_of_def)
    next
      case ko: False
      have "attempts_of (snd (snd (retry_loop attempt retry_attempts retry_delay item
                                     (attempts + 1) (snd (attempt w item)))))
            \<le> nat (retry_attempts - (attempts + 1))"
        using 1 True ko by simp
      then show ?thesis using True ko
        by (subst retry_loop.simps) (simp add: attempts_of_def Let_def)
    qed
  qed
qed

lemma retry_loop_all_fail:
  assumes "\<forall>w. \<not> fst (attempt w item)"
  shows "\<not> fst (retry_loop attempt retry_attempts retry_delay item attempts w)
         \<and> attempts_of (snd (snd (retry_loop attempt retry_attempts retry_delay item attempts w)))
             = nat (retry_attempts - attempts)
         \<and> sleeps_of (snd (snd (retry_loop attempt retry_attempts retry_delay item attempts w)))
             = nat (retry_attempts - attempts) - 1"
  using assms
proof (induction attempt retry_attempts retry_delay item attempts w rule: retry_loop.induct)
  case (1 attempt retry_attempts retry_delay item attempts w)
  show ?case
  proof (cases "attempts < retry_attempts")
    case False
    then show ?thesis by (subst (1 2 3) retry_loop.simps) (simp add: attempts_of_def sleeps_of_def)
  next
    case True
    have ko: "\<not> fst (attempt w item)" using "1.prems" by simp
    have ih: "\<not> fst (retry_loop attempt retry_attempts retry_delay item (attempts + 1)
                        (snd (attempt w item)))
         \<and> attempts_of (snd (snd (retry_loop attempt retry_attempts retry_delay item
                                     (attempts + 1) (snd (attempt w item)))))
             = nat (retry_attempts - (attempts + 1))
         \<and> sleeps_of (snd (snd (retry_loop attempt retry_attempts retry_delay item
                                   (attempts + 1) (snd (attempt w item)))))
             = nat (retry_attempts - (attempts + 1)) - 1"
      using "1.IH" [OF True ko refl "1.prems"] .
    show ?thesis
      using True ko ih
      by (subst (1 2 3) retry_loop.simps)
         (auto simp: attempts_of_def sleeps_of_def Let_def nat_diff_distrib)
  qed
qed

text \<open>
  After a pass the queue holds the items whose attempts failed, each at most as often as
  before; when every attempt fails it holds all of them again, so a failing item is
  attempted anew in every pass.
\<close>

lemma process_items_requeued:
  "count_list (fst (process_items attempt retry_attempts retry_delay items w)) x
   \<le> count_list items x"
proof (induction items arbitrary: w)
  case Nil
  show ?case by simp
next
  case (Cons item items)
  show ?case
    using Cons [of "fst (snd (retry_loop attempt retry_attempts retry_delay item 0 w))"]
    by (auto simp: Let_def)
qed

lemma process_items_all_fail:
  assumes "\<forall>w item. \<not> fst (attempt w item)"
  shows "fst (process_items attempt retry_attempts retry_delay items w) = items"
proof (induction items arbitrary: w)
  case Nil
  show ?case by simp
next
  case (Cons item items)
  have "\<not> fst (retry_loop attempt retry_attempts retry_delay item 0 w)"
    using retry_loop_all_fail [of attempt item retry_attempts retry_delay 0 w] assms by simp
  then show ?case
    using Cons [of "fst (snd (retry_loop attempt retry_attempts retry_delay item 0 w))"]
    by (simp add: Let_def)
qed

text \<open>
  With the default \<^verbatim>\<open>retry_attempts\<close> of 3 and \<^verbatim>\<open>retry_delay_seconds\<close> of 1, an
  item that cannot be replicated is attempted three times with two pauses, then appended
  back with a warning.
\<close>

lemma process_order_queue_example:
  "process_order_queue (\<lambda>w item. (False, w)) 3 1 [item] ()
     = ([item], (), [Attempt item, Sleep 1, Attempt item, Sleep 1, Attempt item, Warning item])"
  by (simp add: process_order_queue_def retry_loop.simps Let_def)

section \<open>Properties of the risk manager\<close>

subsection \<open>Drawdown of an account snapshot\<close>

text \<open>
  C1, as stated, fails: with a balance of 100 and an equity of 110 the snapshot holds a
  drawdown of -10 percent, while max(0, 1 - equity/balance) * 100 is 0.
\<close>

theorem drawdown_negative_above_balance:
  "map_option ai_drawdown_percent
     (rm_account_info (fst (update_account_info
        (idle_terminal\<lparr> mt5_account_info := Some (example_account 100 110) \<rparr>)
        (new_risk_manager default_config)))) = Some (- 10)
   \<and> max 0 (1 - 110 / 100) * 100 = (0 :: real)"
  by (simp add: update_account_info_def idle_terminal_def example_account_def
      new_risk_manager_def)

text \<open>
  C1, amended. For a snapshot with balance > 0 the drawdown is (1 - equity/balance) * 100,
  without a lower bound: it is negative exactly when the equity exceeds the balance, and it
  equals max(0, 1 - equity/balance) * 100 whenever the equity does not exceed the balance.
\<close>

theorem drawdown_percent_unclamped:
  assumes "mt5_account_info w = Some a" and "acc_balance a > 0"
  shows "map_option ai_drawdown_percent (rm_account_info (fst (update_account_info w st)))
           = Some ((1 - acc_equity a / acc_balance a) * 100)
         \<and> ((1 - acc_equity a / acc_balance a) * 100 < 0 \<longleftrightarrow> acc_equity a > acc_balance a)
         \<and> (acc_equity a \<le> acc_balance a \<longrightarrow>
              (1 - acc_equity a / acc_balance a) * 100
                = max 0 (1 - acc_equity a / acc_balance a) * 100)"
  using assms by (simp add: update_account_info_def max_def field_simps)

theorem drawdown_percent_unclamped_witness:
  "mt5_account_info (idle_terminal\<lparr> mt5_account_info := Some (example_account 100 90) \<rparr>)
     = Some (example_account 100 90)
   \<and> acc_balance (example_account 100 90) > 0
   \<and> acc_equity (example_account 100 90) \<le> acc_balance (example_account 100 90)
   \<and> map_option ai_drawdown_percent
        (rm_account_info (fst (update_account_info
           (idle_terminal\<lparr> mt5_account_info := Some (example_account 100 90) \<rparr>)
           (new_risk_manager default_config))))
       = Some (max 0 (1 - acc_equity (example_account 100 90)
                          / acc_balance (example_account 100 90)) * 100)"
proof -
  have h: "mt5_account_info (idle_terminal\<lparr> mt5_account_info := Some (example_account 100 90) \<rparr>)
             = Some (example_account 100 90)
           \<and> acc_balance (example_account 100 90) > 0
           \<and> acc_equity (example_account 100 90) \<le> acc_balance (example_account 100 90)"
    by (simp add: idle_terminal_def example_account_def)
  show ?thesis
    using h drawdown_percent_unclamped
      [of "idle_terminal\<lparr> mt5_account_info := Some (example_account 100 90) \<rparr>"
          "example_account 100 90" "new_risk_manager default_config"]
    by simp
qed

subsection \<open>The checks of the risk limits\<close>

lemmas risk_example_defs =
  check_risk_limits_def update_account_info_def update_positions_def losing_day_def
  two_positions_terminal_def idle_terminal_def example_account_def example_position_def
  new_risk_manager_def default_config_def pos_dict_def breach_def symbol_breach_def
  loss_reached_def drawdown_reached_def positions_reached_def symbol_counts_def
  reset_risk_limits_def check_correlation_risk_def dict_get_def Let_def

lemma fold_symbol_breach:
  "fold (symbol_breach config) counts s =
     ((fst s)\<lparr> max_risk_per_symbol_reached :=
                 fold (\<lambda>sc flags. if snd sc \<ge> max_positions_per_symbol (c_risk_limits config)
                                   then AList.update (fst sc) True flags else flags)
                   counts (max_risk_per_symbol_reached (fst s)) \<rparr>,
      snd s \<and> \<not> list_ex (\<lambda>sc. snd sc \<ge> max_positions_per_symbol (c_risk_limits config)) counts)"
proof (induction counts arbitrary: s)
  case Nil
  show ?case by simp
next
  case (Cons sc counts)
  have step: "symbol_breach config sc s =
      (if snd sc \<ge> max_positions_per_symbol (c_risk_limits config)
       then ((fst s)\<lparr> max_risk_per_symbol_reached :=
                         AList.update (fst sc) True (max_risk_per_symbol_reached (fst s)) \<rparr>,
             False)
       else s)"
    by (simp add: symbol_breach_def breach_def)
  have "fold (symbol_breach config) (sc # counts) s
        = fold (symbol_breach config) counts (symbol_breach config sc s)"
    by simp
  also have "\<dots> = ((fst (symbol_breach config sc s))\<lparr> max_risk_per_symbol_reached :=
                 fold (\<lambda>sc flags. if snd sc \<ge> max_positions_per_symbol (c_risk_limits config)
                                   then AList.update (fst sc) True flags else flags)
                   counts (max_risk_per_symbol_reached (fst (symbol_breach config sc s))) \<rparr>,
      snd (symbol_breach config sc s)
      \<and> \<not> list_ex (\<lambda>sc. snd sc \<ge> max_positions_per_symbol (c_risk_limits config)) counts)"
    by (rule Cons.IH)
  finally show ?case
    by (cases "snd sc \<ge> max_positions_per_symbol (c_risk_limits config)") (simp_all add: step)
qed

text \<open>
  When no loss check raises, every check is evaluated and sets its own flag, whatever the
  other checks found, and the result is the conjunction of all checks.
\<close>

lemma check_risk_limits_all_checks:
  fixes w st0
  defines "st \<equiv> fst (update_positions w (fst (update_account_info w st0)))"
  defines "lims \<equiv> c_risk_limits (rm_config st)"
  assumes d: "loss_reached (rm_account_info st) (map_of (rm_daily_stats st) (now_date w))
                (max_daily_loss_percent lims) = Inr daily"
    and wk: "loss_reached (rm_account_info st) (map_of (rm_weekly_stats st) (now_week w))
                (max_weekly_loss_percent lims) = Inr weekly"
    and mo: "loss_reached (rm_account_info st) (map_of (rm_monthly_stats st) (now_month w))
                (max_monthly_loss_percent lims) = Inr monthly"
  shows "check_risk_limits w st0 =
           (st\<lparr> rm_risk_limits :=
                 \<lparr> daily_loss_reached = daily, weekly_loss_reached = weekly,
                   monthly_loss_reached = monthly,
                   max_positions_reached = positions_reached (rm_config st) (rm_positions st),
                   max_drawdown_reached = drawdown_reached (rm_config st) (rm_account_info st),
                   max_risk_per_trade_reached = False,
                   max_risk_per_symbol_reached =
                     flagged_symbols (rm_config st) (symbol_counts (rm_positions st)),
                   correlation_risk_high =
                     (cr_enabled (c_correlation_risk (rm_config st))
                      \<and> check_correlation_risk w st) \<rparr> \<rparr>,
            \<not> drawdown_reached (rm_config st) (rm_account_info st)
            \<and> \<not> positions_reached (rm_config st) (rm_positions st)
            \<and> \<not> daily \<and> \<not> weekly \<and> \<not> monthly
            \<and> \<not> list_ex (\<lambda>sc. snd sc \<ge> max_positions_per_symbol lims)
                    (symbol_counts (rm_positions st))
            \<and> \<not> (cr_enabled (c_correlation_risk (rm_config st))
                  \<and> check_correlation_risk w st))"
  using d wk mo unfolding check_risk_limits_def st_def [symmetric] Let_def lims_def
  by (simp add: fold_symbol_breach breach_def reset_risk_limits_def flagged_symbols_def)

text \<open>
  C3 at a concrete input: today's statistics hold a loss of 5 and two EURUSD positions are
  open (the limit per symbol is 2). With a balance of 100 the daily flag and the flag of
  EURUSD are both set. With a balance of 0 the division in the daily check raises; the
  method returns False with no flag set: the per-symbol check is never reached.
\<close>

theorem zero_balance_skips_later_checks:
  "snd (check_risk_limits (two_positions_terminal 0) losing_day) = False
   \<and> rm_risk_limits (fst (check_risk_limits (two_positions_terminal 0) losing_day))
       = reset_risk_limits
   \<and> snd (check_risk_limits (two_positions_terminal 100) losing_day) = False
   \<and> rm_risk_limits (fst (check_risk_limits (two_positions_terminal 100) losing_day))
       = reset_risk_limits\<lparr> daily_loss_reached := True,
                             max_risk_per_symbol_reached := [(''EURUSD'', True)] \<rparr>"
  by (simp add: risk_example_defs)

subsection \<open>Position sizing\<close>

lemma check_risk_limits_config:
  "rm_config (fst (check_risk_limits w st)) = rm_config st"
  by (simp add: check_risk_limits_def update_positions_def update_account_info_def Let_def
      split: sum.splits option.splits)

lemma check_trading_allowed_config:
  "rm_config (fst (check_trading_allowed w symbol st)) = rm_config st"
  by (simp add: check_trading_allowed_def Let_def check_risk_limits_config)

text \<open>
  Every sizing method yields a number, the volatility method when the volatility factor
  is not 0.
\<close>

lemma volume_for_risk_number:
  assumes "risk_amount = Py r \<or> risk_amount = Np (Fin r)"
    and "volume_for_risk st risk_amount pips si = Inr v"
  shows "\<exists>x. v = Py x \<or> v = Np (Fin x)"
proof (cases "num_gt pips 0 \<and> pip_value_of si > 0")
  case False
  then show ?thesis using assms(2) by (auto simp: volume_for_risk_def)
next
  case True
  then have pv: "pip_value_of si > 0" and gt: "num_gt pips 0" by auto
  have q: "num_div risk_amount (num_times pips (pip_value_of si)) = Inr v"
    using assms(2) True by (simp add: volume_for_risk_def)
  show ?thesis
  proof (cases pips)
    case (Py a)
    then have "a * pip_value_of si \<noteq> 0" using gt pv by simp
    then show ?thesis using q Py assms(1)
      by (auto simp: np_divide_def np_div_def split: if_splits)
  next
    case (Np u)
    show ?thesis
    proof (cases u)
      case (Fin a)
      then have "a * pip_value_of si \<noteq> 0" using gt pv Np by simp
      then show ?thesis using q Np Fin assms(1)
        by (auto simp: np_divide_def np_div_def split: if_splits)
    next
      case PInf
      then show ?thesis using q Np pv assms(1)
        by (auto simp: np_divide_def)
    next
      case NInf
      then show ?thesis using gt Np by simp
    next
      case NaN
      then show ?thesis using gt Np by simp
    qed
  qed
qed

lemma risk_size_number:
  "\<exists>x. risk_based_position_size w st symbol pips = Py x
       \<or> risk_based_position_size w st symbol pips = Np (Fin x)"
proof -
  have "\<exists>x. v = Py x \<or> v = Np (Fin x)"
    if "volume_for_risk st (Py r) pips si = Inr v" for r si v
    using volume_for_risk_number [OF _ that] by blast
  then show ?thesis
    by (auto simp: risk_based_position_size_def split: option.splits sum.splits)
qed

lemma kelly_number: "\<exists>r. kelly_of st = Py r \<or> kelly_of st = Np (Fin r)"
  by (simp add: kelly_of_def Let_def)

lemma kelly_size_number:
  "\<exists>x. kelly_criterion_position_size w st symbol pips = Py x
       \<or> kelly_criterion_position_size w st symbol pips = Np (Fin x)"
proof -
  have amount: "\<exists>r. num_times (kelly_of st) b = Py r \<or> num_times (kelly_of st) b = Np (Fin r)"
    for b
    using kelly_number [of st] by auto
  have "\<exists>x. v = Py x \<or> v = Np (Fin x)"
    if "volume_for_risk st (num_times (kelly_of st) b) pips si = Inr v" for b si v
    using amount [of b] volume_for_risk_number [OF _ that] by blast
  then show ?thesis
    using risk_size_number [of w st symbol pips]
    by (auto simp: kelly_criterion_position_size_def split: option.splits sum.splits)
qed

lemma volatility_size_number:
  assumes "volatility_factor (c_position_sizing (rm_config st)) \<noteq> 0"
  shows "\<exists>x. volatility_based_position_size w st symbol pips = Py x
            \<or> volatility_based_position_size w st symbol pips = Np (Fin x)"
proof -
  have key: "\<exists>v. np_divide (Fin x) (np_times (np_times a f) p) = Fin v"
    if "np_gt a 0" "p > 0" "f \<noteq> 0" for x a f p
    using that by (cases a) (auto simp: np_divide_def np_div_def)
  show ?thesis
    using assms key risk_size_number [of w st symbol pips]
    by (auto simp: volatility_based_position_size_def Let_def split: option.splits)
qed

lemma raw_position_size_number:
  assumes "ps_method (c_position_sizing (rm_config st)) = ''volatility''
           \<longrightarrow> volatility_factor (c_position_sizing (rm_config st)) \<noteq> 0"
  shows "\<exists>x. raw_position_size w st symbol action pips = Py x
            \<or> raw_position_size w st symbol action pips = Np (Fin x)"
  using assms volatility_size_number [of st w symbol pips]
    risk_size_number [of w st symbol pips] kelly_size_number [of w st symbol pips]
  by (simp add: raw_position_size_def Let_def)

text \<open>The clamped volume is a number between the limits.\<close>

lemma clamp_number:
  assumes "raw = Py x \<or> raw = Np (Fin x)" and "lo \<le> hi"
  shows "\<exists>c. (py_min (py_max (num_times raw rr) lo) hi = Py c
              \<or> py_min (py_max (num_times raw rr) lo) hi = Np (Fin c))
             \<and> lo \<le> c \<and> c \<le> hi"
  using assms by (auto simp: py_min_def py_max_def)

lemma np_round_bounds: "\<lfloor>x\<rfloor> \<le> np_round x \<and> np_round x \<le> \<lceil>x\<rceil>"
proof -
  have "x - of_int \<lfloor>x\<rfloor> > 0 \<Longrightarrow> \<lfloor>x\<rfloor> + 1 \<le> \<lceil>x\<rceil>"
    by linarith
  then show ?thesis by (auto simp: np_round_def)
qed

text \<open>
  Rounding a volume between the limits: an integer number of steps between \<open>k\<close> and
  \<open>m\<close>, and a volume between the limits.
\<close>

lemma round_to_step_within:
  assumes mono: "monotone_for fp (si_volume_step si)"
    and al: "aligned fp si k m"
    and lo: "si_volume_min si \<le> c" and hi: "c \<le> si_volume_max si"
  shows "\<exists>n. round_to_step fp rounding c (si_volume_step si)
               = fl_mul fp (of_int n) (si_volume_step si)
             \<and> k \<le> n \<and> n \<le> m
             \<and> si_volume_min si \<le> fl_mul fp (of_int n) (si_volume_step si)
             \<and> fl_mul fp (of_int n) (si_volume_step si) \<le> si_volume_max si"
proof -
  define q where "q = fl_div fp c (si_volume_step si)"
  have q1: "of_int k \<le> q"
  proof -
    have "fl_div fp (si_volume_min si) (si_volume_step si) \<le> q"
      unfolding q_def using mono lo by (simp add: monotone_for_def)
    then show ?thesis using al by (simp add: aligned_def)
  qed
  have q2: "q \<le> of_int m"
  proof -
    have "q \<le> fl_div fp (si_volume_max si) (si_volume_step si)"
      unfolding q_def using mono hi by (simp add: monotone_for_def)
    then show ?thesis using al by (simp add: aligned_def)
  qed
  have f: "k \<le> \<lfloor>q\<rfloor>" using q1 by (simp add: le_floor_iff)
  have g: "\<lceil>q\<rceil> \<le> m" using q2 by (simp add: ceiling_le_iff)
  have fg: "\<lfloor>q\<rfloor> \<le> \<lceil>q\<rceil>" by (rule floor_le_ceiling)
  have r: "\<lfloor>q\<rfloor> \<le> np_round q \<and> np_round q \<le> \<lceil>q\<rceil>" by (rule np_round_bounds)
  have within: "si_volume_min si \<le> fl_mul fp (of_int n) (si_volume_step si)
                \<and> fl_mul fp (of_int n) (si_volume_step si) \<le> si_volume_max si"
    if "k \<le> n" "n \<le> m" for n
  proof -
    have "fl_mul fp (of_int k) (si_volume_step si) \<le> fl_mul fp (of_int n) (si_volume_step si)"
      using mono that(1) by (simp add: monotone_for_def)
    moreover have "fl_mul fp (of_int n) (si_volume_step si)
                   \<le> fl_mul fp (of_int m) (si_volume_step si)"
      using mono that(2) by (simp add: monotone_for_def)
    ultimately show ?thesis using al by (simp add: aligned_def)
  qed
  have kc: "k \<le> \<lceil>q\<rceil>" and fm: "\<lfloor>q\<rfloor> \<le> m"
    and kr: "k \<le> np_round q" and rm: "np_round q \<le> m"
    using f g fg r by linarith+
  have "\<exists>n. round_to_step fp rounding c (si_volume_step si)
               = fl_mul fp (of_int n) (si_volume_step si) \<and> k \<le> n \<and> n \<le> m"
  proof (cases "rounding = ''up''")
    case True
    then have "round_to_step fp rounding c (si_volume_step si)
               = fl_mul fp (of_int \<lceil>q\<rceil>) (si_volume_step si)"
      by (simp add: round_to_step_def q_def)
    then show ?thesis using kc g by blast
  next
    case False
    show ?thesis
    proof (cases "rounding = ''down''")
      case True
      then have "round_to_step fp rounding c (si_volume_step si)
                 = fl_mul fp (of_int \<lfloor>q\<rfloor>) (si_volume_step si)"
        using False by (simp add: round_to_step_def q_def)
      then show ?thesis using f fm by blast
    next
      case nd: False
      then have "round_to_step fp rounding c (si_volume_step si)
                 = fl_mul fp (of_int (np_round q)) (si_volume_step si)"
        using False by (simp add: round_to_step_def q_def)
      then show ?thesis using kr rm by blast
    qed
  qed
  then show ?thesis using within by blast
qed

subsection \<open>Rounding in binary floating point\<close>

text \<open>The rounding to 53 bits is monotone, and so are the quotient and the product.\<close>

lemma pow2_powi: "pow2 e = 2 powi e"
  by (simp add: pow2_def power_int_def field_simps)

lemma pow2_pos: "0 < pow2 e"
  by (simp add: pow2_powi)

lemma pow2_add: "pow2 (a + b) = pow2 a * pow2 b"
  by (simp add: pow2_powi power_int_add)

lemma pow2_mono: "a \<le> b \<Longrightarrow> pow2 a \<le> pow2 b"
  by (simp add: pow2_powi power_int_increasing)

lemma pow2_nat: "pow2 (int n) = 2 ^ n"
  by (simp add: pow2_def)

lemma binade_bounds:
  assumes "0 < x"
  shows "pow2 (binade x) \<le> x \<and> x < pow2 (binade x + 1)"
proof (cases "1 \<le> x")
  case True
  define n where "n = \<lfloor>x\<rfloor>"
  have n: "0 < n" using True by (simp add: n_def)
  have b: "2 ^ nat (bitlen n - 1) \<le> n \<and> n < 2 ^ nat (bitlen n)"
    using bitlen_bounds [OF n] .
  have bl: "1 \<le> bitlen n" using n bitlen_nonneg [of n] bitlen_eq_zero_iff [of n] by linarith
  have e: "binade x = bitlen n - 1" using True by (simp add: binade_def n_def)
  have lo: "(2::real) ^ nat (bitlen n - 1) \<le> of_int n"
    using b by (metis of_int_le_iff of_int_numeral of_int_power)
  have hi: "of_int n + 1 \<le> (2::real) ^ nat (bitlen n)"
  proof -
    have "n + 1 \<le> 2 ^ nat (bitlen n)" using b by simp
    then have "of_int (n + 1) \<le> (of_int (2 ^ nat (bitlen n)) :: real)"
      by (simp only: of_int_le_iff)
    then show ?thesis by simp
  qed
  have x1: "of_int n \<le> x" and x2: "x < of_int n + 1" by (simp_all add: n_def)
  have p1: "pow2 (binade x) = 2 ^ nat (bitlen n - 1)"
    using bl by (simp add: e pow2_def)
  have p2: "pow2 (binade x + 1) = 2 ^ nat (bitlen n)"
    using bl by (simp add: e pow2_def)
  show ?thesis using lo hi x1 x2 p1 p2 by linarith
next
  case False
  define y where "y = 1 / x"
  have y1: "1 < y" using False assms by (simp add: y_def)
  define n where "n = \<lfloor>y\<rfloor>"
  have n: "0 < n" using y1 by (simp add: n_def)
  define j where "j = bitlen n - 1"
  have b: "2 ^ nat (bitlen n - 1) \<le> n \<and> n < 2 ^ nat (bitlen n)"
    using bitlen_bounds [OF n] .
  have bl: "1 \<le> bitlen n" using n bitlen_nonneg [of n] bitlen_eq_zero_iff [of n] by linarith
  have j0: "0 \<le> j" using bl by (simp add: j_def)
  have lo: "(2::real) ^ nat j \<le> of_int n"
    using b unfolding j_def by (metis of_int_le_iff of_int_numeral of_int_power)
  have hi: "of_int n + 1 \<le> (2::real) ^ nat (j + 1)"
  proof -
    have "n + 1 \<le> 2 ^ nat (bitlen n)" using b by simp
    then have "of_int (n + 1) \<le> (of_int (2 ^ nat (bitlen n)) :: real)"
      by (simp only: of_int_le_iff)
    then show ?thesis by (simp add: j_def)
  qed
  have yn1: "of_int n \<le> y" and yn2: "y < of_int n + 1" by (simp_all add: n_def)
  have ylo: "2 ^ nat j \<le> y" using lo yn1 by linarith
  have yhi: "y < 2 ^ nat (j + 1)" using hi yn2 by linarith
  have xy: "x = 1 / y" using assms by (simp add: y_def)
  have xhi: "x * 2 ^ nat j \<le> 1"
    using ylo y1 by (simp add: xy field_simps)
  have xlo: "1 < x * 2 ^ nat (j + 1)"
    using yhi y1 by (simp add: xy field_simps)
  have pj: "pow2 (- j) = 1 / 2 ^ nat j"
    using j0 by (cases "j = 0") (simp_all add: pow2_def)
  have pj1: "pow2 (- j - 1) = 1 / 2 ^ nat (j + 1)"
    using j0 by (simp add: pow2_def)
  have pj2: "pow2 (- j + 1) = 2 * pow2 (- j)"
    using pow2_add [of "- j" 1] by (simp add: pow2_def)
  have pj3: "pow2 (- j - 1 + 1) = pow2 (- j)" by simp
  show ?thesis
  proof (cases "x * 2 ^ nat j = 1")
    case True
    then have e: "binade x = - j" using False by (simp add: binade_def y_def n_def j_def)
    have "x = 1 / 2 ^ nat j" using True by (simp add: field_simps)
    then have "x = pow2 (- j)" using pj by simp
    moreover have "pow2 (- j) < 2 * pow2 (- j)" using pow2_pos [of "- j"] by simp
    ultimately show ?thesis unfolding e pj2 by simp
  next
    case ne: False
    then have e: "binade x = - j - 1" using False by (simp add: binade_def y_def n_def j_def Let_def)
    have "x * 2 ^ nat j < 1" using xhi ne by simp
    then have a: "x < 1 / 2 ^ nat j" by (simp add: field_simps)
    have b: "1 / 2 ^ nat (j + 1) < x" using xlo by (simp add: field_simps)
    show ?thesis using e a b pj pj1 pj3 by simp
  qed
qed

lemma binade_mono:
  assumes "0 < x" and "x \<le> y"
  shows "binade x \<le> binade y"
proof (rule ccontr)
  assume "\<not> binade x \<le> binade y"
  then have "binade y + 1 \<le> binade x" by simp
  then have "pow2 (binade y + 1) \<le> pow2 (binade x)" by (rule pow2_mono)
  moreover have "pow2 (binade x) \<le> x" using binade_bounds [OF assms(1)] by simp
  moreover have "y < pow2 (binade y + 1)" using binade_bounds [of y] assms by simp
  ultimately show False using assms(2) by linarith
qed

lemma np_round_mono:
  assumes "x \<le> y"
  shows "np_round x \<le> np_round y"
proof (cases "\<lfloor>x\<rfloor> < \<lfloor>y\<rfloor>")
  case True
  have "np_round x \<le> \<lfloor>x\<rfloor> + 1" by (auto simp: np_round_def)
  moreover have "\<lfloor>y\<rfloor> \<le> np_round y" by (auto simp: np_round_def)
  ultimately show ?thesis using True by linarith
next
  case False
  have "\<lfloor>x\<rfloor> \<le> \<lfloor>y\<rfloor>" using assms by (rule floor_mono)
  then have eq: "\<lfloor>x\<rfloor> = \<lfloor>y\<rfloor>" using False by simp
  have "x - of_int \<lfloor>x\<rfloor> \<le> y - of_int \<lfloor>y\<rfloor>" using assms eq by simp
  then show ?thesis using eq by (auto simp: np_round_def)
qed

lemma round53_pos_bounds:
  assumes "0 < x"
  shows "pow2 (binade x) \<le> round53_pos x \<and> round53_pos x \<le> pow2 (binade x + 1)"
proof -
  define u where "u = pow2 (binade x - 52)"
  have u: "0 < u" by (simp add: u_def pow2_pos)
  have p52: "pow2 52 = 2 ^ 52" and p53: "pow2 53 = 2 ^ 53"
    using pow2_nat [of 52] pow2_nat [of 53] by simp_all
  have "pow2 (52 + (binade x - 52)) = pow2 52 * u" unfolding u_def by (rule pow2_add)
  moreover have "52 + (binade x - 52) = binade x" by simp
  ultimately have lo: "pow2 (binade x) = 2 ^ 52 * u" using p52 by simp
  have "pow2 (53 + (binade x - 52)) = pow2 53 * u" unfolding u_def by (rule pow2_add)
  moreover have "53 + (binade x - 52) = binade x + 1" by simp
  ultimately have hi: "pow2 (binade x + 1) = 2 ^ 53 * u" using p53 by simp
  have q1: "2 ^ 52 \<le> x / u" using binade_bounds [OF assms] lo u by (simp add: pos_le_divide_eq)
  have q2: "x / u \<le> 2 ^ 53" using binade_bounds [OF assms] hi u by (simp add: pos_divide_le_eq)
  have "np_round (2 ^ 52) \<le> np_round (x / u)" using q1 by (rule np_round_mono)
  moreover have "np_round (x / u) \<le> np_round (2 ^ 53)" using q2 by (rule np_round_mono)
  moreover have "np_round (2 ^ 52) = 2 ^ 52" "np_round (2 ^ 53) = 2 ^ 53"
    by (simp_all add: np_round_def)
  ultimately have "(2 ^ 52 :: int) \<le> np_round (x / u)" "np_round (x / u) \<le> (2 ^ 53 :: int)"
    by simp_all
  then have "(of_int (2 ^ 52) :: real) \<le> of_int (np_round (x / u))"
    "(of_int (np_round (x / u)) :: real) \<le> of_int (2 ^ 53)"
    by (simp_all only: of_int_le_iff)
  then have "2 ^ 52 * u \<le> of_int (np_round (x / u)) * u"
    "of_int (np_round (x / u)) * u \<le> 2 ^ 53 * u"
    using u by (simp_all add: mult_right_mono)
  then show ?thesis by (simp add: round53_pos_def u_def [symmetric] lo hi)
qed

lemma round53_pos_mono:
  assumes "0 < x" and "x \<le> y"
  shows "round53_pos x \<le> round53_pos y"
proof (cases "binade x = binade y")
  case True
  define u where "u = pow2 (binade y - 52)"
  have u: "0 < u" by (simp add: u_def pow2_pos)
  have "x / u \<le> y / u" using assms(2) u by (simp add: divide_right_mono)
  then have "np_round (x / u) \<le> np_round (y / u)" by (rule np_round_mono)
  then have "(of_int (np_round (x / u)) :: real) \<le> of_int (np_round (y / u))"
    by (simp only: of_int_le_iff)
  then have "of_int (np_round (x / u)) * u \<le> of_int (np_round (y / u)) * u"
    using u by (simp add: mult_right_mono)
  then show ?thesis by (simp add: round53_pos_def True u_def)
next
  case False
  have "binade x \<le> binade y" using assms by (rule binade_mono)
  then have "binade x + 1 \<le> binade y" using False by simp
  then have "pow2 (binade x + 1) \<le> pow2 (binade y)" by (rule pow2_mono)
  moreover have "round53_pos x \<le> pow2 (binade x + 1)"
    using round53_pos_bounds [OF assms(1)] by simp
  moreover have "pow2 (binade y) \<le> round53_pos y"
    using round53_pos_bounds [of y] assms by simp
  ultimately show ?thesis by linarith
qed

lemma round53_pos_positive: "0 < x \<Longrightarrow> 0 < round53_pos x"
  using round53_pos_bounds [of x] pow2_pos [of "binade x"] by linarith

lemma round53_mono:
  assumes "x \<le> y"
  shows "round53 x \<le> round53 y"
proof -
  consider "0 < x" | "x = 0" | "x < 0" by linarith
  then show ?thesis
  proof cases
    case 1
    then show ?thesis using assms round53_pos_mono [of x y] by (simp add: round53_def)
  next
    case 2
    then show ?thesis using assms round53_pos_positive [of y]
      by (cases "y = 0") (simp_all add: round53_def less_eq_real_def)
  next
    case 3
    consider "y < 0" | "y = 0" | "0 < y" by linarith
    then show ?thesis
    proof cases
      case 1
      then have "round53_pos (- y) \<le> round53_pos (- x)"
        using assms round53_pos_mono [of "- y" "- x"] by simp
      then show ?thesis using 1 3 by (simp add: round53_def)
    next
      case 2
      then show ?thesis using 3 round53_pos_positive [of "- x"]
        by (simp add: round53_def less_eq_real_def)
    next
      case 3
      then show ?thesis using \<open>x < 0\<close> round53_pos_positive [of "- x"] round53_pos_positive [of y]
        by (simp add: round53_def)
    qed
  qed
qed

lemma binary64_monotone: "0 < volume_step \<Longrightarrow> monotone_for binary64 volume_step"
  by (simp add: monotone_for_def binary64_def round53_mono divide_right_mono mult_right_mono)

lemmas binary64_defs =
  binary64_def round53_def round53_pos_def binade_def pow2_def np_round_def compute_bitlen
  Let_def

lemma round53_examples:
  "round53 1 = 1"
  "round53 (1 / 10) = 3602879701896397 / 2 ^ 55"
  "round53 (3 / 10) = 5404319552844595 / 2 ^ 54"
  "round53 (round53 (3 / 10) / round53 (1 / 10)) = 3 - 1 / 2 ^ 51"
  by (simp_all add: binary64_defs)

subsection \<open>The volume within the limits of the symbol\<close>

lemmas sizing_example_defs =
  calculate_position_size_def check_trading_allowed_def check_risk_limits_def
  check_trading_time_def check_volatility_filter_def check_recovery_mode_def
  check_high_impact_news_def calculate_stop_loss_pips_def raw_position_size_def
  risk_based_position_size_def volume_for_risk_def ensure_account_info_def
  fixed_position_size_def pip_value_of_def round_to_step_def round_volume_def
  py_min_def py_max_def recent_first_def
  update_account_info_def update_positions_def trading_terminal_def saturday_terminal_def
  idle_terminal_def example_account_def eurusd_def new_risk_manager_def default_config_def
  breach_def symbol_breach_def loss_reached_def drawdown_reached_def positions_reached_def
  symbol_counts_def reset_risk_limits_def check_correlation_risk_def dict_get_def Let_def

text \<open>
  C2, as stated, fails. On a Saturday trading is not allowed and the returned volume is
  0, below the symbol's minimum volume of 0.01. And for a symbol with a minimum of 0.3 and
  a step of 0.1 the fixed lot of 0.01 is raised to 0.3 and then rounded down to 0.2:
  in binary64 the quotient \<^verbatim>\<open>0.3 / 0.1\<close> is below 3.
\<close>

theorem position_size_outside_limits:
  "snd (calculate_position_size binary64 saturday_terminal ''EURUSD'' ''BUY'' None
          (new_risk_manager default_config)) = Fin 0
   \<and> map_option si_volume_min (mt5_symbol_info saturday_terminal ''EURUSD'') = Some (1 / 100)
   \<and> map_option si_volume_max (mt5_symbol_info saturday_terminal ''EURUSD'') = Some 100
   \<and> snd (calculate_position_size binary64 coarse_terminal ''EURUSD'' ''BUY'' None
            fixed_lot_manager) = Fin (round53 (2 / 10))
   \<and> fl_div binary64 (si_volume_min coarse_symbol) (si_volume_step coarse_symbol)
       = 3 - 1 / 2 ^ 51
   \<and> round53 (2 / 10) < si_volume_min coarse_symbol"
  by (simp add: sizing_example_defs coarse_terminal_def coarse_symbol_def fixed_lot_manager_def
      binary64_defs)

text \<open>
  C2, amended. When trading is not allowed, or the symbol's data is not available, the
  volume is 0. When trading is allowed and the symbol has a positive volume step with
  which its limits are aligned as computed in floating point (minimum / step is at least
  an integer \<open>k\<close> and \<open>k\<close> steps are at least the minimum, maximum / step is at most an
  integer \<open>m\<close> and \<open>m\<close> steps are at most the maximum), then for every sizing method and
  every rounding policy the volume is a number within [minimum, maximum], and it is the
  floating-point product of an integer between \<open>k\<close> and \<open>m\<close> and the step (the
  volatility factor being non-zero when the method is \<^verbatim>\<open>volatility\<close>, so that it
  yields a number). Of the floating-point division and multiplication only their
  monotonicity is used.
\<close>

theorem position_size_within_limits:
  "(\<not> snd (check_trading_allowed w symbol st0)
      \<longrightarrow> snd (calculate_position_size fp w symbol action stop_loss_pips st0) = Fin 0)
   \<and> (snd (check_trading_allowed w symbol st0) \<and> mt5_symbol_info w symbol = None
      \<longrightarrow> snd (calculate_position_size fp w symbol action stop_loss_pips st0) = Fin 0)
   \<and> (snd (check_trading_allowed w symbol st0) \<and> mt5_symbol_info w symbol = Some si
       \<and> si_volume_step si > 0
       \<and> monotone_for fp (si_volume_step si)
       \<and> aligned fp si k m
       \<and> si_volume_min si \<le> si_volume_max si
       \<and> (ps_method (c_position_sizing (rm_config st0)) = ''volatility''
          \<longrightarrow> volatility_factor (c_position_sizing (rm_config st0)) \<noteq> 0)
      \<longrightarrow> (\<exists>v n. snd (calculate_position_size fp w symbol action stop_loss_pips st0) = Fin v
                 \<and> si_volume_min si \<le> v \<and> v \<le> si_volume_max si
                 \<and> v = fl_mul fp (of_int n) (si_volume_step si) \<and> k \<le> n \<and> n \<le> m))"
proof (intro conjI impI)
  assume "\<not> snd (check_trading_allowed w symbol st0)"
  then show "snd (calculate_position_size fp w symbol action stop_loss_pips st0) = Fin 0"
    by (simp add: calculate_position_size_def Let_def)
next
  assume "snd (check_trading_allowed w symbol st0) \<and> mt5_symbol_info w symbol = None"
  then show "snd (calculate_position_size fp w symbol action stop_loss_pips st0) = Fin 0"
    by (simp add: calculate_position_size_def Let_def)
next
  assume a: "snd (check_trading_allowed w symbol st0) \<and> mt5_symbol_info w symbol = Some si
       \<and> si_volume_step si > 0
       \<and> monotone_for fp (si_volume_step si)
       \<and> aligned fp si k m
       \<and> si_volume_min si \<le> si_volume_max si
       \<and> (ps_method (c_position_sizing (rm_config st0)) = ''volatility''
          \<longrightarrow> volatility_factor (c_position_sizing (rm_config st0)) \<noteq> 0)"
  define st where "st = fst (check_trading_allowed w symbol st0)"
  define pips where "pips = (case stop_loss_pips of
                               None \<Rightarrow> calculate_stop_loss_pips w st symbol action
                             | Some given \<Rightarrow> Py given)"
  define rr where "rr = (if rc_enabled (c_recovery_mode (rm_config st)) \<and> check_recovery_mode st
                   then 1 - rc_risk_reduction_percent (c_recovery_mode (rm_config st)) / 100 else 1)"
  define rounding where "rounding = position_size_rounding (c_position_sizing (rm_config st))"
  define clamped where
    "clamped = py_min (py_max (num_times (raw_position_size w st symbol action pips) rr)
                         (si_volume_min si)) (si_volume_max si)"
  have cfg: "rm_config st = rm_config st0"
    by (simp add: st_def check_trading_allowed_config)
  then have "ps_method (c_position_sizing (rm_config st)) = ''volatility''
             \<longrightarrow> volatility_factor (c_position_sizing (rm_config st)) \<noteq> 0"
    using a by simp
  then obtain x where "raw_position_size w st symbol action pips = Py x
                       \<or> raw_position_size w st symbol action pips = Np (Fin x)"
    using raw_position_size_number by blast
  then obtain c where c: "clamped = Py c \<or> clamped = Np (Fin c)"
    and c1: "si_volume_min si \<le> c" and c2: "c \<le> si_volume_max si"
    unfolding clamped_def using clamp_number [of _ x "si_volume_min si" "si_volume_max si" rr] a
    by blast
  have mono: "monotone_for fp (si_volume_step si)" and al: "aligned fp si k m" using a by auto
  obtain n where n: "round_to_step fp rounding c (si_volume_step si)
                       = fl_mul fp (of_int n) (si_volume_step si)"
    and kn: "k \<le> n" and nm: "n \<le> m"
    and v1: "si_volume_min si \<le> fl_mul fp (of_int n) (si_volume_step si)"
    and v2: "fl_mul fp (of_int n) (si_volume_step si) \<le> si_volume_max si"
    using round_to_step_within [OF mono al c1 c2, of rounding] by blast
  have a3: "si_volume_step si \<noteq> 0" using a by auto
  have rv: "round_volume fp rounding clamped (si_volume_step si)
            = Inr (Fin (fl_mul fp (of_int n) (si_volume_step si)))"
    using c a3 n by (auto simp: round_volume_def)
  have res: "snd (calculate_position_size fp w symbol action stop_loss_pips st0)
             = Fin (fl_mul fp (of_int n) (si_volume_step si))"
  proof -
    have a1: "snd (check_trading_allowed w symbol st0)"
      and a2: "mt5_symbol_info w symbol = Some si"
      using a by auto
    show ?thesis
      using a1 a2 rv
      by (simp add: calculate_position_size_def Let_def st_def [symmetric] pips_def [symmetric]
          rr_def [symmetric] rounding_def [symmetric] clamped_def [symmetric])
  qed
  show "\<exists>v n. snd (calculate_position_size fp w symbol action stop_loss_pips st0) = Fin v
                 \<and> si_volume_min si \<le> v \<and> v \<le> si_volume_max si
                 \<and> v = fl_mul fp (of_int n) (si_volume_step si) \<and> k \<le> n \<and> n \<le> m"
    using res v1 v2 kn nm by blast
qed

lemma eurusd64_aligned: "aligned binary64 eurusd64 1 10000"
  by (simp add: aligned_def eurusd64_def eurusd_def binary64_defs)

theorem position_size_within_limits_witness:
  "\<not> snd (check_trading_allowed saturday_terminal ''EURUSD'' (new_risk_manager default_config))
   \<and> snd (calculate_position_size binary64 saturday_terminal ''EURUSD'' ''BUY'' None
            (new_risk_manager default_config)) = Fin 0
   \<and> snd (check_trading_allowed binary64_terminal ''GBPUSD'' (new_risk_manager default_config))
   \<and> mt5_symbol_info binary64_terminal ''GBPUSD'' = None
   \<and> snd (calculate_position_size binary64 binary64_terminal ''GBPUSD'' ''BUY'' None
            (new_risk_manager default_config)) = Fin 0
   \<and> snd (check_trading_allowed binary64_terminal ''EURUSD'' (new_risk_manager default_config))
   \<and> mt5_symbol_info binary64_terminal ''EURUSD'' = Some eurusd64
   \<and> si_volume_step eurusd64 > 0
   \<and> monotone_for binary64 (si_volume_step eurusd64)
   \<and> aligned binary64 eurusd64 1 10000
   \<and> si_volume_min eurusd64 \<le> si_volume_max eurusd64
   \<and> volatility_factor (c_position_sizing (rm_config (new_risk_manager default_config))) \<noteq> 0
   \<and> (\<exists>v n. snd (calculate_position_size binary64 binary64_terminal ''EURUSD'' ''BUY'' None
                    (new_risk_manager default_config)) = Fin v
            \<and> si_volume_min eurusd64 \<le> v \<and> v \<le> si_volume_max eurusd64
            \<and> v = fl_mul binary64 (of_int n) (si_volume_step eurusd64) \<and> 1 \<le> n \<and> n \<le> 10000)"
proof -
  have pos: "si_volume_step eurusd64 > 0"
    by (simp add: eurusd64_def eurusd_def binary64_defs)
  have h1: "\<not> snd (check_trading_allowed saturday_terminal ''EURUSD''
                     (new_risk_manager default_config))"
    by (simp add: sizing_example_defs)
  have h2: "snd (check_trading_allowed binary64_terminal ''GBPUSD''
                   (new_risk_manager default_config))
            \<and> mt5_symbol_info binary64_terminal ''GBPUSD'' = None"
    by (simp add: sizing_example_defs binary64_terminal_def)
  have h3: "snd (check_trading_allowed binary64_terminal ''EURUSD''
                   (new_risk_manager default_config))
            \<and> mt5_symbol_info binary64_terminal ''EURUSD'' = Some eurusd64"
    by (simp add: sizing_example_defs binary64_terminal_def)
  have h4: "monotone_for binary64 (si_volume_step eurusd64)"
    using pos by (rule binary64_monotone)
  have h5: "si_volume_min eurusd64 \<le> si_volume_max eurusd64"
    by (simp add: eurusd64_def eurusd_def binary64_defs)
  have h6: "volatility_factor (c_position_sizing (rm_config (new_risk_manager default_config)))
              \<noteq> 0"
    by (simp add: new_risk_manager_def default_config_def)
  note inst = position_size_within_limits
    [of _ _ "new_risk_manager default_config" binary64 "''BUY''" None eurusd64 1 10000]
  have c1: "snd (calculate_position_size binary64 saturday_terminal ''EURUSD'' ''BUY'' None
                   (new_risk_manager default_config)) = Fin 0"
    using inst [of saturday_terminal "''EURUSD''"] h1 by blast
  have c2: "snd (calculate_position_size binary64 binary64_terminal ''GBPUSD'' ''BUY'' None
                   (new_risk_manager default_config)) = Fin 0"
    using inst [of binary64_terminal "''GBPUSD''"] h2 by blast
  have c3: "\<exists>v n. snd (calculate_position_size binary64 binary64_terminal ''EURUSD'' ''BUY'' None
                          (new_risk_manager default_config)) = Fin v
                  \<and> si_volume_min eurusd64 \<le> v \<and> v \<le> si_volume_max eurusd64
                  \<and> v = fl_mul binary64 (of_int n) (si_volume_step eurusd64)
                  \<and> 1 \<le> n \<and> n \<le> 10000"
    using inst [of binary64_terminal "''EURUSD''"] h3 pos h4 eurusd64_aligned h5 h6 by blast
  show ?thesis using h1 h2 h3 pos h4 eurusd64_aligned h5 h6 c1 c2 c3 by blast
qed

text \<open>In that example the risk-based method gives a volume of half a lot.\<close>

lemma example_position_size:
  "snd (calculate_position_size binary64 binary64_terminal ''EURUSD'' ''BUY'' None
          (new_risk_manager default_config)) = Fin (1 / 2)"
  by (simp add: sizing_example_defs binary64_terminal_def eurusd64_def binary64_defs)

text \<open>
  With a volume step of 0 the result is the fixed lot when the clamped volume is a
  built-in float, and not-a-number when it is a numpy float.
\<close>

lemma zero_step_volume:
  assumes "snd (check_trading_allowed w symbol st0)"
    and "mt5_symbol_info w symbol = Some si" and "si_volume_step si = 0"
  shows "snd (calculate_position_size fp w symbol action stop_loss_pips st0)
           = Fin (fixed_position_size (fst (check_trading_allowed w symbol st0)))
         \<or> snd (calculate_position_size fp w symbol action stop_loss_pips st0) = NaN"
  using assms
  by (auto simp: calculate_position_size_def Let_def round_volume_def
      split: pynum.splits sum.splits)

lemma zero_step_examples:
  "snd (calculate_position_size binary64 stepless_terminal ''EURUSD'' ''BUY'' None
          fixed_lot_manager) = Fin (1 / 100)
   \<and> snd (calculate_position_size binary64 stepless_terminal ''EURUSD'' ''BUY'' None
            volatility_manager) = NaN"
  by (simp add: sizing_example_defs stepless_terminal_def fixed_lot_manager_def
      volatility_manager_def volatility_based_position_size_def atr_pips_of_def atr_of_def
      np_div_def np_divide_def)

subsection \<open>Break-even and trailing stop\<close>

lemmas position_types = POSITION_TYPE_BUY_def POSITION_TYPE_SELL_def

lemma break_even_better:
  "break_even_target be p point = Some s \<Longrightarrow> strictly_better p s"
  by (auto simp: break_even_target_def strictly_better_def position_types split: if_splits)

lemma trailing_better:
  assumes tr: "trailing_target ts p point = Some s"
    and step: "0 \<le> ts_step_pips ts * 10 * point"
  shows "strictly_better p s"
proof -
  define d where "d = ts_step_pips ts * 10 * point"
  have d: "0 \<le> d" using step by (simp add: d_def)
  show ?thesis
    using tr d unfolding trailing_target_def d_def [symmetric]
    by (auto simp: strictly_better_def position_types split: if_splits)
qed

lemma profit_pips_of_sl [simp]:
  "profit_pips_of (p\<lparr> p_sl := s, p_tp := t \<rparr>) point = profit_pips_of p point"
  by (simp add: profit_pips_of_def)

lemma break_even_settled:
  "break_even_target be p point = Some s
   \<Longrightarrow> break_even_target be (p\<lparr> p_sl := s, p_tp := t \<rparr>) point = None"
  by (auto simp: break_even_target_def position_types split: if_splits)

lemma trailing_settled:
  assumes tr: "trailing_target ts p point = Some s"
    and step: "0 \<le> ts_step_pips ts * 10 * point"
  shows "trailing_target ts (p\<lparr> p_sl := s, p_tp := t \<rparr>) point = None"
proof -
  define d where "d = ts_step_pips ts * 10 * point"
  have d: "0 \<le> d" using step by (simp add: d_def)
  show ?thesis
    using tr d unfolding trailing_target_def d_def [symmetric]
    by (auto simp: position_types split: if_splits)
qed

lemma break_even_stays_off:
  assumes "trailing_target ts p point = Some s" and "0 \<le> ts_step_pips ts * 10 * point"
    and "break_even_target be p point = None"
  shows "break_even_target be (p\<lparr> p_sl := s, p_tp := t \<rparr>) point = None"
proof -
  have better: "strictly_better p s" using assms(1,2) by (rule trailing_better)
  have nz: "p_sl p \<noteq> 0" using assms(1) by (auto simp: trailing_target_def split: if_splits)
  show ?thesis
    using assms(3) better nz
    by (auto simp: break_even_target_def strictly_better_def position_types split: if_splits)
qed


lemma partial_close_levels_causes:
  "stop_entries (snd (snd (partial_close_levels w ticket p pp levels st))) = []"
proof (induction levels arbitrary: st)
  case Nil
  show ?case by (simp add: stop_entries_def)
next
  case (Cons level levels)
  have e: "filter is_stop_entry (map (\<lambda>rq. (Partial_Close l, rq, b)) rqs) = []" for l b rqs
    by (induction rqs) (simp_all add: is_stop_entry_def)
  show ?case
    using Cons [of st] Cons [of "fst (partial_close_position w ticket (snd level) st)"] e
    by (simp add: stop_entries_def Let_def split: sum.splits)
qed

lemma stop_entries_append: "stop_entries (xs @ ys) = stop_entries xs @ stop_entries ys"
  by (simp add: stop_entries_def)

lemma stop_entries_attempt:
  "why = Break_Even \<or> why = Trailing_Stop
   \<Longrightarrow> stop_entries (stop_attempt w why ticket p target) = stop_attempt w why ticket p target"
  by (auto simp: stop_entries_def stop_attempt_def is_stop_entry_def split: option.splits)

text \<open>The log of a call in terms of the two targets.\<close>

lemma manage_position_stop_entries:
  assumes pos: "map_of (rm_positions st) ticket = Some p"
    and si: "mt5_symbol_info w (p_symbol p) = Some si"
    and pt: "si_point si \<noteq> 0"
  shows "stop_entries (snd (snd (manage_position w ticket st))) =
           (if stop_accepted w ticket p
                 (break_even_target (c_break_even (rm_config st)) p (si_point si))
            then stop_attempt w Break_Even ticket p
                   (break_even_target (c_break_even (rm_config st)) p (si_point si))
            else stop_attempt w Break_Even ticket p
                   (break_even_target (c_break_even (rm_config st)) p (si_point si))
                 @ stop_attempt w Trailing_Stop ticket p
                     (trailing_target (c_trailing_stop (rm_config st)) p (si_point si)))"
  using pos si pt
  by (simp add: manage_position_def Let_def stop_entries_append stop_entries_attempt
      partial_close_levels_causes)

lemma attempt_improves:
  "(target = None \<or> (\<exists>s. target = Some s \<and> strictly_better p s))
   \<Longrightarrow> list_all (improves p) (stop_attempt w why ticket p target)"
  by (auto simp: stop_attempt_def improves_def)

lemma stop_requests_improve:
  assumes pos: "map_of (rm_positions st) ticket = Some p"
    and si: "mt5_symbol_info w (p_symbol p) = Some si"
    and pt: "0 < si_point si"
    and step: "0 \<le> ts_step_pips (c_trailing_stop (rm_config st))"
  shows "list_all (improves p) (stop_entries (snd (snd (manage_position w ticket st))))"
proof -
  have d: "0 \<le> ts_step_pips (c_trailing_stop (rm_config st)) * 10 * si_point si"
    using pt step by simp
  have b: "list_all (improves p) (stop_attempt w Break_Even ticket p
             (break_even_target (c_break_even (rm_config st)) p (si_point si)))"
    by (rule attempt_improves) (use break_even_better in fastforce)
  have t: "list_all (improves p) (stop_attempt w Trailing_Stop ticket p
             (trailing_target (c_trailing_stop (rm_config st)) p (si_point si)))"
    by (rule attempt_improves) (use trailing_better [OF _ d] in fastforce)
  show ?thesis
    using pos si pt b t by (simp add: manage_position_stop_entries)
qed


lemma partial_close_levels_not_break_even:
  "filter is_break_even_entry (snd (snd (partial_close_levels w ticket p pp levels st))) = []"
proof (induction levels arbitrary: st)
  case Nil
  show ?case by simp
next
  case (Cons level levels)
  have e: "filter is_break_even_entry (map (\<lambda>rq. (Partial_Close l, rq, b)) rqs) = []" for l b rqs
    by (induction rqs) (simp_all add: is_break_even_entry_def)
  show ?case
    using Cons [of st] Cons [of "fst (partial_close_position w ticket (snd level) st)"] e
    by (simp add: Let_def split: sum.splits)
qed

lemma manage_position_break_even_entries:
  assumes pos: "map_of (rm_positions st) ticket = Some p"
    and si: "mt5_symbol_info w (p_symbol p) = Some si"
    and pt: "si_point si \<noteq> 0"
  shows "filter is_break_even_entry (snd (snd (manage_position w ticket st))) =
           stop_attempt w Break_Even ticket p
             (break_even_target (c_break_even (rm_config st)) p (si_point si))"
proof -
  have b: "filter is_break_even_entry (stop_attempt w Break_Even ticket p target)
           = stop_attempt w Break_Even ticket p target" for target
    by (cases target) (simp_all add: stop_attempt_def is_break_even_entry_def)
  have t: "filter is_break_even_entry (stop_attempt w Trailing_Stop ticket p target) = []"
    for target
    by (cases target) (simp_all add: stop_attempt_def is_break_even_entry_def)
  show ?thesis
    using pos si pt
    by (simp add: manage_position_def Let_def b t partial_close_levels_not_break_even)
qed

lemma manage_position_accepted_state:
  assumes pos: "map_of (rm_positions st) ticket = Some p"
    and si: "mt5_symbol_info w (p_symbol p) = Some si"
    and pt: "si_point si \<noteq> 0"
  shows "stop_accepted w ticket p
           (break_even_target (c_break_even (rm_config st)) p (si_point si))
         \<Longrightarrow> break_even_target (c_break_even (rm_config st)) p (si_point si) = Some s
         \<Longrightarrow> fst (manage_position w ticket st)
             = st\<lparr> rm_positions :=
                     AList.update ticket (p\<lparr> p_sl := s, p_tp := p_tp p \<rparr>) (rm_positions st) \<rparr>"
    and "\<not> stop_accepted w ticket p
             (break_even_target (c_break_even (rm_config st)) p (si_point si))
         \<Longrightarrow> stop_accepted w ticket p
               (trailing_target (c_trailing_stop (rm_config st)) p (si_point si))
         \<Longrightarrow> trailing_target (c_trailing_stop (rm_config st)) p (si_point si) = Some s
         \<Longrightarrow> fst (manage_position w ticket st)
             = st\<lparr> rm_positions :=
                     AList.update ticket (p\<lparr> p_sl := s, p_tp := p_tp p \<rparr>) (rm_positions st) \<rparr>"
  using pos si pt
  by (simp_all add: manage_position_def Let_def stop_applied_def stop_accepted_def
      modify_position_def)

lemma partial_close_levels_not_trailing:
  "filter is_trailing_stop_entry (snd (snd (partial_close_levels w ticket p pp levels st))) = []"
proof (induction levels arbitrary: st)
  case Nil
  show ?case by simp
next
  case (Cons level levels)
  have e: "filter is_trailing_stop_entry (map (\<lambda>rq. (Partial_Close l, rq, b)) rqs) = []"
    for l b rqs
    by (induction rqs) (simp_all add: is_trailing_stop_entry_def)
  show ?case
    using Cons [of st] Cons [of "fst (partial_close_position w ticket (snd level) st)"] e
    by (simp add: Let_def split: sum.splits)
qed

lemma manage_position_trailing_entries:
  assumes pos: "map_of (rm_positions st) ticket = Some p"
    and si: "mt5_symbol_info w (p_symbol p) = Some si"
    and pt: "si_point si \<noteq> 0"
  shows "filter is_trailing_stop_entry (snd (snd (manage_position w ticket st))) =
           (if stop_accepted w ticket p
                 (break_even_target (c_break_even (rm_config st)) p (si_point si))
            then []
            else stop_attempt w Trailing_Stop ticket p
                   (trailing_target (c_trailing_stop (rm_config st)) p (si_point si)))"
proof -
  have b: "filter is_trailing_stop_entry (stop_attempt w Break_Even ticket p target) = []"
    for target
    by (cases target) (simp_all add: stop_attempt_def is_trailing_stop_entry_def)
  have t: "filter is_trailing_stop_entry (stop_attempt w Trailing_Stop ticket p target)
           = stop_attempt w Trailing_Stop ticket p target" for target
    by (cases target) (simp_all add: stop_attempt_def is_trailing_stop_entry_def)
  show ?thesis
    using pos si pt
    by (simp add: manage_position_def Let_def b t partial_close_levels_not_trailing)
qed

lemma no_trailing_twice:
  assumes pos: "map_of (rm_positions st) ticket = Some p"
    and si: "mt5_symbol_info w (p_symbol p) = Some si"
    and pt: "0 < si_point si"
    and step: "0 \<le> ts_step_pips (c_trailing_stop (rm_config st))"
    and w2: "mt5_symbol_info w2 = mt5_symbol_info w"
    and log1: "(Trailing_Stop, rq, True) \<in> set (snd (snd (manage_position w ticket st)))"
  shows "filter is_trailing_stop_entry
           (snd (snd (manage_position w2 ticket (fst (manage_position w ticket st))))) = []
         \<and> (filter is_break_even_entry (snd (snd (manage_position w ticket st))) = []
            \<longrightarrow> stop_entries
                  (snd (snd (manage_position w2 ticket (fst (manage_position w ticket st)))))
                = [])"
proof -
  let ?be = "break_even_target (c_break_even (rm_config st)) p (si_point si)"
  let ?tr = "trailing_target (c_trailing_stop (rm_config st)) p (si_point si)"
  have d: "0 \<le> ts_step_pips (c_trailing_stop (rm_config st)) * 10 * si_point si"
    using pt step by simp
  have pt0: "si_point si \<noteq> 0" using pt by simp
  have "(Trailing_Stop, rq, True)
        \<in> set (filter is_trailing_stop_entry (snd (snd (manage_position w ticket st))))"
    using log1 by (simp add: is_trailing_stop_entry_def)
  then have shape:
    "(Trailing_Stop, rq, True)
     \<in> set (if stop_accepted w ticket p ?be then []
             else stop_attempt w Trailing_Stop ticket p ?tr)"
    using manage_position_trailing_entries [OF pos si pt0] by simp
  have nacc: "\<not> stop_accepted w ticket p ?be"
    using shape by (auto split: if_splits)
  obtain s where tr: "?tr = Some s" and acc: "stop_accepted w ticket p ?tr"
    using shape nacc by (cases ?tr) (auto simp: stop_attempt_def stop_accepted_def)
  define p1 where "p1 = p\<lparr> p_sl := s, p_tp := p_tp p \<rparr>"
  define st1 where "st1 = fst (manage_position w ticket st)"
  have st1: "st1 = st\<lparr> rm_positions := AList.update ticket p1 (rm_positions st) \<rparr>"
    unfolding st1_def p1_def
    using manage_position_accepted_state(2) [OF pos si pt0 nacc acc tr] .
  have pos1: "map_of (rm_positions st1) ticket = Some p1"
    by (simp add: st1 update_conv')
  have si1: "mt5_symbol_info w2 (p_symbol p1) = Some si"
    using si w2 by (simp add: p1_def)
  have cfg: "rm_config st1 = rm_config st" by (simp add: st1)
  have tr1: "trailing_target (c_trailing_stop (rm_config st1)) p1 (si_point si) = None"
    unfolding cfg p1_def using tr d by (rule trailing_settled)
  have first: "filter is_trailing_stop_entry (snd (snd (manage_position w2 ticket st1))) = []"
    using manage_position_trailing_entries [OF pos1 si1 pt0] tr1
    by (simp add: stop_attempt_def)
  have second: "stop_entries (snd (snd (manage_position w2 ticket st1))) = []"
    if none: "filter is_break_even_entry (snd (snd (manage_position w ticket st))) = []"
  proof -
    have "stop_attempt w Break_Even ticket p ?be = []"
      using none manage_position_break_even_entries [OF pos si pt0] by simp
    then have be: "?be = None" by (cases ?be) (simp_all add: stop_attempt_def)
    have be1: "break_even_target (c_break_even (rm_config st1)) p1 (si_point si) = None"
      unfolding cfg p1_def using tr d be by (rule break_even_stays_off)
    show ?thesis
      using manage_position_stop_entries [OF pos1 si1 pt0] be1 tr1
      by (simp add: stop_attempt_def stop_accepted_def)
  qed
  show ?thesis
    unfolding st1_def [symmetric] using first second by blast
qed

lemma no_break_even_again:
  assumes pos: "map_of (rm_positions st) ticket = Some p"
    and si: "mt5_symbol_info w (p_symbol p) = Some si"
    and pt: "0 < si_point si"
    and w2: "mt5_symbol_info w2 = mt5_symbol_info w"
    and log1: "(Break_Even, rq, True) \<in> set (snd (snd (manage_position w ticket st)))"
  shows "filter is_break_even_entry
           (snd (snd (manage_position w2 ticket (fst (manage_position w ticket st))))) = []"
proof -
  let ?be = "break_even_target (c_break_even (rm_config st)) p (si_point si)"
  have pt0: "si_point si \<noteq> 0" using pt by simp
  have "(Break_Even, rq, True)
        \<in> set (filter is_break_even_entry (snd (snd (manage_position w ticket st))))"
    using log1 by (simp add: is_break_even_entry_def)
  then have shape: "(Break_Even, rq, True) \<in> set (stop_attempt w Break_Even ticket p ?be)"
    using manage_position_break_even_entries [OF pos si pt0] by simp
  obtain s where be: "?be = Some s" and acc: "stop_accepted w ticket p ?be"
    using shape by (cases ?be) (auto simp: stop_attempt_def stop_accepted_def)
  define p1 where "p1 = p\<lparr> p_sl := s, p_tp := p_tp p \<rparr>"
  define st1 where "st1 = fst (manage_position w ticket st)"
  have st1: "st1 = st\<lparr> rm_positions := AList.update ticket p1 (rm_positions st) \<rparr>"
    unfolding st1_def p1_def
    using manage_position_accepted_state(1) [OF pos si pt0 acc be] .
  have pos1: "map_of (rm_positions st1) ticket = Some p1"
    by (simp add: st1 update_conv')
  have si1: "mt5_symbol_info w2 (p_symbol p1) = Some si"
    using si w2 by (simp add: p1_def)
  have cfg: "rm_config st1 = rm_config st" by (simp add: st1)
  have be1: "break_even_target (c_break_even (rm_config st1)) p1 (si_point si) = None"
    unfolding cfg p1_def using be by (rule break_even_settled)
  show ?thesis
    unfolding st1_def [symmetric]
    using manage_position_break_even_entries [OF pos1 si1 pt0] be1
    by (simp add: stop_attempt_def)
qed


lemmas manage_example_defs =
  manage_position_def break_even_target_def trailing_target_def profit_pips_of_def
  stop_attempt_def stop_accepted_def stop_applied_def modify_position_def
  partial_close_position_def close_volume_of_def mark_level_def
  POSITION_TYPE_BUY_def POSITION_TYPE_SELL_def ORDER_TYPE_BUY_def ORDER_TYPE_SELL_def
  holding_def position_terminal_def trading_terminal_def idle_terminal_def
  example_position_def example_account_def eurusd_def update_positions_def pos_dict_def
  new_risk_manager_def default_config_def Let_def

lemma after_break_even_positions: "rm_positions after_break_even = [(1, pos_dict (example_position 1 1 (11002 / 10000)))]"
  by (simp add: after_break_even_def manage_example_defs)

lemma after_trailing_positions: "rm_positions after_trailing = [(1, pos_dict (example_position 1 1 (1101 / 1000)))]"
  by (simp add: after_trailing_def after_break_even_positions manage_position_def break_even_target_def trailing_target_def profit_pips_of_def
  stop_attempt_def stop_accepted_def stop_applied_def modify_position_def POSITION_TYPE_BUY_def POSITION_TYPE_SELL_def
   position_terminal_def trading_terminal_def idle_terminal_def
  example_position_def example_account_def eurusd_def pos_dict_def after_break_even_def holding_def update_positions_def
  new_risk_manager_def default_config_def Let_def)

text \<open>
  C4, as stated, fails in its second half: a long position opened at 1.1000 with the
  price at 1.1020 and the stop loss at 1.0950. The first call moves the stop loss to break
  even (1.1002); the second call, at the same price, moves it again, to the trailing stop
  (1.1010).
\<close>

theorem second_call_modifies_stop:
  "snd (snd (manage_position (position_terminal 1 (1095 / 1000)) 1 (holding 1 (1095 / 1000))))
     = [(Break_Even, Sltp_Request 1 (11002 / 10000) 0, True)]
   \<and> snd (snd (manage_position (position_terminal 1 (1095 / 1000)) 1 after_break_even))
     = [(Trailing_Stop, Sltp_Request 1 (1101 / 1000) 0, True)]"
  by (simp add: after_break_even_def manage_example_defs)

text \<open>
  C4, amended. With a positive point and a non-negative trailing step, every stop-loss
  request that \<^verbatim>\<open>manage_position\<close> sends for a position asks for a stop loss strictly
  better than the current one for the position's side. A call that follows, at an
  unchanged price, a call whose trailing-stop request was accepted sends no trailing-stop
  request, and no stop-loss request at all when the earlier call had sent no break-even
  request (a break-even request that the terminal refused may be sent again). A call that
  follows a call whose break-even request was accepted sends no break-even request (it
  may still send one trailing-stop request).
\<close>

theorem stop_updates_improve:
  assumes pos: "map_of (rm_positions st) ticket = Some p"
    and si: "mt5_symbol_info w (p_symbol p) = Some si"
    and pt: "0 < si_point si"
    and step: "0 \<le> ts_step_pips (c_trailing_stop (rm_config st))"
    and w2: "mt5_symbol_info w2 = mt5_symbol_info w"
  shows "list_all (improves p) (stop_entries (snd (snd (manage_position w ticket st))))
         \<and> ((Trailing_Stop, rq, True) \<in> set (snd (snd (manage_position w ticket st)))
            \<longrightarrow> filter is_trailing_stop_entry
                  (snd (snd (manage_position w2 ticket (fst (manage_position w ticket st)))))
                = []
                \<and> (filter is_break_even_entry (snd (snd (manage_position w ticket st))) = []
                   \<longrightarrow> stop_entries
                         (snd (snd (manage_position w2 ticket
                                      (fst (manage_position w ticket st))))) = []))
         \<and> ((Break_Even, rq, True) \<in> set (snd (snd (manage_position w ticket st)))
            \<longrightarrow> filter is_break_even_entry
                  (snd (snd (manage_position w2 ticket
                               (fst (manage_position w ticket st))))) = [])"
  using stop_requests_improve [OF pos si pt step]
    no_trailing_twice [OF pos si pt step w2]
    no_break_even_again [OF pos si pt w2]
  by blast

theorem stop_updates_improve_witness:
  "map_of (rm_positions after_break_even) 1
     = Some (pos_dict (example_position 1 1 (11002 / 10000)))
   \<and> mt5_symbol_info (position_terminal 1 (1095 / 1000))
        (p_symbol (pos_dict (example_position 1 1 (11002 / 10000)))) = Some eurusd
   \<and> 0 < si_point eurusd
   \<and> 0 \<le> ts_step_pips (c_trailing_stop (rm_config after_break_even))
   \<and> snd (snd (manage_position (position_terminal 1 (1095 / 1000)) 1 after_break_even))
       = [(Trailing_Stop, Sltp_Request 1 (1101 / 1000) 0, True)]
   \<and> list_all (improves (pos_dict (example_position 1 1 (11002 / 10000))))
        (stop_entries (snd (snd (manage_position (position_terminal 1 (1095 / 1000)) 1
                                   after_break_even))))
   \<and> filter is_trailing_stop_entry
        (snd (snd (manage_position (position_terminal 1 (1095 / 1000)) 1 after_trailing))) = []
   \<and> stop_entries (snd (snd (manage_position (position_terminal 1 (1095 / 1000)) 1
                               after_trailing))) = []
   \<and> snd (snd (manage_position (position_terminal 1 (1095 / 1000)) 1
                 (holding 1 (1095 / 1000))))
       = [(Break_Even, Sltp_Request 1 (11002 / 10000) 0, True)]
   \<and> filter is_break_even_entry
        (snd (snd (manage_position (position_terminal 1 (1095 / 1000)) 1 after_break_even)))
       = []
   \<and> snd (snd (manage_position refusing_terminal 1 wide_trailing))
       = [(Break_Even, Sltp_Request 1 (11002 / 10000) 0, False),
          (Trailing_Stop, Sltp_Request 1 (1099 / 1000) 0, True)]
   \<and> filter is_trailing_stop_entry
        (snd (snd (manage_position (position_terminal 1 (1095 / 1000)) 1
                     (fst (manage_position refusing_terminal 1 wide_trailing))))) = []"
proof -
  let ?w = "position_terminal 1 (1095 / 1000)"
  have h1: "map_of (rm_positions after_break_even) 1
              = Some (pos_dict (example_position 1 1 (11002 / 10000)))"
    by (simp add: after_break_even_positions)
  have h2: "mt5_symbol_info ?w (p_symbol (pos_dict (example_position 1 1 (11002 / 10000))))
              = Some eurusd"
    by (simp add: manage_example_defs)
  have h3: "0 < si_point eurusd" by (simp add: eurusd_def)
  have h4: "0 \<le> ts_step_pips (c_trailing_stop (rm_config after_break_even))"
    by (simp add: after_break_even_def manage_example_defs)
  have h5: "snd (snd (manage_position ?w 1 after_break_even))
              = [(Trailing_Stop, Sltp_Request 1 (1101 / 1000) 0, True)]"
    by (simp add: after_break_even_def manage_example_defs)
  have g1: "map_of (rm_positions (holding 1 (1095 / 1000))) 1
              = Some (pos_dict (example_position 1 1 (1095 / 1000)))"
    by (simp add: manage_example_defs)
  have g2: "mt5_symbol_info ?w (p_symbol (pos_dict (example_position 1 1 (1095 / 1000))))
              = Some eurusd"
    by (simp add: manage_example_defs)
  have g4: "0 \<le> ts_step_pips (c_trailing_stop (rm_config (holding 1 (1095 / 1000))))"
    by (simp add: manage_example_defs)
  have g5: "snd (snd (manage_position ?w 1 (holding 1 (1095 / 1000))))
              = [(Break_Even, Sltp_Request 1 (11002 / 10000) 0, True)]"
    by (simp add: manage_example_defs)
  have k1: "map_of (rm_positions wide_trailing) 1
              = Some (pos_dict (example_position 1 1 (1095 / 1000)))"
    by (simp add: wide_trailing_def manage_example_defs)
  have k2: "mt5_symbol_info refusing_terminal
              (p_symbol (pos_dict (example_position 1 1 (1095 / 1000)))) = Some eurusd"
    by (simp add: refusing_terminal_def manage_example_defs)
  have k4: "0 \<le> ts_step_pips (c_trailing_stop (rm_config wide_trailing))"
    by (simp add: wide_trailing_def manage_example_defs)
  have k5: "snd (snd (manage_position refusing_terminal 1 wide_trailing))
              = [(Break_Even, Sltp_Request 1 (11002 / 10000) 0, False),
                 (Trailing_Stop, Sltp_Request 1 (1099 / 1000) 0, True)]"
    by (simp add: wide_trailing_def refusing_terminal_def manage_example_defs)
  have k6: "mt5_symbol_info ?w = mt5_symbol_info refusing_terminal"
    by (simp add: refusing_terminal_def)
  have m1: "(Trailing_Stop, Sltp_Request 1 (1101 / 1000) 0, True)
            \<in> set (snd (snd (manage_position ?w 1 after_break_even)))"
    and m2: "filter is_break_even_entry (snd (snd (manage_position ?w 1 after_break_even))) = []"
    unfolding h5 by (simp_all add: is_break_even_entry_def)
  have m3: "(Break_Even, Sltp_Request 1 (11002 / 10000) 0, True)
            \<in> set (snd (snd (manage_position ?w 1 (holding 1 (1095 / 1000)))))"
    unfolding g5 by simp
  have m4: "(Trailing_Stop, Sltp_Request 1 (1099 / 1000) 0, True)
            \<in> set (snd (snd (manage_position refusing_terminal 1 wide_trailing)))"
    unfolding k5 by simp
  have a: "list_all (improves (pos_dict (example_position 1 1 (11002 / 10000))))
             (stop_entries (snd (snd (manage_position ?w 1 after_break_even))))
           \<and> filter is_trailing_stop_entry (snd (snd (manage_position ?w 1 after_trailing))) = []
           \<and> stop_entries (snd (snd (manage_position ?w 1 after_trailing))) = []"
    using stop_updates_improve [OF h1 h2 h3 h4 refl, of "Sltp_Request 1 (1101 / 1000) 0"] m1 m2
    unfolding after_trailing_def by blast
  have b: "filter is_break_even_entry (snd (snd (manage_position ?w 1 after_break_even))) = []"
    using stop_updates_improve [OF g1 g2 h3 g4 refl, of "Sltp_Request 1 (11002 / 10000) 0"] m3
    unfolding after_break_even_def by blast
  have c: "filter is_trailing_stop_entry
             (snd (snd (manage_position ?w 1
                          (fst (manage_position refusing_terminal 1 wide_trailing))))) = []"
    using stop_updates_improve [OF k1 k2 h3 k4 k6, of "Sltp_Request 1 (1099 / 1000) 0"] m4
    by blast
  show ?thesis using h1 h2 h3 h4 h5 g5 k5 a b c by blast
qed

text \<open>
  A break-even request that the terminal refused is sent again by the next call, also
  after the trailing stop has moved the stop loss.
\<close>

lemma refused_break_even_sent_again:
  "snd (snd (manage_position refusing_terminal 1 wide_trailing))
     = [(Break_Even, Sltp_Request 1 (11002 / 10000) 0, False),
        (Trailing_Stop, Sltp_Request 1 (1099 / 1000) 0, True)]
   \<and> snd (snd (manage_position (position_terminal 1 (1095 / 1000)) 1
                 (fst (manage_position refusing_terminal 1 wide_trailing))))
     = [(Break_Even, Sltp_Request 1 (11002 / 10000) 0, True)]"
  by (simp add: wide_trailing_def refusing_terminal_def manage_example_defs)

subsection \<open>Partial closes\<close>

text \<open>
  C5 at a concrete input: a long position of one lot without a stop loss, 20 pips in
  profit. The first call closes a quarter of it at level 15 and marks the level in the
  position dictionary; a second call on that state does nothing. But once
  \<^verbatim>\<open>update_positions\<close> has fetched the positions again, the mark is gone, and the next
  call closes at level 15 a second time (0.18 of the remaining 0.75).
\<close>

theorem partial_close_repeats_after_refresh:
  "snd (snd (manage_position (position_terminal (3 / 4) 0) 1 (holding 1 0)))
     = [(Partial_Close 15, Deal_Request ''EURUSD'' (1 / 4) 1 1 (1102 / 1000), True)]
   \<and> map (p_partial_closed \<circ> snd) (rm_positions after_partial_close) = [[15]]
   \<and> snd (snd (manage_position (position_terminal (3 / 4) 0) 1 after_partial_close)) = []
   \<and> map (p_partial_closed \<circ> snd)
        (rm_positions (fst (update_positions (position_terminal (3 / 4) 0) after_partial_close)))
       = [[]]
   \<and> snd (snd (manage_position (position_terminal (57 / 100) 0) 1
                 (fst (update_positions (position_terminal (3 / 4) 0) after_partial_close))))
     = [(Partial_Close 15, Deal_Request ''EURUSD'' (18 / 100) 1 1 (1102 / 1000), True)]"
  by (simp add: after_partial_close_def manage_example_defs)

end
